theory Spec2Isabelle
  imports Complex_Main
begin

section \<open>Numbers, enums and failures\<close>

text \<open>
  The engine of \<^verbatim>\<open>src/services/neuralNet.ts\<close> computes on TypeScript \<^verbatim>\<open>number\<close>s.
  They are modelled as mathematical reals: the model follows every execution in which all
  values are finite numbers, and it computes without rounding. Array indices, loop
  counters and the batch counter are natural numbers. Where a property depends on the
  rounding (the ranges of the activation functions), the last section of the definitions
  embeds the functions a second time, in binary64 arithmetic.

  The two enums of the types file are string enums (\<^verbatim>\<open>SIGMOID = 'SIGMOID'\<close>, ...); at run
  time a selector is a string, and the code compares it with the three members. The model
  keeps the string, so that a selector outside the enum is an input of the model.
\<close>

type_synonym ActivationType = string
type_synonym DatasetType = string

definition SIGMOID :: ActivationType where "SIGMOID = ''SIGMOID''"
definition RELU :: ActivationType where "RELU = ''RELU''"
definition TANH :: ActivationType where "TANH = ''TANH''"

definition DS_XOR :: DatasetType where "DS_XOR = ''XOR''"
definition DS_CIRCLE :: DatasetType where "DS_CIRCLE = ''CIRCLE''"
definition DS_QUADRANTS :: DatasetType where "DS_QUADRANTS = ''QUADRANTS''"

section \<open>Dataset generator\<close>

record DataPoint =
  inputs :: "real list"
  target :: "real list"

text \<open>
  \<^verbatim>\<open>Math.random()\<close> is a parameter: \<open>rnd n\<close> is the value of the \<open>n\<close>-th call (counted
  from 0) made by the function. The Quadrants loop calls it twice per point, first for
  \<open>x\<close>, then for \<open>y\<close>.
\<close>

definition quadrantsPoint :: "(nat \<Rightarrow> real) \<Rightarrow> nat \<Rightarrow> DataPoint" where
  "quadrantsPoint rnd i =
     (let x = (if i mod 2 = 0 then - 1 else 1) * (0.5 + rnd (2 * i) * 0.4);
          y = rnd (2 * i + 1) * 2 - 1
      in \<lparr>inputs = [x, y], target = [if x > 0 then 1 else 0]\<rparr>)"

definition circlePoint :: "nat \<Rightarrow> DataPoint" where
  "circlePoint i =
     (let angle = (real i / 8) * pi * 2;
          r = (if i mod 2 = 0 then 0.3 else 0.9 :: real);
          x = cos angle * r;
          y = sin angle * r
      in \<lparr>inputs = [x, y], target = [if r < 0.5 then 1 else 0]\<rparr>)"

text \<open>
  \<^verbatim>\<open>generateData(type, count = 8)\<close>. An omitted count is \<open>None\<close>. The body never reads
  \<open>count\<close>: both loops run \<^verbatim>\<open>for (let i=0; i<8; i++)\<close>. The last branch is a plain
  \<^verbatim>\<open>else\<close>, so it takes every selector that is neither XOR nor QUADRANTS.
\<close>

definition generateData :: "DatasetType \<Rightarrow> nat option \<Rightarrow> (nat \<Rightarrow> real) \<Rightarrow> DataPoint list" where
  "generateData type count rnd =
     (let count = (case count of None \<Rightarrow> 8 | Some c \<Rightarrow> c) in
      if type = DS_XOR then
        [\<lparr>inputs = [0.1, 0.1], target = [0]\<rparr>,
         \<lparr>inputs = [0.9, 0.1], target = [1]\<rparr>,
         \<lparr>inputs = [0.1, 0.9], target = [1]\<rparr>,
         \<lparr>inputs = [0.9, 0.9], target = [0]\<rparr>,
         \<lparr>inputs = [0.2, 0.2], target = [0]\<rparr>,
         \<lparr>inputs = [0.8, 0.2], target = [1]\<rparr>,
         \<lparr>inputs = [0.2, 0.8], target = [1]\<rparr>,
         \<lparr>inputs = [0.8, 0.8], target = [0]\<rparr>]
      else if type = DS_QUADRANTS then map (quadrantsPoint rnd) [0..<8]
      else map circlePoint [0..<8])"

section \<open>Failures and array reads\<close>

text \<open>
  A JavaScript array read out of range gives \<^verbatim>\<open>undefined\<close>. What follows depends on the
  use: reading a property or an element of \<^verbatim>\<open>undefined\<close> throws a TypeError; arithmetic on
  it gives \<^verbatim>\<open>NaN\<close>, and the code runs on. The model has both as results:
  \<^item> \<open>TypeError\<close>: the code throws here;
  \<^item> \<open>NonNumber\<close>: a value that is no finite number (\<^verbatim>\<open>undefined\<close>, \<^verbatim>\<open>NaN\<close>, an infinity,
    an array hole) enters the computation or the state here; the code runs on with it (and
    may throw further on), the real-valued model stops.
  The model reads the operands of an expression in the order of the code and ends at the
  first of the two. A run of the model that ends in \<open>Inr\<close> is a run of the code without
  either, and the model follows it step by step; after a failure the JavaScript object is
  left part-way through the call, which the model does not describe.
\<close>

datatype failure = TypeError | NonNumber

definition and_then :: "failure + 'a \<Rightarrow> ('a \<Rightarrow> failure + 'b) \<Rightarrow> failure + 'b" where
  "and_then m f = (case m of Inl e \<Rightarrow> Inl e | Inr x \<Rightarrow> f x)"

text \<open>\<open>idx xs i\<close>: the element \<^verbatim>\<open>xs[i]\<close>, which the code then dereferences.\<close>

definition idx :: "'a list \<Rightarrow> nat \<Rightarrow> failure + 'a" where
  "idx xs i = (if i < length xs then Inr (xs ! i) else Inl TypeError)"

text \<open>\<open>num xs i\<close>: the element \<^verbatim>\<open>xs[i]\<close>, used as a number.\<close>

definition num :: "real list \<Rightarrow> nat \<Rightarrow> failure + real" where
  "num xs i = (if i < length xs then Inr (xs ! i) else Inl NonNumber)"

text \<open>\<open>opt xs i\<close>: the element \<^verbatim>\<open>xs[i]\<close> kept for later, \<open>None\<close> for \<^verbatim>\<open>undefined\<close>.\<close>

definition opt :: "'a list \<Rightarrow> nat \<Rightarrow> 'a option" where
  "opt xs i = (if i < length xs then Some (xs ! i) else None)"

text \<open>
  \<open>put xs i v\<close>: the assignment \<^verbatim>\<open>xs[i] = v\<close>. JavaScript extends the array when
  \<open>i\<close> is its length, and leaves holes when \<open>i\<close> is beyond.
\<close>

definition put :: "real list \<Rightarrow> nat \<Rightarrow> real \<Rightarrow> failure + real list" where
  "put xs i v =
     (if i < length xs then Inr (xs[i := v])
      else if i = length xs then Inr (xs @ [v])
      else Inl NonNumber)"

text \<open>A \<^verbatim>\<open>for\<close> loop over the indices \<open>is\<close>, threading the variables it assigns.\<close>

fun for_loop :: "nat list \<Rightarrow> (nat \<Rightarrow> 's \<Rightarrow> failure + 's) \<Rightarrow> 's \<Rightarrow> failure + 's" where
  "for_loop [] body s = Inr s"
| "for_loop (i # is) body s =
     (case body i s of Inl e \<Rightarrow> Inl e | Inr s' \<Rightarrow> for_loop is body s')"

text \<open>A \<^verbatim>\<open>for\<close> loop whose only effect is one \<^verbatim>\<open>push\<close> per iteration.\<close>

fun push_loop :: "nat list \<Rightarrow> (nat \<Rightarrow> failure + 'a) \<Rightarrow> failure + 'a list" where
  "push_loop [] body = Inr []"
| "push_loop (i # is) body =
     (case body i of Inl e \<Rightarrow> Inl e
      | Inr v \<Rightarrow> (case push_loop is body of Inl e \<Rightarrow> Inl e | Inr vs \<Rightarrow> Inr (v # vs)))"

section \<open>Activation functions\<close>

definition sigmoid :: "real \<Rightarrow> real" where
  "sigmoid x = 1 / (1 + exp (- x))"

definition sigmoidDerivative :: "real \<Rightarrow> real" where
  "sigmoidDerivative x = x * (1 - x)"

definition relu :: "real \<Rightarrow> real" where
  "relu x = max 0 x"

definition reluDerivative :: "real \<Rightarrow> real" where
  "reluDerivative x = (if x > 0 then 1 else 0)"

definition tanh_fn :: "real \<Rightarrow> real" where
  "tanh_fn x = tanh x"

definition tanhDerivative :: "real \<Rightarrow> real" where
  "tanhDerivative x = 1 - (x * x)"

section \<open>The network engine\<close>

record LayerConfig =
  neurons :: nat
  activation :: ActivationType

record MiniNeuralNet =
  layers :: "LayerConfig list"
  weights :: "real list list list"
  biases :: "real list list"
  activations :: "real list list"
  preActivations :: "real list list"
  neuronGradients :: "real list list"
  weightGradients :: "real list list list"
  learningRate :: real
  batchSize :: real
  currentBatchCount :: nat
  accWeightGradients :: "real list list list"
  accBiasGradients :: "real list list"

text \<open>
  \<^verbatim>\<open>new Array(n).fill(0)\<close> is \<open>replicate n 0\<close>. A layer's \<^verbatim>\<open>neurons\<close> is a natural
  number in the model, so the RangeError of \<^verbatim>\<open>new Array\<close> on a negative or fractional
  length has no input here.
\<close>

definition resetAccumulators :: "MiniNeuralNet \<Rightarrow> MiniNeuralNet" where
  "resetAccumulators net =
     net\<lparr>accWeightGradients := map (\<lambda>l. map (\<lambda>n. replicate (length n) 0) l) (weights net),
         accBiasGradients := map (\<lambda>l. replicate (length l) 0) (biases net),
         currentBatchCount := 0\<rparr>"

definition updateConfig :: "MiniNeuralNet \<Rightarrow> real \<Rightarrow> real \<Rightarrow> MiniNeuralNet" where
  "updateConfig net lr bs =
     (let net = net\<lparr>learningRate := lr\<rparr> in
      if batchSize net \<noteq> bs
      then resetAccumulators (net\<lparr>batchSize := bs, currentBatchCount := 0\<rparr>)
      else net)"

text \<open>
  \<^verbatim>\<open>initializeWeights\<close>, one step of its loop \<^verbatim>\<open>for (let i = 1; i < layers.length; i++)\<close>
  per pair of neighbouring layers. \<open>n\<close> counts the calls of \<^verbatim>\<open>Math.random()\<close> made so far:
  a layer draws its weights row by row, then its biases. The result is the four arrays
  the loop pushes to: weights, weight gradients, biases, neuron gradients.
\<close>

fun initLayers :: "(nat \<Rightarrow> real) \<Rightarrow> nat \<Rightarrow> LayerConfig list \<Rightarrow>
    real list list list \<times> real list list list \<times> real list list \<times> real list list" where
  "initLayers rnd n (l0 # l1 # ls) =
     (let prevNeurons = neurons l0;
          currNeurons = neurons l1;
          layerWeights = map (\<lambda>j. map (\<lambda>k. rnd (n + j * currNeurons + k) * 2 - 1) [0..<currNeurons])
                             [0..<prevNeurons];
          layerWeightGrads = map (\<lambda>j. map (\<lambda>k. 0) [0..<currNeurons]) [0..<prevNeurons];
          n' = n + prevNeurons * currNeurons;
          layerBiases = map (\<lambda>k. rnd (n' + k) - 0.5) [0..<currNeurons];
          layerNeuronGrads = map (\<lambda>k. 0) [0..<currNeurons];
          (ws, wgs, bs, ngs) = initLayers rnd (n' + currNeurons) (l1 # ls)
      in (layerWeights # ws, layerWeightGrads # wgs, layerBiases # bs, layerNeuronGrads # ngs))"
| "initLayers rnd n ls = ([], [], [], [])"

text \<open>
  The constructor with \<^verbatim>\<open>initializeWeights\<close> inlined. Omitted arguments are \<open>None\<close>
  (\<^verbatim>\<open>learningRate = 0.1\<close>, \<^verbatim>\<open>batchSize = 1\<close>). With no layer at all,
  \<^verbatim>\<open>this.layers[0].neurons\<close> throws.
\<close>

definition construct :: "LayerConfig list \<Rightarrow> real option \<Rightarrow> real option \<Rightarrow> (nat \<Rightarrow> real) \<Rightarrow>
    failure + MiniNeuralNet" where
  "construct ls lr bs rnd =
     (let (ws, wgs, bss, ngs) = initLayers rnd 0 ls in
      and_then (idx ls 0) (\<lambda>l0.
        Inr (resetAccumulators
          \<lparr>layers = ls, weights = ws, biases = bss,
           activations = [], preActivations = [],
           neuronGradients = replicate (neurons l0) 0 # ngs,
           weightGradients = wgs,
           learningRate = (case lr of None \<Rightarrow> 0.1 | Some r \<Rightarrow> r),
           batchSize = (case bs of None \<Rightarrow> 1 | Some b \<Rightarrow> b),
           currentBatchCount = 0,
           accWeightGradients = [], accBiasGradients = []\<rparr>)))"

subsection \<open>forward\<close>

text \<open>The \<^verbatim>\<open>switch\<close> of \<^verbatim>\<open>forward\<close>: \<^verbatim>\<open>val\<close> starts at 0 and there is no default case.\<close>

definition activate :: "ActivationType \<Rightarrow> real \<Rightarrow> real" where
  "activate kind s =
     (if kind = SIGMOID then sigmoid s
      else if kind = RELU then relu s
      else if kind = TANH then tanh_fn s
      else 0)"

text \<open>
  The innermost loop: \<^verbatim>\<open>sum += currentActivations[k] * layerWeights[k][j]\<close> for
  \<open>k\<close> below \<^verbatim>\<open>currentActivations.length\<close>.
\<close>

definition weightedSum :: "real list \<Rightarrow> real list list \<Rightarrow> nat \<Rightarrow> real \<Rightarrow> failure + real" where
  "weightedSum cur layerWeights j b =
     for_loop [0..<length cur]
       (\<lambda>k sum. and_then (num cur k) (\<lambda>a.
                 and_then (idx layerWeights k) (\<lambda>row.
                 and_then (num row j) (\<lambda>w. Inr (sum + a * w)))))
       b"

text \<open>
  One layer: the pre-activations of its neurons in order. \<open>layerBiases\<close> is
  \<^verbatim>\<open>this.biases[i]\<close>, \<open>None\<close> when it is \<^verbatim>\<open>undefined\<close>; the code reads it only inside the
  loop.
\<close>

definition layerPreActivations ::
    "LayerConfig \<Rightarrow> real list list \<Rightarrow> real list option \<Rightarrow> real list \<Rightarrow> failure + real list" where
  "layerPreActivations layerConfig layerWeights layerBiases cur =
     push_loop [0..<neurons layerConfig]
       (\<lambda>j. and_then (case layerBiases of None \<Rightarrow> Inl TypeError | Some bs \<Rightarrow> num bs j)
               (weightedSum cur layerWeights j))"

text \<open>
  \<^verbatim>\<open>forward(inputs)\<close>: the new engine and the returned vector. The loop variables are the
  arrays \<^verbatim>\<open>this.activations\<close>, \<^verbatim>\<open>this.preActivations\<close> and \<^verbatim>\<open>currentActivations\<close>.
\<close>

definition forward :: "MiniNeuralNet \<Rightarrow> real list \<Rightarrow> failure + (MiniNeuralNet \<times> real list)" where
  "forward net xs =
     and_then
       (for_loop [0..<length (weights net)]
          (\<lambda>i (acts, pres, cur).
             and_then (idx (layers net) (i + 1)) (\<lambda>layerConfig.
             and_then (layerPreActivations layerConfig (weights net ! i) (opt (biases net) i) cur)
               (\<lambda>nextPreActivations.
                  let nextActivations = map (activate (activation layerConfig)) nextPreActivations
                  in Inr (acts @ [nextActivations], pres @ [nextPreActivations], nextActivations))))
          ([xs], [xs], xs))
       (\<lambda>(acts, pres, cur). Inr (net\<lparr>activations := acts, preActivations := pres\<rparr>, cur))"

subsection \<open>train\<close>

text \<open>
  The two \<^verbatim>\<open>switch\<close> statements of \<^verbatim>\<open>train\<close> (output layer and hidden layers) are the
  same: \<^verbatim>\<open>activationPrime\<close> starts at 0, Sigmoid and Tanh take the activation \<open>a\<close>, ReLU
  takes the pre-activation \<open>z\<close>. An \<^verbatim>\<open>undefined\<close> operand is \<open>None\<close>: it makes the two
  arithmetic derivatives \<^verbatim>\<open>NaN\<close>, while \<^verbatim>\<open>undefined > 0\<close> is false.
\<close>

definition activationPrime :: "ActivationType \<Rightarrow> real option \<Rightarrow> real option \<Rightarrow> failure + real" where
  "activationPrime kind a z =
     (if kind = SIGMOID then (case a of None \<Rightarrow> Inl NonNumber | Some v \<Rightarrow> Inr (sigmoidDerivative v))
      else if kind = RELU then Inr (case z of None \<Rightarrow> 0 | Some v \<Rightarrow> reluDerivative v)
      else if kind = TANH then (case a of None \<Rightarrow> Inl NonNumber | Some v \<Rightarrow> Inr (tanhDerivative v))
      else Inr 0)"

text \<open>\<open>idxi\<close>: as \<open>idx\<close>, for an index that can be \<open>-1\<close> (\<^verbatim>\<open>this.layers.length - 1\<close>).\<close>

definition idxi :: "'a list \<Rightarrow> int \<Rightarrow> failure + 'a" where
  "idxi xs i = (if 0 \<le> i \<and> i < int (length xs) then Inr (xs ! nat i) else Inl TypeError)"

text \<open>An element of \<^verbatim>\<open>nextLayerGradients\<close> or \<^verbatim>\<open>prevLayerActivations\<close>, used as a number.\<close>

definition numOf :: "real list option \<Rightarrow> nat \<Rightarrow> failure + real" where
  "numOf xs i = (case xs of None \<Rightarrow> Inl TypeError | Some ys \<Rightarrow> num ys i)"

text \<open>\<^verbatim>\<open>t[i][k] = v\<close>, \<^verbatim>\<open>t[i][j][k] = v\<close>, \<^verbatim>\<open>t[i][k] += v\<close> and \<^verbatim>\<open>t[i][j][k] += v\<close>.\<close>

definition put2 :: "real list list \<Rightarrow> nat \<Rightarrow> nat \<Rightarrow> real \<Rightarrow> failure + real list list" where
  "put2 t i k v =
     and_then (idx t i) (\<lambda>r. and_then (put r k v) (\<lambda>r'. Inr (t[i := r'])))"

definition put3 :: "real list list list \<Rightarrow> nat \<Rightarrow> nat \<Rightarrow> nat \<Rightarrow> real \<Rightarrow> failure + real list list list" where
  "put3 t i j k v =
     and_then (idx t i) (\<lambda>l. and_then (put2 l j k v) (\<lambda>l'. Inr (t[i := l'])))"

definition add2 :: "real list list \<Rightarrow> nat \<Rightarrow> nat \<Rightarrow> real \<Rightarrow> failure + real list list" where
  "add2 t i k v =
     and_then (idx t i) (\<lambda>r. and_then (num r k) (\<lambda>x. Inr (t[i := r[k := x + v]])))"

definition add3 :: "real list list list \<Rightarrow> nat \<Rightarrow> nat \<Rightarrow> nat \<Rightarrow> real \<Rightarrow> failure + real list list list" where
  "add3 t i j k v =
     and_then (idx t i) (\<lambda>l. and_then (add2 l j k v) (\<lambda>l'. Inr (t[i := l'])))"

text \<open>
  Step 2 of \<^verbatim>\<open>train\<close>: the loop over the outputs, on \<^verbatim>\<open>this.neuronGradients\<close>.
  \<open>net\<close> is the engine after the forward pass.
\<close>

definition outputDeltas ::
    "MiniNeuralNet \<Rightarrow> real list \<Rightarrow> real list \<Rightarrow> real list list \<Rightarrow> failure + real list list" where
  "outputDeltas net outputs targets ng0 =
     (let outputLayerIdx = int (length (layers net)) - 1 in
      for_loop [0..<length outputs]
        (\<lambda>i ng.
           and_then (num outputs i) (\<lambda>out.
           and_then (num targets i) (\<lambda>t.
           let error = out - t in
           and_then (idxi (preActivations net) outputLayerIdx) (\<lambda>pre.
           let z = opt pre i in
           and_then (idxi (layers net) outputLayerIdx) (\<lambda>l.
           and_then (activationPrime (activation l) (Some out) z) (\<lambda>prime.
           put2 ng (nat outputLayerIdx) i (error * prime)))))))
        ng0)"

text \<open>
  Step 3, one iteration of \<^verbatim>\<open>for (let i = this.weights.length - 1; i >= 0; i--)\<close>. The
  loop variables are the neuron gradients, the weight gradients and the two accumulators.
  \<^verbatim>\<open>nextLayerGradients\<close> is the row \<open>i + 1\<close> of the neuron gradients; the iteration assigns
  to row \<open>i\<close> only.
\<close>

definition weightGradientLoop :: "MiniNeuralNet \<Rightarrow> nat \<Rightarrow> real list option \<Rightarrow> real list option \<Rightarrow>
    real list list list \<times> real list list list \<Rightarrow> failure + (real list list list \<times> real list list list)" where
  "weightGradientLoop net i prevLayerActivations nextLayerGradients =
     for_loop [0..<length (weights net ! i)] (\<lambda>j.
       for_loop [0..<length (weights net ! i ! j)] (\<lambda>k (wg, accW).
         and_then (numOf nextLayerGradients k) (\<lambda>d.
         and_then (numOf prevLayerActivations j) (\<lambda>a.
         let gradient = d * a in
         and_then (put3 wg i j k gradient) (\<lambda>wg'.
         and_then (add3 accW i j k gradient) (\<lambda>accW'.
         Inr (wg', accW')))))))"

definition biasGradientLoop :: "MiniNeuralNet \<Rightarrow> nat \<Rightarrow> real list option \<Rightarrow>
    real list list \<Rightarrow> failure + real list list" where
  "biasGradientLoop net i nextLayerGradients accB0 =
     and_then (idx (biases net) i) (\<lambda>bs.
       for_loop [0..<length bs]
         (\<lambda>k accB. and_then (numOf nextLayerGradients k) (\<lambda>d. add2 accB i k d))
         accB0)"

definition hiddenDeltas :: "MiniNeuralNet \<Rightarrow> nat \<Rightarrow> real list option \<Rightarrow>
    real list list \<Rightarrow> failure + real list list" where
  "hiddenDeltas net i nextLayerGradients ng0 =
     and_then (idx (layers net) i) (\<lambda>layerConfig.
       for_loop [0..<neurons layerConfig]
         (\<lambda>j ng.
            and_then (idx (layers net) (i + 1)) (\<lambda>nextConfig.
            and_then
              (for_loop [0..<neurons nextConfig]
                 (\<lambda>k errorSum.
                    and_then (numOf nextLayerGradients k) (\<lambda>d.
                    and_then (idx (weights net ! i) j) (\<lambda>row.
                    and_then (num row k) (\<lambda>w. Inr (errorSum + d * w)))))
                 0)
              (\<lambda>errorSum.
            and_then (idx (preActivations net) i) (\<lambda>pre.
            let z = opt pre j in
            and_then (idx (activations net) i) (\<lambda>act.
            let a = opt act j in
            and_then (activationPrime (activation layerConfig) a z) (\<lambda>prime.
            put2 ng i j (errorSum * prime)))))))
         ng0)"

definition backpropLayer :: "MiniNeuralNet \<Rightarrow> nat \<Rightarrow>
    real list list \<times> real list list list \<times> real list list list \<times> real list list \<Rightarrow>
    failure + (real list list \<times> real list list list \<times> real list list list \<times> real list list)" where
  "backpropLayer net i = (\<lambda>(ng, wg, accW, accB).
     let prevLayerActivations = opt (activations net) i;
         nextLayerGradients = opt ng (i + 1)
     in and_then (weightGradientLoop net i prevLayerActivations nextLayerGradients (wg, accW))
          (\<lambda>(wg', accW').
        and_then (biasGradientLoop net i nextLayerGradients accB) (\<lambda>accB'.
        and_then (if i > 0 then hiddenDeltas net i nextLayerGradients ng else Inr ng) (\<lambda>ng'.
        Inr (ng', wg', accW', accB')))))"

text \<open>
  Step 4, the update. \<^verbatim>\<open>scaler = 1 / this.batchSize\<close> is an infinity when the batch size is 0:
  \<open>None\<close> here, and a product with it (\<^verbatim>\<open>acc * scaler\<close>, an infinity or NaN) is where the failure
  arises. An engine without a weight or bias cell never forms that product. The assignments
  keep every length, so the loop bounds are those of the engine at entry. The result is the
  new weights and biases.
\<close>

definition times_scaler :: "real \<Rightarrow> real option \<Rightarrow> failure + real" where
  "times_scaler acc scaler = (case scaler of None \<Rightarrow> Inl NonNumber | Some s \<Rightarrow> Inr (acc * s))"

definition applyUpdate :: "MiniNeuralNet \<Rightarrow> failure + (real list list list \<times> real list list)" where
  "applyUpdate net =
     (let scaler = (if batchSize net = 0 then None else Some (1 / batchSize net)) in
      for_loop [0..<length (weights net)]
        (\<lambda>i (ws0, bs0).
           and_then
             (for_loop [0..<length (weights net ! i)] (\<lambda>j.
                for_loop [0..<length (weights net ! i ! j)] (\<lambda>k ws.
                  and_then (idx (accWeightGradients net) i) (\<lambda>al.
                  and_then (idx al j) (\<lambda>ar.
                  and_then (num ar k) (\<lambda>acc.
                  and_then (times_scaler acc scaler) (\<lambda>avgGrad.
                  add3 ws i j k (- (learningRate net * avgGrad))))))))
                ws0)
             (\<lambda>ws'.
           and_then (idx (biases net) i) (\<lambda>b.
           and_then
             (for_loop [0..<length b]
                (\<lambda>k bs.
                   and_then (idx (accBiasGradients net) i) (\<lambda>ar.
                   and_then (num ar k) (\<lambda>acc.
                   and_then (times_scaler acc scaler) (\<lambda>avgGrad.
                   add2 bs i k (- (learningRate net * avgGrad))))))
                bs0)
             (\<lambda>bs'. Inr (ws', bs')))))
        (weights net, biases net))"

text \<open>\<^verbatim>\<open>train(inputs, targets)\<close>: the new engine and the returned prediction.\<close>

definition train :: "MiniNeuralNet \<Rightarrow> real list \<Rightarrow> real list \<Rightarrow> failure + (MiniNeuralNet \<times> real list)" where
  "train net0 xs targets =
     and_then (forward net0 xs) (\<lambda>(net1, outputs).
     let net2 = net1\<lparr>neuronGradients := map (\<lambda>l. replicate (neurons l) 0) (layers net1),
                     weightGradients := map (\<lambda>l. map (\<lambda>n. replicate (length n) 0) l) (weights net1)\<rparr>
     in
     and_then (outputDeltas net2 outputs targets (neuronGradients net2)) (\<lambda>ng.
     and_then
       (for_loop (rev [0..<length (weights net2)]) (backpropLayer net2)
          (ng, weightGradients net2, accWeightGradients net2, accBiasGradients net2))
       (\<lambda>(ng', wg', accW', accB').
     let net3 = net2\<lparr>neuronGradients := ng', weightGradients := wg',
                     accWeightGradients := accW', accBiasGradients := accB',
                     currentBatchCount := currentBatchCount net2 + 1\<rparr>
     in
     if real (currentBatchCount net3) \<ge> batchSize net3 then
       and_then (applyUpdate net3) (\<lambda>(ws, bs).
         Inr (resetAccumulators (net3\<lparr>weights := ws, biases := bs\<rparr>), outputs))
     else Inr (net3, outputs))))"

subsection \<open>getVisualizationData\<close>

text \<open>
  The fields of the two record types of the types file, prefixed with \<open>n\<close> and \<open>c\<close>
  (both have an \<^verbatim>\<open>id\<close> and a \<^verbatim>\<open>gradient\<close>). A numeric field the code fills from an array
  read is a \<open>real option\<close>, \<open>None\<close> for \<^verbatim>\<open>undefined\<close>.
\<close>

record Neuron =
  nId :: string
  nLayerIndex :: nat
  nNeuronIndex :: nat
  nActivation :: "real option"
  nPreActivation :: "real option"
  nBias :: "real option"
  nGradient :: "real option"
  nPosition :: "real \<times> real \<times> real"

record Connection =
  cId :: string
  cSourceId :: string
  cTargetId :: string
  cWeight :: "real option"
  cGradient :: "real option"
  cSourcePos :: "real \<times> real \<times> real"
  cTargetPos :: "real \<times> real \<times> real"

text \<open>The decimal digits of an index, as a template literal prints it.\<close>

fun showNat :: "nat \<Rightarrow> string" where
  "showNat n = (if n < 10 then [''0123456789'' ! n] else showNat (n div 10) @ [''0123456789'' ! (n mod 10)])"

declare showNat.simps [simp del]

text \<open>\<^verbatim>\<open>this.t[i] ? this.t[i][j] : 0\<close>: an array, even an empty one, is truthy.\<close>

definition cell :: "real list list \<Rightarrow> nat \<Rightarrow> nat \<Rightarrow> real option" where
  "cell t i j = (case opt t i of None \<Rightarrow> Some 0 | Some r \<Rightarrow> opt r j)"

definition neuronRecord :: "MiniNeuralNet \<Rightarrow> nat \<Rightarrow> nat \<Rightarrow> failure + Neuron" where
  "neuronRecord net i j =
     (let layerCount = neurons (layers net ! i);
          x = (real i - (real (length (layers net)) - 1) / 2) * 6;
          y = (real j - (real layerCount - 1) / 2) * 2
      in and_then (if i > 0 then and_then (idx (biases net) (i - 1)) (\<lambda>b. Inr (opt b j))
                   else Inr (Some 0)) (\<lambda>bias.
         Inr \<lparr>nId = ''l'' @ showNat i @ ''-n'' @ showNat j,
              nLayerIndex = i,
              nNeuronIndex = j,
              nActivation = cell (activations net) i j,
              nPreActivation = cell (preActivations net) i j,
              nBias = bias,
              nGradient = cell (neuronGradients net) i j,
              nPosition = (x, y, 0)\<rparr>))"

definition connectionRecord :: "MiniNeuralNet \<Rightarrow> Neuron list \<Rightarrow> Neuron list \<Rightarrow> nat \<Rightarrow> nat \<Rightarrow> nat \<Rightarrow>
    failure + Connection" where
  "connectionRecord net sourceNeurons targetNeurons i j k =
     and_then (idx (weights net ! i) j) (\<lambda>row.
     let weight = opt row k in
     and_then (case opt (weightGradients net) i of None \<Rightarrow> Inr (Some 0)
               | Some g \<Rightarrow> and_then (idx g j) (\<lambda>r. Inr (opt r k))) (\<lambda>grad.
     Inr \<lparr>cId = ''c-l'' @ showNat i @ ''n'' @ showNat j @ ''-l'' @ showNat (i + 1) @ ''n'' @ showNat k,
          cSourceId = nId (sourceNeurons ! j),
          cTargetId = nId (targetNeurons ! k),
          cWeight = weight,
          cGradient = grad,
          cSourcePos = nPosition (sourceNeurons ! j),
          cTargetPos = nPosition (targetNeurons ! k)\<rparr>))"

text \<open>
  \<^verbatim>\<open>getVisualizationData()\<close>: the pair of the \<^verbatim>\<open>neurons\<close> and \<^verbatim>\<open>connections\<close> arrays. The
  engine itself is not assigned to.
\<close>

definition getVisualizationData :: "MiniNeuralNet \<Rightarrow> failure + (Neuron list \<times> Connection list)" where
  "getVisualizationData net =
     and_then
       (push_loop [0..<length (layers net)] (\<lambda>i.
          push_loop [0..<neurons (layers net ! i)] (neuronRecord net i)))
       (\<lambda>perLayer.
     let ns = concat perLayer in
     and_then
       (push_loop [0..<length (weights net)] (\<lambda>i.
          let sourceNeurons = filter (\<lambda>n. nLayerIndex n = i) ns;
              targetNeurons = filter (\<lambda>n. nLayerIndex n = i + 1) ns
          in and_then
               (push_loop [0..<length sourceNeurons] (\<lambda>j.
                  push_loop [0..<length targetNeurons] (connectionRecord net sourceNeurons targetNeurons i j)))
               (\<lambda>rows. Inr (concat rows))))
       (\<lambda>perLayerC. Inr (ns, concat perLayerC)))"

section \<open>Well-formed engines and the values a forward pass computes\<close>

text \<open>
  The shapes \<^verbatim>\<open>initializeWeights\<close> builds: between layer \<open>i\<close> and layer \<open>i + 1\<close> one row of
  weights per neuron of layer \<open>i\<close>, one weight per neuron of layer \<open>i + 1\<close> in it, and one
  bias per neuron of layer \<open>i + 1\<close>.
\<close>

definition weightShape :: "LayerConfig list \<Rightarrow> nat list list" where
  "weightShape ls = map (\<lambda>i. replicate (neurons (ls ! i)) (neurons (ls ! (i + 1)))) [0..<length ls - 1]"

definition biasShape :: "LayerConfig list \<Rightarrow> nat list" where
  "biasShape ls = map (\<lambda>i. neurons (ls ! (i + 1))) [0..<length ls - 1]"

definition wf_params :: "MiniNeuralNet \<Rightarrow> bool" where
  "wf_params net \<longleftrightarrow>
     layers net \<noteq> [] \<and>
     map (map length) (weights net) = weightShape (layers net) \<and>
     map length (biases net) = biasShape (layers net)"

text \<open>
  The vectors of a forward pass as functions of the layer index, for the proofs:
  \<open>preActivationOf net cur i\<close> is the \<open>z\<close> vector of layer \<open>i + 1\<close> when layer \<open>i\<close> has the
  activations \<open>cur\<close>.
\<close>

definition preActivationOf :: "MiniNeuralNet \<Rightarrow> real list \<Rightarrow> nat \<Rightarrow> real list" where
  "preActivationOf net cur i =
     map (\<lambda>j. biases net ! i ! j + (\<Sum>k<length cur. cur ! k * weights net ! i ! k ! j))
       [0..<neurons (layers net ! Suc i)]"

fun layerActivation :: "MiniNeuralNet \<Rightarrow> real list \<Rightarrow> nat \<Rightarrow> real list" where
  "layerActivation net xs 0 = xs"
| "layerActivation net xs (Suc i) =
     map (activate (activation (layers net ! Suc i))) (preActivationOf net (layerActivation net xs i) i)"

fun layerPreActivation :: "MiniNeuralNet \<Rightarrow> real list \<Rightarrow> nat \<Rightarrow> real list" where
  "layerPreActivation net xs 0 = xs"
| "layerPreActivation net xs (Suc i) = preActivationOf net (layerActivation net xs i) i"

section \<open>Values a training step computes\<close>

text \<open>
  The values below describe what a call of \<^verbatim>\<open>train\<close> computes on a well-formed engine, where
  no array read is out of range; the theorems relate them to \<^verbatim>\<open>train\<close> itself.
  \<open>activationPrimeOf\<close> is the \<^verbatim>\<open>switch\<close> of \<open>activationPrime\<close> with both operands present.
\<close>

definition activationPrimeOf :: "ActivationType \<Rightarrow> real \<Rightarrow> real \<Rightarrow> real" where
  "activationPrimeOf kind a z =
     (if kind = SIGMOID then sigmoidDerivative a
      else if kind = RELU then reluDerivative z
      else if kind = TANH then tanhDerivative a
      else 0)"

text \<open>
  A row of which a loop has assigned the first \<open>k\<close> cells, cell \<open>i\<close> with \<open>f i\<close>.
\<close>

definition overwritten :: "(nat \<Rightarrow> 'a) \<Rightarrow> nat \<Rightarrow> 'a list \<Rightarrow> 'a list" where
  "overwritten f k xs = map f [0..<k] @ drop k xs"

text \<open>
  A well-formed engine: the parameters and both accumulators have the shapes of the layers.
\<close>

definition wf_engine :: "MiniNeuralNet \<Rightarrow> bool" where
  "wf_engine net \<longleftrightarrow>
     wf_params net \<and>
     map (map length) (accWeightGradients net) = weightShape (layers net) \<and>
     map length (accBiasGradients net) = biasShape (layers net)"

text \<open>The engine after \<^verbatim>\<open>forward(xs)\<close>.\<close>

definition forwardState :: "MiniNeuralNet \<Rightarrow> real list \<Rightarrow> MiniNeuralNet" where
  "forwardState net xs =
     net\<lparr>activations := map (layerActivation net xs) [0..<length (layers net)],
         preActivations := map (layerPreActivation net xs) [0..<length (layers net)]\<rparr>"

text \<open>
  The error terms, for an engine that holds the forward state of the sample: those of the
  output layer, those of the layer \<open>d\<close> steps before the output layer (\<open>deltaBack\<close>), and
  those of the layer with index \<open>r\<close> (\<open>layerDelta\<close>; the input layer keeps its zeros when
  there is another layer).
\<close>

definition outputDelta :: "MiniNeuralNet \<Rightarrow> real list \<Rightarrow> real list" where
  "outputDelta net targets =
     (let L = length (layers net) - 1 in
      map (\<lambda>i. (activations net ! L ! i - targets ! i) *
                activationPrimeOf (activation (layers net ! L))
                  (activations net ! L ! i) (preActivations net ! L ! i))
        [0..<neurons (layers net ! L)])"

fun deltaBack :: "MiniNeuralNet \<Rightarrow> real list \<Rightarrow> nat \<Rightarrow> real list" where
  "deltaBack net targets 0 = outputDelta net targets"
| "deltaBack net targets (Suc d) =
     (let i = length (layers net) - 1 - Suc d in
      map (\<lambda>j. (\<Sum>k<neurons (layers net ! Suc i). deltaBack net targets d ! k * weights net ! i ! j ! k) *
                activationPrimeOf (activation (layers net ! i))
                  (activations net ! i ! j) (preActivations net ! i ! j))
        [0..<neurons (layers net ! i)])"

definition layerDelta :: "MiniNeuralNet \<Rightarrow> real list \<Rightarrow> nat \<Rightarrow> real list" where
  "layerDelta net targets r =
     (if r = 0 \<and> 1 < length (layers net) then replicate (neurons (layers net ! 0)) 0
      else deltaBack net targets (length (layers net) - 1 - r))"

text \<open>The per-sample gradients of the weights between layer \<open>l\<close> and layer \<open>l + 1\<close>.\<close>

definition weightGradientOf :: "MiniNeuralNet \<Rightarrow> real list \<Rightarrow> nat \<Rightarrow> real list list" where
  "weightGradientOf net targets l =
     map (\<lambda>j. map (\<lambda>k. layerDelta net targets (Suc l) ! k * activations net ! l ! j)
                [0..<neurons (layers net ! Suc l)])
       [0..<neurons (layers net ! l)]"

text \<open>
  The engine after steps 2 and 3 of \<^verbatim>\<open>train\<close> and the increment of the batch counter, from
  the engine after the forward pass.
\<close>

definition backprop :: "MiniNeuralNet \<Rightarrow> real list \<Rightarrow> MiniNeuralNet" where
  "backprop net targets =
     net\<lparr>neuronGradients := map (layerDelta net targets) [0..<length (layers net)],
         weightGradients := map (weightGradientOf net targets) [0..<length (layers net) - 1],
         accWeightGradients :=
           map (\<lambda>l. map (\<lambda>j. map (\<lambda>k. accWeightGradients net ! l ! j ! k + weightGradientOf net targets l ! j ! k)
                              [0..<neurons (layers net ! Suc l)])
                     [0..<neurons (layers net ! l)])
             [0..<length (layers net) - 1],
         accBiasGradients :=
           map (\<lambda>l. map (\<lambda>k. accBiasGradients net ! l ! k + layerDelta net targets (Suc l) ! k)
                     [0..<neurons (layers net ! Suc l)])
             [0..<length (layers net) - 1],
         currentBatchCount := currentBatchCount net + 1\<rparr>"

text \<open>The engine after the parameter update of step 4, before the accumulators are reset.\<close>

definition updated :: "MiniNeuralNet \<Rightarrow> MiniNeuralNet" where
  "updated net =
     net\<lparr>weights :=
           map (\<lambda>i. map (\<lambda>j. map (\<lambda>k. weights net ! i ! j ! k -
                                       learningRate net * (accWeightGradients net ! i ! j ! k * (1 / batchSize net)))
                              [0..<neurons (layers net ! Suc i)])
                     [0..<neurons (layers net ! i)])
             [0..<length (layers net) - 1],
         biases :=
           map (\<lambda>i. map (\<lambda>k. biases net ! i ! k -
                              learningRate net * (accBiasGradients net ! i ! k * (1 / batchSize net)))
                     [0..<neurons (layers net ! Suc i)])
             [0..<length (layers net) - 1]\<rparr>"

section \<open>Example engines\<close>

text \<open>
  The layers of \<^verbatim>\<open>INITIAL_CONFIG\<close> in \<^verbatim>\<open>App.tsx\<close>, and the engine the constructor builds from
  them when every \<^verbatim>\<open>Math.random()\<close> is \<open>3/4\<close>: each weight is \<open>3/4 * 2 - 1\<close>, each bias
  \<open>3/4 - 0.5\<close>.
\<close>

definition initialLayers :: "LayerConfig list" where
  "initialLayers =
     [\<lparr>neurons = 2, activation = RELU\<rparr>,
      \<lparr>neurons = 3, activation = TANH\<rparr>,
      \<lparr>neurons = 1, activation = SIGMOID\<rparr>]"

definition initialNet :: "real \<Rightarrow> MiniNeuralNet" where
  "initialNet b =
     \<lparr>layers = initialLayers,
      weights = [[[1/2, 1/2, 1/2], [1/2, 1/2, 1/2]], [[1/2], [1/2], [1/2]]],
      biases = [[1/4, 1/4, 1/4], [1/4]],
      activations = [], preActivations = [],
      neuronGradients = [[0, 0], [0, 0, 0], [0]],
      weightGradients = [[[0, 0, 0], [0, 0, 0]], [[0], [0], [0]]],
      learningRate = 1/10, batchSize = b, currentBatchCount = 0,
      accWeightGradients = [[[0, 0, 0], [0, 0, 0]], [[0], [0], [0]]],
      accBiasGradients = [[0, 0, 0], [0]]\<rparr>"

text \<open>An engine whose output layer has an activation kind outside the enum.\<close>

definition softmaxNet :: MiniNeuralNet where
  "softmaxNet =
     \<lparr>layers = [\<lparr>neurons = 2, activation = RELU\<rparr>, \<lparr>neurons = 1, activation = ''SOFTMAX''\<rparr>],
      weights = [[[1/2], [1/2]]],
      biases = [[1/4]],
      activations = [], preActivations = [],
      neuronGradients = [[0, 0], [0]],
      weightGradients = [[[0], [0]]],
      learningRate = 1/10, batchSize = 1, currentBatchCount = 0,
      accWeightGradients = [[[0], [0]]],
      accBiasGradients = [[0]]\<rparr>"

text \<open>
  A small engine with ReLU layers, as the constructor builds it from two layers when every
  \<^verbatim>\<open>Math.random()\<close> is \<open>3/4\<close>; \<open>b\<close> is its batch size.
\<close>

definition exampleLayers :: "LayerConfig list" where
  "exampleLayers = [\<lparr>neurons = 2, activation = RELU\<rparr>, \<lparr>neurons = 1, activation = RELU\<rparr>]"

definition exampleNet :: "real \<Rightarrow> MiniNeuralNet" where
  "exampleNet b =
     \<lparr>layers = exampleLayers,
      weights = [[[1/2], [1/2]]],
      biases = [[1/4]],
      activations = [], preActivations = [],
      neuronGradients = [[0, 0], [0]],
      weightGradients = [[[0], [0]]],
      learningRate = 1/10, batchSize = b, currentBatchCount = 0,
      accWeightGradients = [[[0], [0]]],
      accBiasGradients = [[0]]\<rparr>"

text \<open>The same engine after one call \<^verbatim>\<open>train([1, 1], [0])\<close> that does not complete a batch.\<close>

definition exampleNetMid :: "real \<Rightarrow> MiniNeuralNet" where
  "exampleNetMid b =
     (exampleNet b)
       \<lparr>activations := [[1, 1], [5/4]], preActivations := [[1, 1], [5/4]],
        neuronGradients := [[0, 0], [5/4]],
        weightGradients := [[[5/4], [5/4]]],
        currentBatchCount := 1,
        accWeightGradients := [[[5/4], [5/4]]],
        accBiasGradients := [[5/4]]\<rparr>"

text \<open>And after a second such call, with batch size 2.\<close>

definition exampleNetUpdated :: MiniNeuralNet where
  "exampleNetUpdated =
     (exampleNet 2)
       \<lparr>weights := [[[3/8], [3/8]]], biases := [[1/8]],
        activations := [[1, 1], [5/4]], preActivations := [[1, 1], [5/4]],
        neuronGradients := [[0, 0], [5/4]],
        weightGradients := [[[5/4], [5/4]]]\<rparr>"

text \<open>
  An engine with a hidden layer, all layers ReLU, as the constructor builds it when every
  \<^verbatim>\<open>Math.random()\<close> is \<open>3/4\<close>, and the same engine after the call \<^verbatim>\<open>train([1, 1], [1])\<close>
  with batch size 1: the hidden neurons have \<open>z = a = 1/4 + 1/2 + 1/2\<close>, the output neuron
  \<open>z = a = 1/4 + 5/8 + 5/8\<close>; the error terms are \<open>(3/2 - 1) * 1\<close> and \<open>(1/2 * 1/2) * 1\<close>.
\<close>

definition deepLayers :: "LayerConfig list" where
  "deepLayers =
     [\<lparr>neurons = 2, activation = RELU\<rparr>,
      \<lparr>neurons = 2, activation = RELU\<rparr>,
      \<lparr>neurons = 1, activation = RELU\<rparr>]"

definition deepNet :: MiniNeuralNet where
  "deepNet =
     \<lparr>layers = deepLayers,
      weights = [[[1/2, 1/2], [1/2, 1/2]], [[1/2], [1/2]]],
      biases = [[1/4, 1/4], [1/4]],
      activations = [], preActivations = [],
      neuronGradients = [[0, 0], [0, 0], [0]],
      weightGradients = [[[0, 0], [0, 0]], [[0], [0]]],
      learningRate = 1/10, batchSize = 1, currentBatchCount = 0,
      accWeightGradients = [[[0, 0], [0, 0]], [[0], [0]]],
      accBiasGradients = [[0, 0], [0]]\<rparr>"

definition deepNetTrained :: MiniNeuralNet where
  "deepNetTrained =
     deepNet
       \<lparr>weights := [[[19/40, 19/40], [19/40, 19/40]], [[7/16], [7/16]]],
        biases := [[9/40, 9/40], [1/5]],
        activations := [[1, 1], [5/4, 5/4], [3/2]],
        preActivations := [[1, 1], [5/4, 5/4], [3/2]],
        neuronGradients := [[0, 0], [1/4, 1/4], [1/2]],
        weightGradients := [[[1/4, 1/4], [1/4, 1/4]], [[5/8], [5/8]]]\<rparr>"

text \<open>
  An engine of one layer, without weights, and with batch size 0; and the same engine after
  the call \<^verbatim>\<open>train([1, -1], [0, 0])\<close>: the layer is the output layer, with \<open>z = a\<close> the input.
\<close>

definition bareNet :: MiniNeuralNet where
  "bareNet =
     \<lparr>layers = [\<lparr>neurons = 2, activation = RELU\<rparr>],
      weights = [], biases = [],
      activations = [], preActivations = [],
      neuronGradients = [[0, 0]],
      weightGradients = [],
      learningRate = 1/10, batchSize = 0, currentBatchCount = 0,
      accWeightGradients = [],
      accBiasGradients = []\<rparr>"

definition bareNetTrained :: MiniNeuralNet where
  "bareNetTrained =
     bareNet\<lparr>activations := [[1, - 1]], preActivations := [[1, - 1]], neuronGradients := [[1, 0]]\<rparr>"

text \<open>
  The calls a driver can make on an engine, and a sequence of them; a call that fails ends
  the sequence.
\<close>

datatype call =
    Forward "real list"
  | Train "real list" "real list"
  | UpdateConfig real real
  | GetVisualizationData

definition callEngine :: "MiniNeuralNet \<Rightarrow> call \<Rightarrow> failure + MiniNeuralNet" where
  "callEngine net c =
     (case c of
        Forward xs \<Rightarrow> and_then (forward net xs) (\<lambda>(net', out). Inr net')
      | Train xs targets \<Rightarrow> and_then (train net xs targets) (\<lambda>(net', out). Inr net')
      | UpdateConfig lr bs \<Rightarrow> Inr (updateConfig net lr bs)
      | GetVisualizationData \<Rightarrow> and_then (getVisualizationData net) (\<lambda>snapshot. Inr net))"

fun calls :: "MiniNeuralNet \<Rightarrow> call list \<Rightarrow> failure + MiniNeuralNet" where
  "calls net [] = Inr net"
| "calls net (c # cs) = and_then (callEngine net c) (\<lambda>net'. calls net' cs)"

definition positiveBatch :: "call \<Rightarrow> bool" where
  "positiveBatch c = (case c of UpdateConfig lr bs \<Rightarrow> 0 < bs | _ \<Rightarrow> True)"

text \<open>
  The driver's loop, \<^verbatim>\<open>nn.train(row.inputs, row.target)\<close> for one row after the other: the
  engines after each call, in order. \<open>fits net d\<close>: the row has the widths of the engine's
  input and output layers.
\<close>

fun trainEach :: "MiniNeuralNet \<Rightarrow> DataPoint list \<Rightarrow> failure + MiniNeuralNet list" where
  "trainEach net [] = Inr []"
| "trainEach net (d # ds) =
     and_then (train net (inputs d) (target d)) (\<lambda>(net', out).
     and_then (trainEach net' ds) (\<lambda>nets. Inr (net' # nets)))"

definition fits :: "MiniNeuralNet \<Rightarrow> DataPoint \<Rightarrow> bool" where
  "fits net d \<longleftrightarrow>
     length (inputs d) = neurons (layers net ! 0) \<and> length (target d) = neurons (last (layers net))"

text \<open>
  \<open>accumulated net nets F\<close>: the engine \<open>F\<close> reached from \<open>net\<close> by the calls that left
  the engines \<open>nets\<close> has the parameters and configuration of \<open>net\<close>, has counted the
  calls, and holds in its accumulators those of \<open>net\<close> plus the per-sample gradients the
  calls left in \<open>nets\<close>.
\<close>

definition accumulated :: "MiniNeuralNet \<Rightarrow> MiniNeuralNet list \<Rightarrow> MiniNeuralNet \<Rightarrow> bool" where
  "accumulated net nets F \<longleftrightarrow>
     wf_engine F \<and> layers F = layers net \<and> weights F = weights net \<and> biases F = biases net \<and>
     learningRate F = learningRate net \<and> batchSize F = batchSize net \<and>
     currentBatchCount F = currentBatchCount net + length nets \<and>
     (\<forall>i j k. i < length (layers net) - 1 \<longrightarrow> j < neurons (layers net ! i) \<longrightarrow>
        k < neurons (layers net ! Suc i) \<longrightarrow>
        accWeightGradients F ! i ! j ! k =
          accWeightGradients net ! i ! j ! k + (\<Sum>s<length nets. weightGradients (nets ! s) ! i ! j ! k)) \<and>
     (\<forall>i k. i < length (layers net) - 1 \<longrightarrow> k < neurons (layers net ! Suc i) \<longrightarrow>
        accBiasGradients F ! i ! k =
          accBiasGradients net ! i ! k + (\<Sum>s<length nets. neuronGradients (nets ! s) ! Suc i ! k))"

text \<open>
  \<open>sampleGradients net d n\<close>: the engine \<open>n\<close> holds what the sample \<open>d\<close> gives with the
  weights and biases of \<open>net\<close>, written out cell by cell: the forward state of the
  input (\<open>z = bias + \<Sum> a * weight\<close> and \<open>a = activation z\<close>, layer after layer from the input),
  the error terms of the target (output layer: \<open>(prediction - target) * derivative\<close>; hidden
  layers: \<open>(\<Sum> \<delta> * weight) * derivative\<close>), and as the gradient of every weight the error term
  of its target neuron times the activation of its source neuron. The gradient of a bias is
  the error term of its neuron.
\<close>

definition sampleGradients :: "MiniNeuralNet \<Rightarrow> DataPoint \<Rightarrow> MiniNeuralNet \<Rightarrow> bool" where
  "sampleGradients net d n \<longleftrightarrow>
     (let ls = layers net; L = length ls - 1 in
      length (activations n) = length ls \<and> length (preActivations n) = length ls \<and>
      activations n ! 0 = inputs d \<and> preActivations n ! 0 = inputs d \<and>
      (\<forall>i<L. \<forall>j<neurons (ls ! Suc i).
         preActivations n ! Suc i ! j =
           biases net ! i ! j + (\<Sum>k<neurons (ls ! i). activations n ! i ! k * weights net ! i ! k ! j) \<and>
         activations n ! Suc i ! j = activate (activation (ls ! Suc i)) (preActivations n ! Suc i ! j)) \<and>
      (\<forall>i<neurons (ls ! L).
         neuronGradients n ! L ! i =
           (activations n ! L ! i - target d ! i) *
           activationPrimeOf (activation (ls ! L)) (activations n ! L ! i) (preActivations n ! L ! i)) \<and>
      (\<forall>l j. 0 < l \<and> l < L \<and> j < neurons (ls ! l) \<longrightarrow>
         neuronGradients n ! l ! j =
           (\<Sum>k<neurons (ls ! Suc l). neuronGradients n ! Suc l ! k * weights net ! l ! j ! k) *
           activationPrimeOf (activation (ls ! l)) (activations n ! l ! j) (preActivations n ! l ! j)) \<and>
      (\<forall>i j k. i < L \<and> j < neurons (ls ! i) \<and> k < neurons (ls ! Suc i) \<longrightarrow>
         weightGradients n ! i ! j ! k = neuronGradients n ! Suc i ! k * activations n ! i ! j))"

text \<open>\<open>fitting net c\<close>: the vectors of a \<^verbatim>\<open>forward\<close> or \<^verbatim>\<open>train\<close> call have the engine's widths.\<close>

definition fitting :: "MiniNeuralNet \<Rightarrow> call \<Rightarrow> bool" where
  "fitting net c =
     (case c of
        Forward xs \<Rightarrow> length xs = neurons (layers net ! 0)
      | Train xs targets \<Rightarrow> fits net \<lparr>inputs = xs, target = targets\<rparr>
      | _ \<Rightarrow> True)"

fun fittingCalls :: "MiniNeuralNet \<Rightarrow> call list \<Rightarrow> bool" where
  "fittingCalls net [] = True"
| "fittingCalls net (c # cs) = (fitting net c \<and> fittingCalls net cs)"

section \<open>The activation functions in binary64 arithmetic\<close>

text \<open>
  The value of a \<^verbatim>\<open>number\<close>: finite, an infinity, or NaN. \<open>Finite r\<close> stands for the double
  of value \<open>r\<close>; the operations below return only roundings. The two zeros are one value
  \<open>Finite 0\<close>: comparisons do not tell them apart, and where a division by zero would, the
  zero is taken as \<open>+0\<close>.
\<close>

datatype double = Finite real | PosInf | NegInf | NaN

text \<open>The nearest integer, a tie going to the even one.\<close>

definition rne :: "real \<Rightarrow> int" where
  "rne y =
     (let f = \<lfloor>y\<rfloor>; d = y - of_int f in
      if d < 1/2 then f else if 1/2 < d then f + 1 else if even f then f else f + 1)"

text \<open>
  Rounding of a positive real to binary64, to nearest and ties to even: the significand has
  53 bits, so that between \<open>2\<^sup>e\<close> and \<open>2\<^sup>e\<^sup>+\<^sup>1\<close> the doubles are the multiples of \<open>2\<^sup>e\<^sup>-\<^sup>5\<^sup>2\<close>; the
  least exponent is -1022, with the same spacing below (subnormals); a result of \<open>2\<^sup>1\<^sup>0\<^sup>2\<^sup>4\<close> or
  more is an infinity.
\<close>

definition roundPos :: "real \<Rightarrow> double" where
  "roundPos r =
     (let e = max \<lfloor>log 2 r\<rfloor> (- 1022);
          ulp = 2 powr (of_int e - 52);
          t = of_int (rne (r / ulp)) * ulp
      in if t < 2 ^ 1024 then Finite t else PosInf)"

text \<open>Unary minus.\<close>

fun neg64 :: "double \<Rightarrow> double" where
  "neg64 (Finite r) = Finite (- r)"
| "neg64 PosInf = NegInf"
| "neg64 NegInf = PosInf"
| "neg64 NaN = NaN"

definition round64 :: "real \<Rightarrow> double" where
  "round64 r = (if r = 0 then Finite 0 else if 0 < r then roundPos r else neg64 (roundPos (- r)))"

text \<open>The operators \<^verbatim>\<open>+\<close> and \<^verbatim>\<open>/\<close>.\<close>

fun add64 :: "double \<Rightarrow> double \<Rightarrow> double" where
  "add64 (Finite a) (Finite b) = round64 (a + b)"
| "add64 (Finite a) PosInf = PosInf"
| "add64 (Finite a) NegInf = NegInf"
| "add64 PosInf (Finite b) = PosInf"
| "add64 PosInf PosInf = PosInf"
| "add64 PosInf NegInf = NaN"
| "add64 NegInf (Finite b) = NegInf"
| "add64 NegInf NegInf = NegInf"
| "add64 NegInf PosInf = NaN"
| "add64 NaN y = NaN"
| "add64 x NaN = NaN"

fun div64 :: "double \<Rightarrow> double \<Rightarrow> double" where
  "div64 (Finite a) (Finite b) =
     (if b = 0 then (if a = 0 then NaN else if 0 < a then PosInf else NegInf)
      else round64 (a / b))"
| "div64 (Finite a) PosInf = Finite 0"
| "div64 (Finite a) NegInf = Finite 0"
| "div64 PosInf (Finite b) = (if 0 \<le> b then PosInf else NegInf)"
| "div64 NegInf (Finite b) = (if 0 \<le> b then NegInf else PosInf)"
| "div64 PosInf PosInf = NaN"
| "div64 PosInf NegInf = NaN"
| "div64 NegInf PosInf = NaN"
| "div64 NegInf NegInf = NaN"
| "div64 NaN y = NaN"
| "div64 x NaN = NaN"

text \<open>
  \<^verbatim>\<open>Math.max\<close> of two arguments: NaN when either is. \<^verbatim>\<open>Math.exp\<close> and \<^verbatim>\<open>Math.tanh\<close>: their
  values at the infinities and at NaN are fixed by ECMAScript; at a finite argument the
  standard leaves the result to the implementation, as an approximation, and the model
  takes the correctly rounded one.
\<close>

fun Math_max :: "double \<Rightarrow> double \<Rightarrow> double" where
  "Math_max (Finite a) (Finite b) = Finite (max a b)"
| "Math_max (Finite a) PosInf = PosInf"
| "Math_max (Finite a) NegInf = Finite a"
| "Math_max PosInf (Finite b) = PosInf"
| "Math_max PosInf PosInf = PosInf"
| "Math_max PosInf NegInf = PosInf"
| "Math_max NegInf (Finite b) = Finite b"
| "Math_max NegInf PosInf = PosInf"
| "Math_max NegInf NegInf = NegInf"
| "Math_max NaN y = NaN"
| "Math_max x NaN = NaN"

fun Math_exp :: "double \<Rightarrow> double" where
  "Math_exp (Finite a) = round64 (exp a)"
| "Math_exp PosInf = PosInf"
| "Math_exp NegInf = Finite 0"
| "Math_exp NaN = NaN"

fun Math_tanh :: "double \<Rightarrow> double" where
  "Math_tanh (Finite a) = round64 (tanh a)"
| "Math_tanh PosInf = Finite 1"
| "Math_tanh NegInf = Finite (- 1)"
| "Math_tanh NaN = NaN"

text \<open>The three functions of the source, and the \<^verbatim>\<open>switch\<close> of \<^verbatim>\<open>forward\<close> that applies them.\<close>

definition sigmoid64 :: "double \<Rightarrow> double" where
  "sigmoid64 x = div64 (Finite 1) (add64 (Finite 1) (Math_exp (neg64 x)))"

definition relu64 :: "double \<Rightarrow> double" where
  "relu64 x = Math_max (Finite 0) x"

definition tanh64 :: "double \<Rightarrow> double" where
  "tanh64 x = Math_tanh x"

definition activate64 :: "ActivationType \<Rightarrow> double \<Rightarrow> double" where
  "activate64 kind s =
     (if kind = SIGMOID then sigmoid64 s
      else if kind = RELU then relu64 s
      else if kind = TANH then tanh64 s
      else Finite 0)"

text \<open>The comparisons \<^verbatim>\<open><=\<close> and \<^verbatim>\<open><\<close>: false when either side is NaN.\<close>

fun le64 :: "double \<Rightarrow> double \<Rightarrow> bool" where
  "le64 (Finite a) (Finite b) = (a \<le> b)"
| "le64 (Finite a) PosInf = True"
| "le64 (Finite a) NegInf = False"
| "le64 PosInf (Finite b) = False"
| "le64 PosInf PosInf = True"
| "le64 PosInf NegInf = False"
| "le64 NegInf (Finite b) = True"
| "le64 NegInf PosInf = True"
| "le64 NegInf NegInf = True"
| "le64 NaN y = False"
| "le64 x NaN = False"

fun lt64 :: "double \<Rightarrow> double \<Rightarrow> bool" where
  "lt64 (Finite a) (Finite b) = (a < b)"
| "lt64 (Finite a) PosInf = True"
| "lt64 (Finite a) NegInf = False"
| "lt64 PosInf (Finite b) = False"
| "lt64 PosInf PosInf = False"
| "lt64 PosInf NegInf = False"
| "lt64 NegInf (Finite b) = True"
| "lt64 NegInf PosInf = True"
| "lt64 NegInf NegInf = False"
| "lt64 NaN y = False"
| "lt64 x NaN = False"
section \<open>Properties of the dataset generator\<close>

text \<open>
  C6: \<^verbatim>\<open>generateData(XOR, 8)\<close> returns exactly the eight listed points, in the listed
  order, whatever the random source.
\<close>

theorem C6_xor_dataset_literal:
  "generateData DS_XOR (Some 8) rnd =
     [\<lparr>inputs = [1/10, 1/10], target = [0]\<rparr>,
      \<lparr>inputs = [9/10, 1/10], target = [1]\<rparr>,
      \<lparr>inputs = [1/10, 9/10], target = [1]\<rparr>,
      \<lparr>inputs = [9/10, 9/10], target = [0]\<rparr>,
      \<lparr>inputs = [2/10, 2/10], target = [0]\<rparr>,
      \<lparr>inputs = [8/10, 2/10], target = [1]\<rparr>,
      \<lparr>inputs = [2/10, 8/10], target = [1]\<rparr>,
      \<lparr>inputs = [8/10, 8/10], target = [0]\<rparr>]"
  by (simp add: generateData_def)

section \<open>Loops and array reads that succeed\<close>

lemma and_then_Inr [simp]: "and_then (Inr x) f = f x"
  by (simp add: and_then_def)

lemma and_then_Inl [simp]: "and_then (Inl e) f = Inl e"
  by (simp add: and_then_def)

lemma idx_in [simp]: "i < length xs \<Longrightarrow> idx xs i = Inr (xs ! i)"
  by (simp add: idx_def)

lemma num_in [simp]: "i < length xs \<Longrightarrow> num xs i = Inr (xs ! i)"
  by (simp add: num_def)

lemma opt_in [simp]: "i < length xs \<Longrightarrow> opt xs i = Some (xs ! i)"
  by (simp add: opt_def)

lemma put_in [simp]: "i < length xs \<Longrightarrow> put xs i v = Inr (xs[i := v])"
  by (simp add: put_def)

lemma for_loop_append:
  "for_loop (xs @ ys) body s = and_then (for_loop xs body s) (for_loop ys body)"
  by (induction xs arbitrary: s) (auto split: sum.splits)

lemma for_loop_upt:
  assumes "F 0 = s" and "\<And>k. k < n \<Longrightarrow> body k (F k) = Inr (F (Suc k))"
  shows "for_loop [0..<n] body s = Inr (F n)"
  using assms(2)
proof (induction n)
  case 0
  then show ?case by (simp add: assms(1))
next
  case (Suc n)
  then show ?case by (simp add: for_loop_append)
qed

lemma for_loop_rev_upt:
  assumes "F n = s" and "\<And>k. k < n \<Longrightarrow> body k (F (Suc k)) = Inr (F k)"
  shows "for_loop (rev [0..<n]) body s = Inr (F 0)"
  using assms
proof (induction n arbitrary: s)
  case 0
  then show ?case by simp
next
  case (Suc n)
  have "body n s = Inr (F n)"
    using Suc.prems(1) Suc.prems(2) [of n] by simp
  moreover have "for_loop (rev [0..<n]) body (F n) = Inr (F 0)"
    using Suc.prems(2) by (intro Suc.IH) simp_all
  ultimately show ?case by simp
qed

lemma push_loop_map:
  "(\<And>i. i \<in> set is \<Longrightarrow> body i = Inr (g i)) \<Longrightarrow> push_loop is body = Inr (map g is)"
  by (induction "is") auto

lemma weightedSum_ok:
  assumes "length cur \<le> length W" and "\<And>k. k < length cur \<Longrightarrow> j < length (W ! k)"
  shows "weightedSum cur W j b = Inr (b + (\<Sum>k<length cur. cur ! k * W ! k ! j))"
proof -
  let ?F = "\<lambda>n. b + (\<Sum>k<n. cur ! k * W ! k ! j)"
  have "for_loop [0..<length cur]
       (\<lambda>k sum. and_then (num cur k) (\<lambda>a.
                 and_then (idx W k) (\<lambda>row.
                 and_then (num row j) (\<lambda>w. Inr (sum + a * w)))))
       b = Inr (?F (length cur))"
    by (rule for_loop_upt) (use assms in \<open>simp_all add: add.assoc\<close>)
  then show ?thesis
    by (simp add: weightedSum_def)
qed

section \<open>The forward pass on a well-formed engine\<close>

lemma weightShape_nth:
  assumes "map (map length) ws = weightShape ls"
  shows "length ws = length ls - 1"
    and "i < length ls - 1 \<Longrightarrow> length (ws ! i) = neurons (ls ! i)"
    and "i < length ls - 1 \<Longrightarrow> j < neurons (ls ! i) \<Longrightarrow> length (ws ! i ! j) = neurons (ls ! Suc i)"
proof -
  show len: "length ws = length ls - 1"
    using arg_cong [OF assms, of length] by (simp add: weightShape_def)
  have row: "map length (ws ! i) = replicate (neurons (ls ! i)) (neurons (ls ! Suc i))"
    if "i < length ls - 1" for i
    using arg_cong [OF assms, of "\<lambda>t. t ! i"] that len by (simp add: weightShape_def)
  show l2: "length (ws ! i) = neurons (ls ! i)" if "i < length ls - 1"
    using arg_cong [OF row [OF that], of length] by simp
  show "length (ws ! i ! j) = neurons (ls ! Suc i)" if "i < length ls - 1" "j < neurons (ls ! i)"
    using arg_cong [OF row [OF that(1)], of "\<lambda>t. t ! j"] that l2 by simp
qed

lemma biasShape_nth:
  assumes "map length bs = biasShape ls"
  shows "length bs = length ls - 1"
    and "i < length ls - 1 \<Longrightarrow> length (bs ! i) = neurons (ls ! Suc i)"
proof -
  show len: "length bs = length ls - 1"
    using arg_cong [OF assms, of length] by (simp add: biasShape_def)
  show "length (bs ! i) = neurons (ls ! Suc i)" if "i < length ls - 1"
    using arg_cong [OF assms, of "\<lambda>t. t ! i"] that len by (simp add: biasShape_def)
qed

lemma length_preActivationOf [simp]:
  "length (preActivationOf net cur i) = neurons (layers net ! Suc i)"
  by (simp add: preActivationOf_def)

lemma length_layerActivation:
  "length xs = neurons (layers net ! 0) \<Longrightarrow> length (layerActivation net xs i) = neurons (layers net ! i)"
  by (cases i) simp_all

lemma length_layerPreActivation:
  "length xs = neurons (layers net ! 0) \<Longrightarrow> length (layerPreActivation net xs i) = neurons (layers net ! i)"
  by (cases i) simp_all

lemma layerPreActivations_ok:
  assumes "neurons lc \<le> length b" and "length cur \<le> length W"
    and "\<And>k. k < length cur \<Longrightarrow> neurons lc \<le> length (W ! k)"
  shows "layerPreActivations lc W (Some b) cur =
     Inr (map (\<lambda>j. b ! j + (\<Sum>k<length cur. cur ! k * W ! k ! j)) [0..<neurons lc])"
  unfolding layerPreActivations_def
proof (rule push_loop_map)
  fix j assume "j \<in> set [0..<neurons lc]"
  then have j: "j < neurons lc" by simp
  have "weightedSum cur W j (b ! j) = Inr (b ! j + (\<Sum>k<length cur. cur ! k * W ! k ! j))"
    using assms j by (intro weightedSum_ok) force+
  then show "and_then (case Some b of None \<Rightarrow> Inl TypeError | Some bs \<Rightarrow> num bs j) (weightedSum cur W j) =
     Inr (b ! j + (\<Sum>k<length cur. cur ! k * W ! k ! j))"
    using assms(1) j by simp
qed

lemma forward_ok:
  assumes wf: "wf_params net" and len: "length xs = neurons (layers net ! 0)"
  shows "forward net xs =
     Inr (net\<lparr>activations := map (layerActivation net xs) [0..<length (layers net)],
              preActivations := map (layerPreActivation net xs) [0..<length (layers net)]\<rparr>,
          layerActivation net xs (length (layers net) - 1))"
proof -
  let ?ls = "layers net"
  let ?F = "\<lambda>i. (map (layerActivation net xs) [0..<Suc i], map (layerPreActivation net xs) [0..<Suc i],
                  layerActivation net xs i)"
  have wlen: "length (weights net) = length ?ls - 1" and blen: "length (biases net) = length ?ls - 1"
    using wf weightShape_nth(1) biasShape_nth(1) by (auto simp: wf_params_def)
  have step: "(\<lambda>i (acts, pres, cur).
             and_then (idx (layers net) (i + 1)) (\<lambda>layerConfig.
             and_then (layerPreActivations layerConfig (weights net ! i) (opt (biases net) i) cur)
               (\<lambda>nextPreActivations.
                  let nextActivations = map (activate (activation layerConfig)) nextPreActivations
                  in Inr (acts @ [nextActivations], pres @ [nextPreActivations], nextActivations)))) i (?F i)
      = Inr (?F (Suc i))" if i: "i < length (weights net)" for i
  proof -
    have i': "i < length ?ls - 1" using i wlen by simp
    have lc: "length (layerActivation net xs i) = neurons (?ls ! i)"
      using len by (rule length_layerActivation)
    have "layerPreActivations (?ls ! Suc i) (weights net ! i) (Some (biases net ! i)) (layerActivation net xs i)
        = Inr (preActivationOf net (layerActivation net xs i) i)"
      unfolding preActivationOf_def
      using wf i' lc weightShape_nth(2,3) [of "weights net" ?ls i] biasShape_nth(2) [of "biases net" ?ls i]
      by (intro layerPreActivations_ok) (auto simp: wf_params_def)
    then show ?thesis
      using i' blen by (simp add: Let_def)
  qed
  have "for_loop [0..<length (weights net)]
          (\<lambda>i (acts, pres, cur).
             and_then (idx (layers net) (i + 1)) (\<lambda>layerConfig.
             and_then (layerPreActivations layerConfig (weights net ! i) (opt (biases net) i) cur)
               (\<lambda>nextPreActivations.
                  let nextActivations = map (activate (activation layerConfig)) nextPreActivations
                  in Inr (acts @ [nextActivations], pres @ [nextPreActivations], nextActivations))))
          ([xs], [xs], xs) = Inr (?F (length (weights net)))"
    by (rule for_loop_upt) (simp, use step in blast)
  moreover obtain n where "length ?ls = Suc n"
    using wf by (cases ?ls) (auto simp: wf_params_def)
  ultimately show ?thesis
    unfolding forward_def by (simp add: wlen)
qed

section \<open>The loops of a training step\<close>

lemma overwritten_0 [simp]: "overwritten f 0 xs = xs"
  by (simp add: overwritten_def)

lemma length_overwritten [simp]: "k \<le> length xs \<Longrightarrow> length (overwritten f k xs) = length xs"
  by (simp add: overwritten_def)

lemma overwritten_nth_ge [simp]: "k \<le> j \<Longrightarrow> j < length xs \<Longrightarrow> overwritten f k xs ! j = xs ! j"
  by (simp add: overwritten_def nth_append)

lemma overwritten_step: "k < length xs \<Longrightarrow> (overwritten f k xs)[k := f k] = overwritten f (Suc k) xs"
  by (simp add: overwritten_def list_update_append upd_conv_take_nth_drop flip: drop_Suc)

lemma overwritten_full [simp]: "n = length xs \<Longrightarrow> overwritten f n xs = map f [0..<n]"
  by (simp add: overwritten_def)

lemma put2_in [simp]:
  "i < length t \<Longrightarrow> k < length (t ! i) \<Longrightarrow> put2 t i k v = Inr (t[i := (t ! i)[k := v]])"
  by (simp add: put2_def)

lemma put3_in [simp]:
  "i < length t \<Longrightarrow> j < length (t ! i) \<Longrightarrow> k < length (t ! i ! j) \<Longrightarrow>
   put3 t i j k v = Inr (t[i := (t ! i)[j := (t ! i ! j)[k := v]]])"
  by (simp add: put3_def)

lemma add2_in [simp]:
  "i < length t \<Longrightarrow> k < length (t ! i) \<Longrightarrow> add2 t i k v = Inr (t[i := (t ! i)[k := t ! i ! k + v]])"
  by (simp add: add2_def)

lemma add3_in [simp]:
  "i < length t \<Longrightarrow> j < length (t ! i) \<Longrightarrow> k < length (t ! i ! j) \<Longrightarrow>
   add3 t i j k v = Inr (t[i := (t ! i)[j := (t ! i ! j)[k := t ! i ! j ! k + v]]])"
  by (simp add: add3_def)

text \<open>
  A loop that assigns \<open>f k\<close> to the cell \<open>k\<close> of one row and \<open>g k\<close> to the cell \<open>k\<close> of
  another, for every \<open>k\<close> below \<open>n\<close>; \<open>S\<close> places the two rows in the loop's variables.
\<close>

lemma row_loop2:
  assumes n: "n \<le> length r0" "n \<le> length q0"
    and body: "\<And>k r q. k < n \<Longrightarrow> length r = length r0 \<Longrightarrow> r ! k = r0 ! k \<Longrightarrow>
                 length q = length q0 \<Longrightarrow> q ! k = q0 ! k \<Longrightarrow>
                 body k (S r q) = Inr (S (r[k := f k]) (q[k := g k]))"
  shows "for_loop [0..<n] body (S r0 q0) = Inr (S (overwritten f n r0) (overwritten g n q0))"
proof (rule for_loop_upt [where F = "\<lambda>k. S (overwritten f k r0) (overwritten g k q0)"])
  show "S (overwritten f 0 r0) (overwritten g 0 q0) = S r0 q0" by simp
next
  fix k assume k: "k < n"
  have "body k (S (overwritten f k r0) (overwritten g k q0)) =
        Inr (S ((overwritten f k r0)[k := f k]) ((overwritten g k q0)[k := g k]))"
    using k n by (intro body) simp_all
  then show "body k (S (overwritten f k r0) (overwritten g k q0)) =
        Inr (S (overwritten f (Suc k) r0) (overwritten g (Suc k) q0))"
    using k n by (simp add: overwritten_step)
qed

lemma row_loop:
  assumes n: "n \<le> length r0"
    and body: "\<And>k r. k < n \<Longrightarrow> length r = length r0 \<Longrightarrow> r ! k = r0 ! k \<Longrightarrow>
                 body k (S r) = Inr (S (r[k := f k]))"
  shows "for_loop [0..<n] body (S r0) = Inr (S (overwritten f n r0))"
  using row_loop2 [where S = "\<lambda>r q. S r" and ?q0.0 = r0 and g = f and body = body and f = f, OF n n]
    body by simp

lemma weightGradient_row:
  assumes i: "i < length wg" "i < length accW"
    and j: "j < length (wg ! i)" "j < length (accW ! i)" "j < length pv"
    and n: "n = length (wg ! i ! j)" "n = length (accW ! i ! j)" "n \<le> length nx"
  shows "for_loop [0..<n] (\<lambda>k (wg, accW).
         and_then (numOf (Some nx) k) (\<lambda>d.
         and_then (numOf (Some pv) j) (\<lambda>a.
         let gradient = d * a in
         and_then (put3 wg i j k gradient) (\<lambda>wg'.
         and_then (add3 accW i j k gradient) (\<lambda>accW'.
         Inr (wg', accW')))))) (wg, accW)
     = Inr (wg[i := (wg ! i)[j := map (\<lambda>k. nx ! k * pv ! j) [0..<n]]],
            accW[i := (accW ! i)[j := map (\<lambda>k. accW ! i ! j ! k + nx ! k * pv ! j) [0..<n]]])"
proof -
  let ?S = "\<lambda>r q. (wg[i := (wg ! i)[j := r]], accW[i := (accW ! i)[j := q]])"
  have "for_loop [0..<n] (\<lambda>k (wg, accW).
         and_then (numOf (Some nx) k) (\<lambda>d.
         and_then (numOf (Some pv) j) (\<lambda>a.
         let gradient = d * a in
         and_then (put3 wg i j k gradient) (\<lambda>wg'.
         and_then (add3 accW i j k gradient) (\<lambda>accW'.
         Inr (wg', accW')))))) (?S (wg ! i ! j) (accW ! i ! j))
     = Inr (?S (overwritten (\<lambda>k. nx ! k * pv ! j) n (wg ! i ! j))
               (overwritten (\<lambda>k. accW ! i ! j ! k + nx ! k * pv ! j) n (accW ! i ! j)))"
    by (rule row_loop2) (use assms in \<open>simp_all add: numOf_def Let_def\<close>)
  then show ?thesis
    using n by simp
qed

lemma weightGradientLoop_ok:
  assumes i: "i < length (weights net)" "i < length wg" "i < length accW"
    and m: "length (wg ! i) = length (weights net ! i)" "length (accW ! i) = length (weights net ! i)"
      "length (weights net ! i) \<le> length pv"
    and n: "\<And>j. j < length (weights net ! i) \<Longrightarrow>
        length (wg ! i ! j) = length (weights net ! i ! j) \<and>
        length (accW ! i ! j) = length (weights net ! i ! j) \<and>
        length (weights net ! i ! j) \<le> length nx"
  shows "weightGradientLoop net i (Some pv) (Some nx) (wg, accW) =
     Inr (wg[i := map (\<lambda>j. map (\<lambda>k. nx ! k * pv ! j) [0..<length (weights net ! i ! j)])
                    [0..<length (weights net ! i)]],
          accW[i := map (\<lambda>j. map (\<lambda>k. accW ! i ! j ! k + nx ! k * pv ! j) [0..<length (weights net ! i ! j)])
                    [0..<length (weights net ! i)]])"
proof -
  let ?m = "length (weights net ! i)"
  let ?n = "\<lambda>j. length (weights net ! i ! j)"
  let ?S = "\<lambda>R Q. (wg[i := R], accW[i := Q])"
  let ?f = "\<lambda>j. map (\<lambda>k. nx ! k * pv ! j) [0..<?n j]"
  let ?g = "\<lambda>j. map (\<lambda>k. accW ! i ! j ! k + nx ! k * pv ! j) [0..<?n j]"
  have "for_loop [0..<?m] (\<lambda>j.
       for_loop [0..<?n j] (\<lambda>k (wg, accW).
         and_then (numOf (Some nx) k) (\<lambda>d.
         and_then (numOf (Some pv) j) (\<lambda>a.
         let gradient = d * a in
         and_then (put3 wg i j k gradient) (\<lambda>wg'.
         and_then (add3 accW i j k gradient) (\<lambda>accW'.
         Inr (wg', accW'))))))) (?S (wg ! i) (accW ! i))
     = Inr (?S (overwritten ?f ?m (wg ! i)) (overwritten ?g ?m (accW ! i)))"
  proof (rule row_loop2)
    fix j R Q
    assume j: "j < ?m" and R: "length R = length (wg ! i)" "R ! j = wg ! i ! j"
      and Q: "length Q = length (accW ! i)" "Q ! j = accW ! i ! j"
    have "for_loop [0..<?n j] (\<lambda>k (wg, accW).
         and_then (numOf (Some nx) k) (\<lambda>d.
         and_then (numOf (Some pv) j) (\<lambda>a.
         let gradient = d * a in
         and_then (put3 wg i j k gradient) (\<lambda>wg'.
         and_then (add3 accW i j k gradient) (\<lambda>accW'.
         Inr (wg', accW')))))) (wg[i := R], accW[i := Q])
      = Inr ((wg[i := R])[i := ((wg[i := R]) ! i)[j := map (\<lambda>k. nx ! k * pv ! j) [0..<?n j]]],
             (accW[i := Q])[i := ((accW[i := Q]) ! i)
                [j := map (\<lambda>k. (accW[i := Q]) ! i ! j ! k + nx ! k * pv ! j) [0..<?n j]]])"
      using i m j R Q n [OF j] by (intro weightGradient_row) simp_all
    then show "for_loop [0..<?n j] (\<lambda>k (wg, accW).
         and_then (numOf (Some nx) k) (\<lambda>d.
         and_then (numOf (Some pv) j) (\<lambda>a.
         let gradient = d * a in
         and_then (put3 wg i j k gradient) (\<lambda>wg'.
         and_then (add3 accW i j k gradient) (\<lambda>accW'.
         Inr (wg', accW')))))) (wg[i := R], accW[i := Q])
      = Inr (wg[i := R[j := ?f j]], accW[i := Q[j := ?g j]])"
      using i Q by simp
  qed (use m in simp_all)
  then show ?thesis
    using m by (simp add: weightGradientLoop_def)
qed

lemma biasGradientLoop_ok:
  assumes i: "i < length (biases net)" "i < length accB"
    and n: "length (accB ! i) = length (biases net ! i)" "length (biases net ! i) \<le> length nx"
  shows "biasGradientLoop net i (Some nx) accB =
     Inr (accB[i := map (\<lambda>k. accB ! i ! k + nx ! k) [0..<length (biases net ! i)]])"
proof -
  have "for_loop [0..<length (biases net ! i)]
         (\<lambda>k accB. and_then (numOf (Some nx) k) (\<lambda>d. add2 accB i k d))
         ((\<lambda>r. accB[i := r]) (accB ! i))
      = Inr ((\<lambda>r. accB[i := r]) (overwritten (\<lambda>k. accB ! i ! k + nx ! k) (length (biases net ! i)) (accB ! i)))"
    by (rule row_loop) (use assms in \<open>simp_all add: numOf_def\<close>)
  then show ?thesis
    using assms by (simp add: biasGradientLoop_def)
qed

lemma activationPrime_Some [simp]:
  "activationPrime kind (Some a) (Some z) = Inr (activationPrimeOf kind a z)"
  by (simp add: activationPrime_def activationPrimeOf_def)

lemma idxi_in [simp]: "0 \<le> i \<Longrightarrow> nat i < length xs \<Longrightarrow> idxi xs i = Inr (xs ! nat i)"
  by (auto simp: idxi_def)

lemma sum_loop:
  assumes "\<And>k s. k < n \<Longrightarrow> body k s = Inr (s + t k)"
  shows "for_loop [0..<n] body b = Inr (b + (\<Sum>k<n. t k))"
  by (rule for_loop_upt [where F = "\<lambda>n. b + (\<Sum>k<n. t k)"]) (simp_all add: assms add.assoc)

lemma hiddenDeltas_ok:
  assumes i: "Suc i < length (layers net)" "i < length (weights net)" "i < length ng"
      "i < length (preActivations net)" "i < length (activations net)"
    and m: "length (ng ! i) = neurons (layers net ! i)"
      "neurons (layers net ! i) \<le> length (weights net ! i)"
      "neurons (layers net ! i) \<le> length (preActivations net ! i)"
      "neurons (layers net ! i) \<le> length (activations net ! i)"
    and n: "neurons (layers net ! Suc i) \<le> length nx"
      "\<And>j. j < neurons (layers net ! i) \<Longrightarrow> neurons (layers net ! Suc i) \<le> length (weights net ! i ! j)"
  shows "hiddenDeltas net i (Some nx) ng =
     Inr (ng[i := map (\<lambda>j. (\<Sum>k<neurons (layers net ! Suc i). nx ! k * weights net ! i ! j ! k) *
                           activationPrimeOf (activation (layers net ! i))
                             (activations net ! i ! j) (preActivations net ! i ! j))
                    [0..<neurons (layers net ! i)]])"
proof -
  let ?f = "\<lambda>j. (\<Sum>k<neurons (layers net ! Suc i). nx ! k * weights net ! i ! j ! k) *
                           activationPrimeOf (activation (layers net ! i))
                             (activations net ! i ! j) (preActivations net ! i ! j)"
  have es: "for_loop [0..<neurons (layers net ! Suc i)]
                 (\<lambda>k errorSum.
                    and_then (numOf (Some nx) k) (\<lambda>d.
                    and_then (idx (weights net ! i) j) (\<lambda>row.
                    and_then (num row k) (\<lambda>w. Inr (errorSum + d * w)))))
                 0 = Inr (0 + (\<Sum>k<neurons (layers net ! Suc i). nx ! k * weights net ! i ! j ! k))"
    if "j < neurons (layers net ! i)" for j
    by (rule sum_loop) (use that m n in \<open>force simp: numOf_def\<close>)
  have "for_loop [0..<neurons (layers net ! i)]
         (\<lambda>j ng.
            and_then (idx (layers net) (i + 1)) (\<lambda>nextConfig.
            and_then
              (for_loop [0..<neurons nextConfig]
                 (\<lambda>k errorSum.
                    and_then (numOf (Some nx) k) (\<lambda>d.
                    and_then (idx (weights net ! i) j) (\<lambda>row.
                    and_then (num row k) (\<lambda>w. Inr (errorSum + d * w)))))
                 0)
              (\<lambda>errorSum.
            and_then (idx (preActivations net) i) (\<lambda>pre.
            let z = opt pre j in
            and_then (idx (activations net) i) (\<lambda>act.
            let a = opt act j in
            and_then (activationPrime (activation (layers net ! i)) a z) (\<lambda>prime.
            put2 ng i j (errorSum * prime)))))))
         ((\<lambda>r. ng[i := r]) (ng ! i))
      = Inr ((\<lambda>r. ng[i := r]) (overwritten ?f (neurons (layers net ! i)) (ng ! i)))"
  proof (rule row_loop)
    fix j and r :: "real list"
    assume j: "j < neurons (layers net ! i)" and r: "length r = length (ng ! i)"
    show "and_then (idx (layers net) (i + 1)) (\<lambda>nextConfig.
            and_then
              (for_loop [0..<neurons nextConfig]
                 (\<lambda>k errorSum.
                    and_then (numOf (Some nx) k) (\<lambda>d.
                    and_then (idx (weights net ! i) j) (\<lambda>row.
                    and_then (num row k) (\<lambda>w. Inr (errorSum + d * w)))))
                 0)
              (\<lambda>errorSum.
            and_then (idx (preActivations net) i) (\<lambda>pre.
            let z = opt pre j in
            and_then (idx (activations net) i) (\<lambda>act.
            let a = opt act j in
            and_then (activationPrime (activation (layers net ! i)) a z) (\<lambda>prime.
            put2 (ng[i := r]) i j (errorSum * prime)))))) = Inr (ng[i := r[j := ?f j]])"
      using i m j r es [OF j] by (simp add: Let_def)
  qed (use m in simp)
  then show ?thesis
    using i m by (simp add: hiddenDeltas_def)
qed

lemma outputDeltas_ok:
  assumes ls: "layers net \<noteq> []"
    and L: "length (layers net) - 1 < length (preActivations net)" "length (layers net) - 1 < length ng"
    and n: "length (ng ! (length (layers net) - 1)) = length outputs" "length outputs \<le> length targets"
      "length outputs \<le> length (preActivations net ! (length (layers net) - 1))"
  shows "outputDeltas net outputs targets ng =
     Inr (ng[length (layers net) - 1 :=
          map (\<lambda>i. (outputs ! i - targets ! i) *
                    activationPrimeOf (activation (layers net ! (length (layers net) - 1)))
                      (outputs ! i) (preActivations net ! (length (layers net) - 1) ! i))
              [0..<length outputs]])"
proof -
  let ?L = "length (layers net) - 1"
  let ?f = "\<lambda>i. (outputs ! i - targets ! i) *
                    activationPrimeOf (activation (layers net ! ?L))
                      (outputs ! i) (preActivations net ! ?L ! i)"
  have nat: "nat (int (length (layers net)) - 1) = ?L" "0 \<le> int (length (layers net)) - 1"
    using ls by (cases "layers net"; simp)+
  have "for_loop [0..<length outputs]
        (\<lambda>i ng.
           and_then (num outputs i) (\<lambda>out.
           and_then (num targets i) (\<lambda>t.
           let error = out - t in
           and_then (idxi (preActivations net) (int (length (layers net)) - 1)) (\<lambda>pre.
           let z = opt pre i in
           and_then (idxi (layers net) (int (length (layers net)) - 1)) (\<lambda>l.
           and_then (activationPrime (activation l) (Some out) z) (\<lambda>prime.
           put2 ng (nat (int (length (layers net)) - 1)) i (error * prime)))))))
        ((\<lambda>r. ng[?L := r]) (ng ! ?L))
     = Inr ((\<lambda>r. ng[?L := r]) (overwritten ?f (length outputs) (ng ! ?L)))"
    by (rule row_loop) (use assms nat in \<open>simp_all add: Let_def\<close>)
  then show ?thesis
    using assms by (simp add: outputDeltas_def Let_def)
qed

section \<open>Back-propagation on a well-formed engine\<close>

lemma layerDelta_output:
  "layers net \<noteq> [] \<Longrightarrow> layerDelta net targets (length (layers net) - 1) = outputDelta net targets"
  by (cases "layers net") (auto simp: layerDelta_def)

lemma layerDelta_hidden:
  assumes "0 < i" "Suc i < length (layers net)"
  shows "layerDelta net targets i =
     map (\<lambda>j. (\<Sum>k<neurons (layers net ! Suc i). layerDelta net targets (Suc i) ! k * weights net ! i ! j ! k) *
                activationPrimeOf (activation (layers net ! i))
                  (activations net ! i ! j) (preActivations net ! i ! j))
        [0..<neurons (layers net ! i)]"
proof -
  obtain d where d: "length (layers net) - 1 - i = Suc d"
    using assms by (metis Suc_diff_Suc diff_Suc_eq_diff_pred zero_less_diff less_imp_Suc_add add_diff_cancel_left' plus_1_eq_Suc)
  then have "length (layers net) - 1 - Suc d = i" "length (layers net) - 1 - Suc i = d"
    using assms by linarith+
  then show ?thesis
    using assms d by (simp add: layerDelta_def Let_def)
qed

lemma length_layerDelta:
  "r < length (layers net) \<Longrightarrow> length (layerDelta net targets r) = neurons (layers net ! r)"
proof (cases "length (layers net) - 1 - r")
  case 0
  assume "r < length (layers net)"
  with 0 have "r = length (layers net) - 1" by linarith
  with 0 show ?thesis
    by (auto simp: layerDelta_def outputDelta_def Let_def)
next
  case (Suc d)
  assume "r < length (layers net)"
  with Suc have "length (layers net) - 1 - Suc d = r" by linarith
  with Suc show ?thesis
    by (auto simp: layerDelta_def Let_def)
qed

lemma wf_engine_shapes:
  assumes "wf_engine net"
  shows "layers net \<noteq> []"
    and "length (weights net) = length (layers net) - 1"
    and "length (biases net) = length (layers net) - 1"
    and "length (accWeightGradients net) = length (layers net) - 1"
    and "length (accBiasGradients net) = length (layers net) - 1"
    and "i < length (layers net) - 1 \<Longrightarrow> length (weights net ! i) = neurons (layers net ! i)"
    and "i < length (layers net) - 1 \<Longrightarrow> j < neurons (layers net ! i) \<Longrightarrow>
           length (weights net ! i ! j) = neurons (layers net ! Suc i)"
    and "i < length (layers net) - 1 \<Longrightarrow> length (biases net ! i) = neurons (layers net ! Suc i)"
    and "i < length (layers net) - 1 \<Longrightarrow> length (accWeightGradients net ! i) = neurons (layers net ! i)"
    and "i < length (layers net) - 1 \<Longrightarrow> j < neurons (layers net ! i) \<Longrightarrow>
           length (accWeightGradients net ! i ! j) = neurons (layers net ! Suc i)"
    and "i < length (layers net) - 1 \<Longrightarrow> length (accBiasGradients net ! i) = neurons (layers net ! Suc i)"
  using assms weightShape_nth [of "weights net" "layers net"] biasShape_nth [of "biases net" "layers net"]
    weightShape_nth [of "accWeightGradients net" "layers net"]
    biasShape_nth [of "accBiasGradients net" "layers net"]
  by (simp_all add: wf_engine_def wf_params_def)

lemma backprop_loop_ok:
  assumes wf: "wf_engine net"
    and acts: "map length (activations net) = map neurons (layers net)"
    and pres: "map length (preActivations net) = map neurons (layers net)"
  shows "for_loop (rev [0..<length (weights net)]) (backpropLayer net)
           ((map (\<lambda>l. replicate (neurons l) 0) (layers net))
               [length (layers net) - 1 := outputDelta net targets],
            map (\<lambda>l. map (\<lambda>n. replicate (length n) 0) l) (weights net),
            accWeightGradients net, accBiasGradients net)
     = Inr (neuronGradients (backprop net targets), weightGradients (backprop net targets),
            accWeightGradients (backprop net targets), accBiasGradients (backprop net targets))"
proof -
  let ?ls = "layers net"
  let ?W = "weights net"
  let ?n = "length ?ls - 1"
  note sh = wf_engine_shapes [OF wf]
  have la: "length (activations net) = length ?ls" and lp: "length (preActivations net) = length ?ls"
    using arg_cong [OF acts, of length] arg_cong [OF pres, of length] by simp_all
  have lai: "length (activations net ! r) = neurons (?ls ! r)"
    and lpi: "length (preActivations net ! r) = neurons (?ls ! r)" if "r < length ?ls" for r
    using arg_cong [OF acts, of "\<lambda>t. t ! r"] arg_cong [OF pres, of "\<lambda>t. t ! r"] that la lp by simp_all
  define NG where "NG i = map (\<lambda>r. if i \<le> r then layerDelta net targets r
                                   else replicate (neurons (?ls ! r)) 0) [0..<length ?ls]" for i
  define WG where "WG i = map (\<lambda>l. if i \<le> l then weightGradientOf net targets l
                                   else map (\<lambda>n. replicate (length n) 0) (?W ! l)) [0..<?n]" for i
  define AW where "AW i = map (\<lambda>l. if i \<le> l then accWeightGradients (backprop net targets) ! l
                                   else accWeightGradients net ! l) [0..<?n]" for i
  define AB where "AB i = map (\<lambda>l. if i \<le> l then accBiasGradients (backprop net targets) ! l
                                   else accBiasGradients net ! l) [0..<?n]" for i
  have init: "(NG ?n, WG ?n, AW ?n, AB ?n) =
      ((map (\<lambda>l. replicate (neurons l) 0) ?ls)[?n := outputDelta net targets],
       map (\<lambda>l. map (\<lambda>n. replicate (length n) 0) l) ?W,
       accWeightGradients net, accBiasGradients net)"
  proof -
    have "NG ?n = (map (\<lambda>l. replicate (neurons l) 0) ?ls)[?n := outputDelta net targets]"
      by (rule nth_equalityI) (use sh(1) in \<open>auto simp: NG_def layerDelta_output [unfolded One_nat_def] nth_list_update\<close>)
    moreover have "WG ?n = map (\<lambda>l. map (\<lambda>n. replicate (length n) 0) l) ?W"
      by (rule nth_equalityI) (use sh(2) in \<open>auto simp: WG_def\<close>)
    moreover have "AW ?n = accWeightGradients net"
      by (rule nth_equalityI) (use sh(4) in \<open>auto simp: AW_def\<close>)
    moreover have "AB ?n = accBiasGradients net"
      by (rule nth_equalityI) (use sh(5) in \<open>auto simp: AB_def\<close>)
    ultimately show ?thesis by simp
  qed
  have step: "backpropLayer net i (NG (Suc i), WG (Suc i), AW (Suc i), AB (Suc i))
      = Inr (NG i, WG i, AW i, AB i)" if i: "i < ?n" for i
  proof -
    let ?nx = "layerDelta net targets (Suc i)"
    let ?pv = "activations net ! i"
    have i': "Suc i < length ?ls" "i < length ?ls" using i by simp_all
    have nx: "opt (NG (Suc i)) (Suc i) = Some ?nx"
      using i' by (simp add: NG_def)
    have pv: "opt (activations net) i = Some ?pv"
      using i' la by simp
    have lnx: "length ?nx = neurons (?ls ! Suc i)"
      using i' by (simp add: length_layerDelta)
    have wgl: "weightGradientLoop net i (Some ?pv) (Some ?nx) (WG (Suc i), AW (Suc i)) =
       Inr ((WG (Suc i))[i := map (\<lambda>j. map (\<lambda>k. ?nx ! k * ?pv ! j) [0..<length (?W ! i ! j)])
                    [0..<length (?W ! i)]],
          (AW (Suc i))[i := map (\<lambda>j. map (\<lambda>k. AW (Suc i) ! i ! j ! k + ?nx ! k * ?pv ! j)
                     [0..<length (?W ! i ! j)]) [0..<length (?W ! i)]])"
      using i i' sh(2,4) sh(6,7,9,10) [of i] lnx lai [of i]
      by (intro weightGradientLoop_ok) (simp_all add: WG_def AW_def)
    have wg: "(WG (Suc i))[i := map (\<lambda>j. map (\<lambda>k. ?nx ! k * ?pv ! j) [0..<length (?W ! i ! j)])
                    [0..<length (?W ! i)]] = WG i"
      by (rule nth_equalityI) (use i sh(6,7) [of i] in \<open>auto simp: WG_def nth_list_update weightGradientOf_def\<close>)
    have aw: "(AW (Suc i))[i := map (\<lambda>j. map (\<lambda>k. AW (Suc i) ! i ! j ! k + ?nx ! k * ?pv ! j)
                     [0..<length (?W ! i ! j)]) [0..<length (?W ! i)]] = AW i"
      by (rule nth_equalityI) (use i sh(6,7) [of i] in \<open>auto simp: AW_def nth_list_update weightGradientOf_def backprop_def\<close>)
    have bgl: "biasGradientLoop net i (Some ?nx) (AB (Suc i)) =
       Inr ((AB (Suc i))[i := map (\<lambda>k. AB (Suc i) ! i ! k + ?nx ! k) [0..<length (biases net ! i)]])"
      using i sh(3,5) sh(8,11) [of i] lnx
      by (intro biasGradientLoop_ok) (simp_all add: AB_def)
    have ab: "(AB (Suc i))[i := map (\<lambda>k. AB (Suc i) ! i ! k + ?nx ! k) [0..<length (biases net ! i)]] = AB i"
      by (rule nth_equalityI) (use i sh(8) [of i] in \<open>auto simp: AB_def nth_list_update backprop_def\<close>)
    have hd: "(if i > 0 then hiddenDeltas net i (Some ?nx) (NG (Suc i)) else Inr (NG (Suc i))) = Inr (NG i)"
    proof (cases "i > 0")
      case True
      have "hiddenDeltas net i (Some ?nx) (NG (Suc i)) =
        Inr ((NG (Suc i))[i := map (\<lambda>j. (\<Sum>k<neurons (?ls ! Suc i). ?nx ! k * ?W ! i ! j ! k) *
                           activationPrimeOf (activation (?ls ! i))
                             (activations net ! i ! j) (preActivations net ! i ! j))
                    [0..<neurons (?ls ! i)]])"
        using i i' sh(2) sh(6,7) [of i] lnx lai [of i] lpi [of i] la lp
        by (intro hiddenDeltas_ok) (simp_all add: NG_def)
      moreover have "(NG (Suc i))[i := layerDelta net targets i] = NG i"
        by (rule nth_equalityI) (use i' in \<open>auto simp: NG_def nth_list_update\<close>)
      ultimately show ?thesis
        using True i' by (simp add: layerDelta_hidden [OF True i'(1)])
    next
      case False
      have "NG (Suc i) = NG i"
        by (rule nth_equalityI) (use False i' in \<open>auto simp: NG_def layerDelta_def\<close>)
      with False show ?thesis by simp
    qed
    show ?thesis
      using nx pv wgl wg aw bgl ab hd by (simp add: backpropLayer_def)
  qed
  have "for_loop (rev [0..<?n]) (backpropLayer net) (NG ?n, WG ?n, AW ?n, AB ?n)
      = Inr (NG 0, WG 0, AW 0, AB 0)"
    by (rule for_loop_rev_upt [where F = "\<lambda>i. (NG i, WG i, AW i, AB i)"]) (simp, use step in blast)
  moreover have "NG 0 = neuronGradients (backprop net targets)"
    "WG 0 = weightGradients (backprop net targets)"
    "AW 0 = accWeightGradients (backprop net targets)"
    "AB 0 = accBiasGradients (backprop net targets)"
    by (simp_all add: NG_def WG_def AW_def AB_def backprop_def)
  ultimately show ?thesis
    using init sh(2) by simp
qed

section \<open>The update step on a well-formed engine\<close>

lemma times_scaler_Some [simp]: "times_scaler acc (Some s) = Inr (acc * s)"
  by (simp add: times_scaler_def)

lemma weightUpdate_loop:
  assumes i: "i < length R" "i < length A"
    and m: "length (R ! i) = m" "length (A ! i) = m"
    and n: "\<And>j. j < m \<Longrightarrow> length (R ! i ! j) = n j \<and> length (A ! i ! j) = n j"
  shows "for_loop [0..<m] (\<lambda>j.
           for_loop [0..<n j] (\<lambda>k ws.
             and_then (idx A i) (\<lambda>al.
             and_then (idx al j) (\<lambda>ar.
             and_then (num ar k) (\<lambda>acc.
             and_then (times_scaler acc (Some scaler)) (\<lambda>avgGrad.
             add3 ws i j k (- (lr * avgGrad)))))))) R
     = Inr (R[i := map (\<lambda>j. map (\<lambda>k. R ! i ! j ! k - lr * (A ! i ! j ! k * scaler)) [0..<n j]) [0..<m]])"
proof -
  let ?f = "\<lambda>j. map (\<lambda>k. R ! i ! j ! k - lr * (A ! i ! j ! k * scaler)) [0..<n j]"
  have "for_loop [0..<m] (\<lambda>j.
           for_loop [0..<n j] (\<lambda>k ws.
             and_then (idx A i) (\<lambda>al.
             and_then (idx al j) (\<lambda>ar.
             and_then (num ar k) (\<lambda>acc.
             and_then (times_scaler acc (Some scaler)) (\<lambda>avgGrad.
             add3 ws i j k (- (lr * avgGrad)))))))) ((\<lambda>r. R[i := r]) (R ! i))
      = Inr ((\<lambda>r. R[i := r]) (overwritten ?f m (R ! i)))"
  proof (rule row_loop)
    fix j and r :: "real list list"
    assume j: "j < m" and r: "length r = length (R ! i)" "r ! j = R ! i ! j"
    have "for_loop [0..<n j] (\<lambda>k ws.
             and_then (idx A i) (\<lambda>al.
             and_then (idx al j) (\<lambda>ar.
             and_then (num ar k) (\<lambda>acc.
             and_then (times_scaler acc (Some scaler)) (\<lambda>avgGrad.
             add3 ws i j k (- (lr * avgGrad))))))) ((\<lambda>q. R[i := r[j := q]]) (R ! i ! j))
       = Inr ((\<lambda>q. R[i := r[j := q]]) (overwritten (\<lambda>k. R ! i ! j ! k - lr * (A ! i ! j ! k * scaler)) (n j) (R ! i ! j)))"
      by (rule row_loop) (use i m j r n [OF j] in \<open>simp_all add: Let_def\<close>)
    then show "for_loop [0..<n j] (\<lambda>k ws.
             and_then (idx A i) (\<lambda>al.
             and_then (idx al j) (\<lambda>ar.
             and_then (num ar k) (\<lambda>acc.
             and_then (times_scaler acc (Some scaler)) (\<lambda>avgGrad.
             add3 ws i j k (- (lr * avgGrad))))))) (R[i := r]) = Inr (R[i := r[j := ?f j]])"
      using r(1) n [OF j] j m by (simp add: r(2) [symmetric])
  qed (use m in simp)
  then show ?thesis
    using m by simp
qed

lemma biasUpdate_loop:
  assumes i: "i < length Q" "i < length A"
    and n: "length (Q ! i) = n" "length (A ! i) = n"
  shows "for_loop [0..<n] (\<lambda>k bs.
             and_then (idx A i) (\<lambda>ar.
             and_then (num ar k) (\<lambda>acc.
             and_then (times_scaler acc (Some scaler)) (\<lambda>avgGrad.
             add2 bs i k (- (lr * avgGrad)))))) Q
     = Inr (Q[i := map (\<lambda>k. Q ! i ! k - lr * (A ! i ! k * scaler)) [0..<n]])"
proof -
  have "for_loop [0..<n] (\<lambda>k bs.
             and_then (idx A i) (\<lambda>ar.
             and_then (num ar k) (\<lambda>acc.
             and_then (times_scaler acc (Some scaler)) (\<lambda>avgGrad.
             add2 bs i k (- (lr * avgGrad)))))) ((\<lambda>r. Q[i := r]) (Q ! i))
      = Inr ((\<lambda>r. Q[i := r]) (overwritten (\<lambda>k. Q ! i ! k - lr * (A ! i ! k * scaler)) n (Q ! i)))"
    by (rule row_loop) (use assms in \<open>simp_all add: Let_def\<close>)
  then show ?thesis
    using n by simp
qed

lemma applyUpdate_ok:
  assumes wf: "wf_engine net" and bs: "batchSize net \<noteq> 0"
  shows "applyUpdate net = Inr (weights (updated net), biases (updated net))"
proof -
  let ?ls = "layers net"
  let ?n = "length ?ls - 1"
  let ?sc = "1 / batchSize net"
  note sh = wf_engine_shapes [OF wf]
  let ?fW = "\<lambda>i. map (\<lambda>j. map (\<lambda>k. weights net ! i ! j ! k -
                   learningRate net * (accWeightGradients net ! i ! j ! k * ?sc))
                   [0..<neurons (?ls ! Suc i)]) [0..<neurons (?ls ! i)]"
  let ?fB = "\<lambda>i. map (\<lambda>k. biases net ! i ! k -
                   learningRate net * (accBiasGradients net ! i ! k * ?sc))
                   [0..<neurons (?ls ! Suc i)]"
  have "for_loop [0..<length (weights net)]
          (\<lambda>i (ws0, bs0).
             and_then
               (for_loop [0..<length (weights net ! i)] (\<lambda>j.
                  for_loop [0..<length (weights net ! i ! j)] (\<lambda>k ws.
                    and_then (idx (accWeightGradients net) i) (\<lambda>al.
                    and_then (idx al j) (\<lambda>ar.
                    and_then (num ar k) (\<lambda>acc.
                    and_then (times_scaler acc (Some ?sc)) (\<lambda>avgGrad.
                    add3 ws i j k (- (learningRate net * avgGrad))))))))
                  ws0)
               (\<lambda>ws'.
             and_then (idx (biases net) i) (\<lambda>b.
             and_then
               (for_loop [0..<length b]
                  (\<lambda>k bs.
                     and_then (idx (accBiasGradients net) i) (\<lambda>ar.
                     and_then (num ar k) (\<lambda>acc.
                     and_then (times_scaler acc (Some ?sc)) (\<lambda>avgGrad.
                     add2 bs i k (- (learningRate net * avgGrad))))))
                  bs0)
               (\<lambda>bs'. Inr (ws', bs')))))
          ((\<lambda>R Q. (R, Q)) (weights net) (biases net))
      = Inr ((\<lambda>R Q. (R, Q)) (overwritten ?fW (length (weights net)) (weights net))
                              (overwritten ?fB (length (weights net)) (biases net)))"
  proof (rule row_loop2)
    fix i and R :: "real list list list" and Q :: "real list list"
    assume i: "i < length (weights net)"
      and R: "length R = length (weights net)" "R ! i = weights net ! i"
      and Q: "length Q = length (biases net)" "Q ! i = biases net ! i"
    have i': "i < ?n" using i sh(2) by simp
    have w: "for_loop [0..<length (weights net ! i)] (\<lambda>j.
                  for_loop [0..<length (weights net ! i ! j)] (\<lambda>k ws.
                    and_then (idx (accWeightGradients net) i) (\<lambda>al.
                    and_then (idx al j) (\<lambda>ar.
                    and_then (num ar k) (\<lambda>acc.
                    and_then (times_scaler acc (Some ?sc)) (\<lambda>avgGrad.
                    add3 ws i j k (- (learningRate net * avgGrad)))))))) R
        = Inr (R[i := map (\<lambda>j. map (\<lambda>k. R ! i ! j ! k - learningRate net * (accWeightGradients net ! i ! j ! k * ?sc))
                 [0..<length (weights net ! i ! j)]) [0..<length (weights net ! i)]])"
      using i' R sh(2,4) sh(6,7,9,10) [of i]
      by (intro weightUpdate_loop) simp_all
    have w': "map (\<lambda>j. map (\<lambda>k. R ! i ! j ! k - learningRate net * (accWeightGradients net ! i ! j ! k * ?sc))
                 [0..<length (weights net ! i ! j)]) [0..<length (weights net ! i)] = ?fW i"
      using i' R sh(6,7) [of i] by simp
    have b: "for_loop [0..<length (biases net ! i)]
                  (\<lambda>k bs.
                     and_then (idx (accBiasGradients net) i) (\<lambda>ar.
                     and_then (num ar k) (\<lambda>acc.
                     and_then (times_scaler acc (Some ?sc)) (\<lambda>avgGrad.
                     add2 bs i k (- (learningRate net * avgGrad)))))) Q
        = Inr (Q[i := map (\<lambda>k. Q ! i ! k - learningRate net * (accBiasGradients net ! i ! k * ?sc))
                 [0..<length (biases net ! i)]])"
      using i' Q sh(3,5) sh(8,11) [of i]
      by (intro biasUpdate_loop) simp_all
    have b': "map (\<lambda>k. Q ! i ! k - learningRate net * (accBiasGradients net ! i ! k * ?sc))
                 [0..<length (biases net ! i)] = ?fB i"
      using i' Q sh(8) [of i] by simp
    have ib: "idx (biases net) i = Inr (biases net ! i)"
      using i' sh(3) by simp
    show "(\<lambda>(ws0, bs0).
             and_then
               (for_loop [0..<length (weights net ! i)] (\<lambda>j.
                  for_loop [0..<length (weights net ! i ! j)] (\<lambda>k ws.
                    and_then (idx (accWeightGradients net) i) (\<lambda>al.
                    and_then (idx al j) (\<lambda>ar.
                    and_then (num ar k) (\<lambda>acc.
                    and_then (times_scaler acc (Some ?sc)) (\<lambda>avgGrad.
                    add3 ws i j k (- (learningRate net * avgGrad))))))))
                  ws0)
               (\<lambda>ws'.
             and_then (idx (biases net) i) (\<lambda>b.
             and_then
               (for_loop [0..<length b]
                  (\<lambda>k bs.
                     and_then (idx (accBiasGradients net) i) (\<lambda>ar.
                     and_then (num ar k) (\<lambda>acc.
                     and_then (times_scaler acc (Some ?sc)) (\<lambda>avgGrad.
                     add2 bs i k (- (learningRate net * avgGrad))))))
                  bs0)
               (\<lambda>bs'. Inr (ws', bs'))))) (R, Q) = Inr (R[i := ?fW i], Q[i := ?fB i])"
      by (simp only: prod.case w w' b b' ib and_then_Inr)
  qed (use sh in simp_all)
  moreover have "overwritten ?fW (length (weights net)) (weights net) = weights (updated net)"
    using sh(2) by (simp add: updated_def)
  moreover have "overwritten ?fB (length (weights net)) (biases net) = biases (updated net)"
    using sh(2,3) by (simp add: updated_def)
  ultimately show ?thesis
    unfolding applyUpdate_def Let_def using bs by (simp only: if_False)
qed

section \<open>A training step on a well-formed engine\<close>

lemma outputDelta_gradients [simp]:
  "outputDelta (net\<lparr>neuronGradients := a, weightGradients := b\<rparr>) targets = outputDelta net targets"
  by (simp add: outputDelta_def Let_def)

lemma deltaBack_gradients [simp]:
  "deltaBack (net\<lparr>neuronGradients := a, weightGradients := b\<rparr>) targets d = deltaBack net targets d"
  by (induction d) (simp_all add: Let_def)

lemma layerDelta_gradients [simp]:
  "layerDelta (net\<lparr>neuronGradients := a, weightGradients := b\<rparr>) targets r = layerDelta net targets r"
  by (simp add: layerDelta_def)

lemma backprop_gradients:
  "backprop (net\<lparr>neuronGradients := a, weightGradients := b\<rparr>) targets = backprop net targets"
  by (simp add: backprop_def weightGradientOf_def)

lemma wf_engine_forwardState [simp]: "wf_engine (forwardState net xs) = wf_engine net"
  by (simp add: wf_engine_def wf_params_def forwardState_def)

lemma forwardState_shapes:
  assumes "length xs = neurons (layers net ! 0)"
  shows "map length (activations (forwardState net xs)) = map neurons (layers net)"
    and "map length (preActivations (forwardState net xs)) = map neurons (layers net)"
  by (rule nth_equalityI; simp add: forwardState_def length_layerActivation [OF assms]
        length_layerPreActivation [OF assms])+

lemma length_weightGradientOf:
  "length (weightGradientOf net targets l) = neurons (layers net ! l)"
  "j < neurons (layers net ! l) \<Longrightarrow> length (weightGradientOf net targets l ! j) = neurons (layers net ! Suc l)"
  by (simp_all add: weightGradientOf_def)

lemma wf_engine_backprop:
  assumes "wf_engine net"
  shows "wf_engine (backprop net targets)"
proof -
  have "map (map length) (accWeightGradients (backprop net targets)) = weightShape (layers net)"
    by (simp add: backprop_def weightShape_def comp_def map_replicate_const)
  moreover have "map length (accBiasGradients (backprop net targets)) = biasShape (layers net)"
    by (simp add: backprop_def biasShape_def comp_def)
  ultimately show ?thesis
    using assms by (simp add: wf_engine_def wf_params_def backprop_def)
qed

lemma forward_forwardState:
  assumes "wf_engine net" "length xs = neurons (layers net ! 0)"
  shows "forward net xs = Inr (forwardState net xs, layerActivation net xs (length (layers net) - 1))"
  using forward_ok [of net xs] assms by (simp add: wf_engine_def forwardState_def)

lemma train_ok:
  assumes wf: "wf_engine net" and lx: "length xs = neurons (layers net ! 0)"
    and lt: "neurons (last (layers net)) \<le> length targets"
  shows "train net xs targets =
     (let net3 = backprop (forwardState net xs) targets;
          outputs = layerActivation net xs (length (layers net) - 1)
      in if batchSize net \<le> real (currentBatchCount net3) then
           and_then (applyUpdate net3) (\<lambda>(ws, bs).
             Inr (resetAccumulators (net3\<lparr>weights := ws, biases := bs\<rparr>), outputs))
         else Inr (net3, outputs))"
proof -
  let ?ls = "layers net"
  let ?L = "length ?ls - 1"
  let ?net1 = "forwardState net xs"
  let ?out = "layerActivation net xs ?L"
  let ?ng0 = "map (\<lambda>l. replicate (neurons l) 0) (layers ?net1)"
  let ?wg0 = "map (\<lambda>l. map (\<lambda>n. replicate (length n) 0) l) (weights ?net1)"
  let ?net2 = "?net1\<lparr>neuronGradients := ?ng0, weightGradients := ?wg0\<rparr>"
  let ?net3 = "backprop ?net1 targets"
  note sh = wf_engine_shapes [OF wf]
  have L: "?L < length ?ls" using sh(1) by simp
  have last: "last ?ls = ?ls ! ?L" using sh(1) by (simp add: last_conv_nth)
  have lo: "length ?out = neurons (?ls ! ?L)"
    using lx by (rule length_layerActivation)
  have ls2: "layers ?net2 = ?ls" "weights ?net2 = weights net"
    "accWeightGradients ?net2 = accWeightGradients net" "accBiasGradients ?net2 = accBiasGradients net"
    "neuronGradients ?net2 = ?ng0" "weightGradients ?net2 = ?wg0"
    "currentBatchCount ?net2 = currentBatchCount net" "batchSize ?net2 = batchSize net"
    by (simp_all add: forwardState_def)
  have a2: "activations ?net2 = activations ?net1" "preActivations ?net2 = preActivations ?net1"
    by simp_all
  have wf2: "wf_engine ?net2"
    using wf by (simp add: wf_engine_def wf_params_def forwardState_def)
  have fw: "forward net xs = Inr (?net1, ?out)"
    using wf lx by (rule forward_forwardState)
  have aL: "activations ?net1 ! ?L = ?out" "length (preActivations ?net1 ! ?L) = neurons (?ls ! ?L)"
    "length (preActivations ?net1) = length ?ls"
    using L lx by (simp_all add: forwardState_def length_layerPreActivation)
  have l1: "layers ?net1 = ?ls" "weights ?net1 = weights net"
    by (simp_all add: forwardState_def)
  have od: "outputDeltas ?net2 ?out targets (neuronGradients ?net2) = Inr (?ng0[?L := outputDelta ?net2 targets])"
  proof -
    have "outputDeltas ?net2 ?out targets ?ng0 =
      Inr (?ng0[length (layers ?net2) - 1 :=
          map (\<lambda>i. (?out ! i - targets ! i) *
                    activationPrimeOf (activation (layers ?net2 ! (length (layers ?net2) - 1)))
                      (?out ! i) (preActivations ?net2 ! (length (layers ?net2) - 1) ! i))
              [0..<length ?out]])"
      using sh(1) L lo lt last aL by (intro outputDeltas_ok) (simp_all add: ls2 a2 l1)
    moreover have "map (\<lambda>i. (?out ! i - targets ! i) *
                    activationPrimeOf (activation (?ls ! ?L)) (?out ! i) (preActivations ?net1 ! ?L ! i))
              [0..<length ?out] = outputDelta ?net2 targets"
      using lo aL(1) by (simp add: outputDelta_def Let_def ls2 a2)
    ultimately show ?thesis
      by (simp add: ls2 a2 l1)
  qed
  have bp: "for_loop (rev [0..<length (weights ?net2)]) (backpropLayer ?net2)
          (?ng0[?L := outputDelta ?net2 targets], weightGradients ?net2,
           accWeightGradients ?net2, accBiasGradients ?net2)
     = Inr (neuronGradients ?net3, weightGradients ?net3,
            accWeightGradients ?net3, accBiasGradients ?net3)"
    using backprop_loop_ok [OF wf2, of targets] forwardState_shapes [OF lx]
    by (simp add: ls2 a2 l1 backprop_gradients)
  have n3: "?net2\<lparr>neuronGradients := neuronGradients ?net3, weightGradients := weightGradients ?net3,
                     accWeightGradients := accWeightGradients ?net3, accBiasGradients := accBiasGradients ?net3,
                     currentBatchCount := currentBatchCount ?net2 + 1\<rparr> = ?net3"
    by (simp add: backprop_def)
  have b3: "batchSize ?net3 = batchSize net"
    by (simp add: backprop_def forwardState_def)
  show ?thesis
    unfolding train_def fw and_then_Inr prod.case Let_def od bp n3 b3 by simp
qed

lemma train_accumulates:
  assumes "wf_engine net" and "length xs = neurons (layers net ! 0)"
    and "neurons (last (layers net)) \<le> length targets"
    and "real (currentBatchCount net) + 1 < batchSize net"
  shows "train net xs targets =
     Inr (backprop (forwardState net xs) targets, layerActivation net xs (length (layers net) - 1))"
  using train_ok [OF assms(1-3)] assms(4) by (simp add: Let_def backprop_def forwardState_def)

lemma train_updates:
  assumes "wf_engine net" and "length xs = neurons (layers net ! 0)"
    and "neurons (last (layers net)) \<le> length targets"
    and "batchSize net \<le> real (currentBatchCount net) + 1" and "batchSize net \<noteq> 0"
  shows "train net xs targets =
     Inr (resetAccumulators (updated (backprop (forwardState net xs) targets)),
          layerActivation net xs (length (layers net) - 1))"
proof -
  let ?n3 = "backprop (forwardState net xs) targets"
  have "wf_engine ?n3"
    using assms(1) by (simp add: wf_engine_backprop)
  moreover have b3: "batchSize ?n3 = batchSize net" "currentBatchCount ?n3 = currentBatchCount net + 1"
    by (simp_all add: backprop_def forwardState_def)
  ultimately have "applyUpdate ?n3 = Inr (weights (updated ?n3), biases (updated ?n3))"
    using assms(5) by (simp add: applyUpdate_ok)
  moreover have "?n3\<lparr>weights := weights (updated ?n3), biases := biases (updated ?n3)\<rparr> = updated ?n3"
    by (simp add: updated_def)
  ultimately show ?thesis
    using train_ok [OF assms(1-3)] assms(4) b3 by (simp add: Let_def)
qed

section \<open>The forward pass: claim C1\<close>

lemma upt_Suc_rec: "[i..<Suc j] = (if i < Suc j then i # [Suc i..<Suc j] else [])"
  by (rule upt_rec)

lemma construct_initialNet:
  "construct initialLayers (Some (1/10)) (Some b) (\<lambda>n. 3/4) = Inr (initialNet b)"
  by (simp add: construct_def initialLayers_def initialNet_def resetAccumulators_def
      eval_nat_numeral upt_Suc_rec)

lemma wf_engine_initialNet: "wf_engine (initialNet b)"
  by (simp add: wf_engine_def wf_params_def weightShape_def biasShape_def initialNet_def
      initialLayers_def eval_nat_numeral upt_Suc_rec)

lemma preActivationOf_forward_state [simp]:
  "preActivationOf (net\<lparr>activations := a, preActivations := p\<rparr>) cur i = preActivationOf net cur i"
  by (simp add: preActivationOf_def)

lemma layerActivation_forward_state [simp]:
  "layerActivation (net\<lparr>activations := a, preActivations := p\<rparr>) xs i = layerActivation net xs i"
  by (induction i) simp_all

lemma layerPreActivation_forward_state [simp]:
  "layerPreActivation (net\<lparr>activations := a, preActivations := p\<rparr>) xs i = layerPreActivation net xs i"
  by (cases i) simp_all

text \<open>
  C1: on an engine whose weights and biases have the shapes of its layers, and for an input as
  long as the input layer is wide, \<^verbatim>\<open>forward\<close> returns. The new engine differs from the old
  one in the forward state only, which holds one \<open>z\<close> and one \<open>a\<close> vector per layer; both are
  the input for layer 0; for every later layer and each neuron \<open>j\<close> of it,
  \<open>z\<^sub>j = bias\<^sub>j + \<Sum>\<^sub>k a\<^sub>k * weight\<^sub>k\<^sub>j\<close> over the previous layer's activations and \<open>a\<^sub>j\<close> is the
  layer's activation function at \<open>z\<^sub>j\<close> (0 for a kind outside the enum). The returned vector
  is the last layer's activations, and the forward state the engine had before plays no part.
\<close>

theorem C1_forward_computes_layers:
  assumes "wf_params net" and "length xs = neurons (layers net ! 0)"
  shows "\<exists>net' out. forward net xs = Inr (net', out) \<and>
     net' = net\<lparr>activations := activations net', preActivations := preActivations net'\<rparr> \<and>
     length (activations net') = length (layers net) \<and>
     length (preActivations net') = length (layers net) \<and>
     activations net' ! 0 = xs \<and> preActivations net' ! 0 = xs \<and>
     (\<forall>i<length (weights net). \<forall>j<neurons (layers net ! Suc i).
        preActivations net' ! Suc i ! j =
          biases net ! i ! j + (\<Sum>k<neurons (layers net ! i). activations net' ! i ! k * weights net ! i ! k ! j) \<and>
        activations net' ! Suc i ! j =
          (let z = preActivations net' ! Suc i ! j; kind = activation (layers net ! Suc i) in
           if kind = SIGMOID then 1 / (1 + exp (- z))
           else if kind = RELU then max 0 z
           else if kind = TANH then tanh z
           else 0)) \<and>
     (\<forall>i<length (layers net). length (activations net' ! i) = neurons (layers net ! i) \<and>
        length (preActivations net' ! i) = neurons (layers net ! i)) \<and>
     out = activations net' ! (length (layers net) - 1) \<and>
     (\<forall>a p. forward (net\<lparr>activations := a, preActivations := p\<rparr>) xs = Inr (net', out))"
proof -
  let ?ls = "layers net"
  let ?A = "map (layerActivation net xs) [0..<length ?ls]"
  let ?Z = "map (layerPreActivation net xs) [0..<length ?ls]"
  let ?net' = "net\<lparr>activations := ?A, preActivations := ?Z\<rparr>"
  let ?out = "layerActivation net xs (length ?ls - 1)"
  have ne: "?ls \<noteq> []" and wl: "length (weights net) = length ?ls - 1"
    using assms(1) weightShape_nth(1) by (auto simp: wf_params_def)
  have fw: "forward net xs = Inr (?net', ?out)"
    using assms by (rule forward_ok)
  have other: "forward (net\<lparr>activations := a, preActivations := p\<rparr>) xs = Inr (?net', ?out)" for a p
    using forward_ok [of "net\<lparr>activations := a, preActivations := p\<rparr>" xs] assms
    by (simp add: wf_params_def)
  have cells: "preActivations ?net' ! Suc i ! j =
          biases net ! i ! j + (\<Sum>k<neurons (?ls ! i). activations ?net' ! i ! k * weights net ! i ! k ! j) \<and>
        activations ?net' ! Suc i ! j =
          (let z = preActivations ?net' ! Suc i ! j; kind = activation (?ls ! Suc i) in
           if kind = SIGMOID then 1 / (1 + exp (- z))
           else if kind = RELU then max 0 z
           else if kind = TANH then tanh z
           else 0)"
    if "i < length (weights net)" "j < neurons (?ls ! Suc i)" for i j
  proof -
    have i: "Suc i < length ?ls" "i < length ?ls" using that wl by simp_all
    have "length (layerActivation net xs i) = neurons (?ls ! i)"
      using assms(2) by (rule length_layerActivation)
    then show ?thesis
      using i that(2)
      by (simp add: preActivationOf_def activate_def sigmoid_def relu_def tanh_fn_def Let_def)
  qed
  have lens: "length (activations ?net' ! i) = neurons (?ls ! i) \<and>
        length (preActivations ?net' ! i) = neurons (?ls ! i)" if "i < length ?ls" for i
    using that assms(2) by (simp add: length_layerActivation length_layerPreActivation)
  have zero: "activations ?net' ! 0 = xs" "preActivations ?net' ! 0 = xs"
    using ne by simp_all
  have last: "?out = activations ?net' ! (length ?ls - 1)"
    using ne by simp
  show ?thesis
    apply (rule exI [of _ ?net'], rule exI [of _ ?out])
    apply (intro conjI allI impI)
    subgoal by (rule fw)
    subgoal by simp
    subgoal by simp
    subgoal by simp
    subgoal by (rule zero)
    subgoal by (rule zero)
    subgoal for i j using cells [of i j] by blast
    subgoal for i j using cells [of i j] by blast
    subgoal for i using lens [of i] by blast
    subgoal for i using lens [of i] by blast
    subgoal by (rule last)
    subgoal for a p by (rule other)
    done
qed

theorem C1_forward_witness:
  "wf_params (initialNet 1) \<and> length [1/10, 1/10 :: real] = neurons (layers (initialNet 1) ! 0) \<and>
   (\<exists>net' out. forward (initialNet 1) [1/10, 1/10] = Inr (net', out) \<and>
      activations net' ! 0 = [1/10, 1/10] \<and> out = activations net' ! 2)"
proof -
  have wf: "wf_params (initialNet 1)"
    using wf_engine_initialNet by (simp add: wf_engine_def)
  have len: "length [1/10, 1/10 :: real] = neurons (layers (initialNet 1) ! 0)"
    by (simp add: initialNet_def initialLayers_def)
  have "length (layers (initialNet 1)) - 1 = 2"
    by (simp add: initialNet_def initialLayers_def)
  with C1_forward_computes_layers [OF wf len] wf len show ?thesis
    by (metis (no_types, lifting))
qed

section \<open>Ranges of the activation functions: claim C9\<close>

text \<open>Over the reals the activation functions keep strictly inside their ranges.\<close>

lemma sigmoid_bounds: "0 < sigmoid x \<and> sigmoid x < 1"
proof -
  have "0 < exp (- x)" by simp
  then show ?thesis
    by (simp add: sigmoid_def add_pos_pos)
qed

lemma tanh_fn_bounds: "- 1 < tanh_fn x \<and> tanh_fn x < 1"
  by (simp add: tanh_fn_def tanh_real_gt_neg1 tanh_real_lt_1)

lemma relu_nonneg: "0 \<le> relu x"
  by (simp add: relu_def)

subsection \<open>Rounding keeps the bounds that are powers of two\<close>

lemma rne_ge:
  assumes "of_int N \<le> y"
  shows "N \<le> rne y"
proof -
  have "N \<le> \<lfloor>y\<rfloor>" using assms by (simp add: le_floor_iff)
  then show ?thesis by (simp add: rne_def Let_def)
qed

lemma rne_le:
  assumes "y \<le> of_int N"
  shows "rne y \<le> N"
proof -
  have f: "\<lfloor>y\<rfloor> \<le> N" using assms by (simp add: floor_le_iff)
  show ?thesis
  proof (cases "\<lfloor>y\<rfloor> = N")
    case True
    then have "y = of_int N" using assms by linarith
    then show ?thesis by (simp add: rne_def)
  next
    case False
    with f have "\<lfloor>y\<rfloor> + 1 \<le> N" by simp
    then show ?thesis using f by (simp add: rne_def Let_def)
  qed
qed

lemma floor_log2:
  assumes "0 < r"
  shows "2 powr of_int \<lfloor>log 2 r\<rfloor> \<le> r" and "r < 2 powr (of_int \<lfloor>log 2 r\<rfloor> + 1)"
proof -
  have r: "r = 2 powr log 2 r" using assms by simp
  have "of_int \<lfloor>log 2 r\<rfloor> \<le> log 2 r" by simp
  then have "2 powr of_int \<lfloor>log 2 r\<rfloor> \<le> 2 powr log 2 r"
    by (simp only: powr_le_cancel_iff) 
  then show "2 powr of_int \<lfloor>log 2 r\<rfloor> \<le> r" using r by simp
  have "log 2 r < of_int \<lfloor>log 2 r\<rfloor> + 1" by linarith
  then have "2 powr log 2 r < 2 powr (of_int \<lfloor>log 2 r\<rfloor> + 1)"
    by (simp only: powr_less_cancel_iff)
  then show "r < 2 powr (of_int \<lfloor>log 2 r\<rfloor> + 1)" using r by simp
qed


lemma roundPos_nonneg:
  assumes "0 < r"
  shows "roundPos r = PosInf \<or> (\<exists>t. roundPos r = Finite t \<and> 0 \<le> t)"
proof -
  define e where "e = max \<lfloor>log 2 r\<rfloor> (- 1022)"
  define ulp :: real where "ulp = 2 powr (of_int e - 52)"
  have u: "0 < ulp" by (simp add: ulp_def)
  have "of_int 0 \<le> r / ulp" using assms u by simp
  then have "0 \<le> rne (r / ulp)" by (rule rne_ge)
  then have "0 \<le> of_int (rne (r / ulp)) * ulp" using u by simp
  then show ?thesis
    by (simp add: roundPos_def Let_def e_def [symmetric] ulp_def [symmetric])
qed

text \<open>A value at most a power of two rounds to a value at most that power.\<close>

lemma roundPos_le:
  assumes "0 < r" and "r \<le> 2 powr of_int k" and "- 1022 \<le> k" and "k \<le> 1023"
  shows "\<exists>t. roundPos r = Finite t \<and> 0 \<le> t \<and> t \<le> 2 powr of_int k"
proof -
  define e where "e = max \<lfloor>log 2 r\<rfloor> (- 1022)"
  define ulp :: real where "ulp = 2 powr (of_int e - 52)"
  define t where "t = of_int (rne (r / ulp)) * ulp"
  have u: "0 < ulp" by (simp add: ulp_def)
  have "log 2 r \<le> of_int k"
    using assms(1,2) by (simp add: log_le_iff)
  then have "\<lfloor>log 2 r\<rfloor> \<le> k" by (simp add: floor_le_iff)
  then have ek: "e \<le> k" using assms(3) by (simp add: e_def)
  define n where "n = nat (k - e + 52)"
  have n: "of_int k - of_int e + 52 = real n" using ek by (simp add: n_def)
  have "2 powr of_int k / ulp = 2 powr (of_int k - (of_int e - 52))"
    by (simp add: ulp_def powr_diff)
  also have "\<dots> = 2 powr real n" using n by (simp add: algebra_simps)
  also have "\<dots> = of_int (2 ^ n)" by (simp add: powr_realpow)
  finally have q: "2 powr of_int k / ulp = of_int (2 ^ n)" .
  have "r / ulp \<le> 2 powr of_int k / ulp"
    using assms(2) u by (simp add: divide_right_mono)
  then have "rne (r / ulp) \<le> 2 ^ n" unfolding q by (rule rne_le)
  then have "of_int (rne (r / ulp)) \<le> (of_int (2 ^ n) :: real)" by (simp only: of_int_le_iff)
  then have "t \<le> of_int (2 ^ n) * ulp" using u by (simp add: t_def)
  also have "\<dots> = 2 powr of_int k" using q u by (simp add: field_simps)
  finally have tk: "t \<le> 2 powr of_int k" .
  have "of_int 0 \<le> r / ulp" using assms(1) u by simp
  then have "0 \<le> rne (r / ulp)" by (rule rne_ge)
  then have t0: "0 \<le> t" using u by (simp add: t_def)
  have "(2::real) powr of_int k \<le> 2 powr of_int 1023"
    by (intro powr_mono) (use assms(4) in simp_all)
  also have "\<dots> = 2 ^ 1023" by simp
  also have "\<dots> < 2 ^ 1024" by simp
  finally have "t < 2 ^ 1024" using tk by simp
  then have "roundPos r = Finite t"
    by (simp add: roundPos_def Let_def e_def [symmetric] ulp_def [symmetric] t_def [symmetric] del: power_numeral)
  with t0 tk show ?thesis by blast
qed

text \<open>A value at least a power of two rounds to a value at least that power.\<close>

lemma roundPos_ge:
  assumes "2 powr of_int k \<le> r" and "- 1022 \<le> k"
  shows "roundPos r = PosInf \<or> (\<exists>t. roundPos r = Finite t \<and> 2 powr of_int k \<le> t)"
proof -
  have r: "0 < r" using assms(1) by (rule less_le_trans [rotated]) simp
  define e where "e = max \<lfloor>log 2 r\<rfloor> (- 1022)"
  define ulp :: real where "ulp = 2 powr (of_int e - 52)"
  define t where "t = of_int (rne (r / ulp)) * ulp"
  have u: "0 < ulp" by (simp add: ulp_def)
  have "of_int k \<le> log 2 r"
    using assms(1) r by (simp add: le_log_iff)
  then have "k \<le> \<lfloor>log 2 r\<rfloor>" by (simp add: le_floor_iff)
  then have e: "e = \<lfloor>log 2 r\<rfloor>" "k \<le> e" using assms(2) by (simp_all add: e_def)
  have "2 powr of_int e \<le> r" unfolding e(1) using r by (rule floor_log2)
  then have "2 powr of_int e / ulp \<le> r / ulp" using u by (simp add: divide_right_mono)
  moreover have "2 powr of_int e / ulp = of_int (2 ^ 52)"
    by (simp add: ulp_def powr_diff del: power_numeral)
  ultimately have "of_int (2 ^ 52) \<le> r / ulp" by simp
  then have "2 ^ 52 \<le> rne (r / ulp)" by (rule rne_ge)
  then have "(of_int (2 ^ 52) :: real) \<le> of_int (rne (r / ulp))" by (simp only: of_int_le_iff)
  then have "of_int (2 ^ 52) * ulp \<le> t" using u by (simp add: t_def del: power_numeral)
  moreover have "of_int (2 ^ 52) * ulp = 2 powr of_int e"
    by (simp add: ulp_def powr_diff del: power_numeral)
  moreover have "2 powr of_int k \<le> (2::real) powr of_int e" using e(2) by simp
  ultimately have "2 powr of_int k \<le> t" by linarith
  then show ?thesis
    by (simp add: roundPos_def Let_def e_def [symmetric] ulp_def [symmetric] t_def [symmetric] del: power_numeral)
qed

text \<open>A value from 1 to less than half a unit in the last place above 1 rounds to 1.\<close>

lemma roundPos_one:
  assumes "1 \<le> r" and "r < 1 + 1 / 2 ^ 53"
  shows "roundPos r = Finite 1"
proof -
  have r: "0 < r" "r < 2" using assms by simp_all
  have "0 \<le> log 2 r" "log 2 r < 1"
    using assms(1) r by (simp_all add: log_less_iff)
  then have e: "\<lfloor>log 2 r\<rfloor> = 0" by (simp add: floor_eq_iff)
  have ulp: "(2::real) powr (of_int (max 0 (- 1022)) - 52) = 1 / 2 ^ 52"
    by (simp add: powr_minus inverse_eq_divide)
  define y where "y = r / (1 / 2 ^ 52)"
  have y: "of_int (2 ^ 52) \<le> y" "y < of_int (2 ^ 52) + 1 / 2"
    using assms by (simp_all add: y_def field_simps)
  then have f: "\<lfloor>y\<rfloor> = 2 ^ 52" by (simp add: floor_eq_iff)
  have "rne y = 2 ^ 52"
    using y unfolding rne_def Let_def f by simp
  then show ?thesis
    unfolding roundPos_def Let_def e ulp y_def [symmetric] by simp
qed

text \<open>A value less than 1 by at most half a unit in the last place below 1 rounds to 1.\<close>

lemma roundPos_below_one:
  assumes "1 - 1 / 2 ^ 54 \<le> r" and "r < 1"
  shows "roundPos r = Finite 1"
proof -
  have r: "0 < r" "1 / 2 \<le> r" using assms by simp_all
  have "2 powr (- 1) \<le> r" using r(2) by (simp add: powr_minus inverse_eq_divide)
  then have "- 1 \<le> log 2 r" using r(1) by (simp add: le_log_iff)
  moreover have "log 2 r < 0" using assms(2) r(1) by simp
  ultimately have e: "\<lfloor>log 2 r\<rfloor> = - 1" by (simp add: floor_eq_iff)
  have ulp: "(2::real) powr (of_int (max (- 1) (- 1022)) - 52) = 1 / 2 ^ 53"
    by (simp add: powr_minus inverse_eq_divide)
  define y where "y = r / (1 / 2 ^ 53)"
  have y: "of_int (2 ^ 53 - 1) + 1 / 2 \<le> y" "y < of_int (2 ^ 53 - 1) + 1"
    using assms by (simp_all add: y_def field_simps)
  then have f: "\<lfloor>y\<rfloor> = 2 ^ 53 - 1" by (simp add: floor_eq_iff)
  have "rne y = 2 ^ 53"
    using y unfolding rne_def Let_def f by simp
  then show ?thesis
    unfolding roundPos_def Let_def e ulp y_def [symmetric] by simp
qed

subsection \<open>Ranges of the activation functions in binary64\<close>

lemma Math_exp_range:
  assumes "x \<noteq> NaN"
  shows "Math_exp x = PosInf \<or> (\<exists>t. Math_exp x = Finite t \<and> 0 \<le> t)"
proof (cases x)
  case (Finite a)
  then show ?thesis
    using roundPos_nonneg [of "exp a"] by (simp add: round64_def)
qed (use assms in simp_all)

text \<open>
  Of \<^verbatim>\<open>Math.exp\<close> the range of \<^verbatim>\<open>sigmoid\<close> needs only that its result is a number \<open>\<ge> 0\<close> or
  \<open>+\<infinity>\<close>: then \<^verbatim>\<open>1 + Math.exp(-x)\<close> is at least 1 or \<open>+\<infinity>\<close>, and its reciprocal lies in
  \<open>[0, 1]\<close>.
\<close>

lemma add_one_range:
  assumes "0 \<le> t"
  shows "add64 (Finite 1) (Finite t) = PosInf \<or> (\<exists>d. add64 (Finite 1) (Finite t) = Finite d \<and> 1 \<le> d)"
  using roundPos_ge [of 0 "1 + t"] assms by (simp add: round64_def)

lemma reciprocal_range:
  assumes "1 \<le> d"
  shows "\<exists>t. div64 (Finite 1) (Finite d) = Finite t \<and> 0 \<le> t \<and> t \<le> 1"
  using roundPos_le [of "1 / d" 0] assms by (simp add: round64_def)

lemma sigmoid_tail_range:
  assumes "e = PosInf \<or> (\<exists>t. e = Finite t \<and> 0 \<le> t)"
  shows "\<exists>t. div64 (Finite 1) (add64 (Finite 1) e) = Finite t \<and> 0 \<le> t \<and> t \<le> 1"
  using assms
proof
  assume "e = PosInf"
  then show ?thesis by simp
next
  assume "\<exists>t. e = Finite t \<and> 0 \<le> t"
  then obtain t where t: "e = Finite t" "0 \<le> t" by blast
  from add_one_range [OF t(2)] show ?thesis
  proof
    assume "add64 (Finite 1) (Finite t) = PosInf"
    then show ?thesis by (simp add: t(1))
  next
    assume "\<exists>d. add64 (Finite 1) (Finite t) = Finite d \<and> 1 \<le> d"
    then obtain d where d: "add64 (Finite 1) (Finite t) = Finite d" "1 \<le> d" by blast
    from reciprocal_range [OF d(2)] show ?thesis
      by (simp only: t(1) d(1))
  qed
qed

lemma sigmoid64_range:
  assumes "x \<noteq> NaN"
  shows "\<exists>t. sigmoid64 x = Finite t \<and> 0 \<le> t \<and> t \<le> 1"
proof -
  have "neg64 x \<noteq> NaN" using assms by (cases x) simp_all
  from sigmoid_tail_range [OF Math_exp_range [OF this]] show ?thesis
    by (simp only: sigmoid64_def)
qed

lemma tanh64_range:
  assumes "x \<noteq> NaN"
  shows "\<exists>t. tanh64 x = Finite t \<and> - 1 \<le> t \<and> t \<le> 1"
proof (cases x)
  case (Finite a)
  have b: "- 1 < tanh a" "tanh a < 1"
    by (rule tanh_real_gt_neg1, rule tanh_real_lt_1)
  consider "tanh a = 0" | "0 < tanh a" | "tanh a < 0" by linarith
  then show ?thesis
  proof cases
    case 1
    then show ?thesis by (simp add: tanh64_def Finite round64_def)
  next
    case 2
    with roundPos_le [of "tanh a" 0] b show ?thesis
      by (auto simp: tanh64_def Finite round64_def)
  next
    case 3
    with roundPos_le [of "- tanh a" 0] b show ?thesis
      by (auto simp: tanh64_def Finite round64_def)
  qed
qed (use assms in \<open>simp_all add: tanh64_def\<close>)

lemma relu64_range:
  assumes "x \<noteq> NaN"
  shows "le64 (Finite 0) (relu64 x)"
  using assms by (cases x) (simp_all add: relu64_def)

lemma exp_64: "exp (- 64 :: real) \<le> 1 / 2 ^ 64"
proof -
  have "(2::real) \<le> exp 1" using exp_ge_add_one_self [of "1 :: real"] by simp
  then have "(2::real) ^ 64 \<le> exp 1 ^ 64" by (intro power_mono) simp_all
  also have "\<dots> = exp (64 :: real)" using exp_of_nat_mult [of 64 "1 :: real"] by simp
  finally have "inverse (exp (64 :: real)) \<le> inverse (2 ^ 64)"
    by (intro le_imp_inverse_le) simp_all
  then show ?thesis by (simp add: exp_minus inverse_eq_divide)
qed

text \<open>
  Whatever number from 0 to \<open>2\<^sup>-\<^sup>5\<^sup>4\<close> \<^verbatim>\<open>Math.exp(-x)\<close> returns, \<^verbatim>\<open>1 + Math.exp(-x)\<close> rounds to 1,
  and \<^verbatim>\<open>sigmoid\<close> returns 1.
\<close>

lemma sigmoid_tail_saturates:
  assumes "0 \<le> t" and "t \<le> 1 / 2 ^ 54"
  shows "div64 (Finite 1) (add64 (Finite 1) (Finite t)) = Finite 1"
proof -
  have "roundPos (1 + t) = Finite 1"
    using assms by (intro roundPos_one) simp_all
  then have a: "add64 (Finite 1) (Finite t) = Finite 1"
    using assms(1) by (simp add: round64_def)
  have "roundPos 1 = Finite 1"
    by (intro roundPos_one) simp_all
  then have d: "div64 (Finite 1) (Finite 1) = Finite 1"
    by (simp add: round64_def)
  show ?thesis
    by (simp only: a d)
qed

lemma sigmoid64_64: "sigmoid64 (Finite 64) = Finite 1"
proof -
  have "\<exists>t. roundPos (exp (- 64)) = Finite t \<and> 0 \<le> t \<and> t \<le> 2 powr of_int (- 64)"
    using exp_64 by (intro roundPos_le) (simp_all add: powr_minus inverse_eq_divide)
  then obtain t where t: "roundPos (exp (- 64)) = Finite t" "0 \<le> t" "t \<le> 1 / 2 ^ 64"
    by (auto simp: powr_minus inverse_eq_divide)
  have e: "Math_exp (neg64 (Finite 64)) = Finite t"
    using t(1) by (simp add: round64_def)
  have "t \<le> 1 / 2 ^ 54"
    using t(3) by simp
  from sigmoid_tail_saturates [OF t(2) this] show ?thesis
    by (simp only: sigmoid64_def e)
qed

lemma tanh64_32: "tanh64 (Finite 32) = Finite 1"
proof -
  define u :: real where "u = exp (- 64)"
  have u: "0 < u" "u \<le> 1 / 2 ^ 64" using exp_64 by (simp_all add: u_def)
  have "tanh (32 :: real) = (1 - u) / (1 + u)"
    by (simp add: tanh_real_altdef u_def)
  moreover have "1 - 2 * u \<le> (1 - u) / (1 + u)"
    using u(1) by (simp add: field_simps)
  moreover have "(1 - u) / (1 + u) < 1"
    using u(1) by (simp add: field_simps)
  moreover have "1 - 1 / 2 ^ 54 \<le> 1 - 2 * u"
    using u(2) by simp
  ultimately have "1 - 1 / 2 ^ 54 \<le> tanh (32 :: real)" "tanh (32 :: real) < 1"
    by linarith+
  then have "roundPos (tanh 32) = Finite 1"
    by (rule roundPos_below_one)
  moreover have "0 < tanh (32 :: real)" by simp
  ultimately show ?thesis
    by (simp add: tanh64_def round64_def)
qed

text \<open>
  C9, as stated, fails in the arithmetic of the code. At the pre-activation 64,
  \<^verbatim>\<open>Math.exp(-64)\<close> is below \<open>2\<^sup>-\<^sup>6\<^sup>4\<close>, \<^verbatim>\<open>1 + Math.exp(-64)\<close> rounds to 1 and \<^verbatim>\<open>sigmoid\<close> returns
  exactly 1; at 32, \<^verbatim>\<open>Math.tanh\<close> returns exactly 1; neither is strictly below 1. And at a
  NaN pre-activation \<^verbatim>\<open>Math.max(0, NaN)\<close> is NaN, which is not \<open>\<ge> 0\<close>.
\<close>

theorem C9_saturation_counterexample:
  "activate64 SIGMOID (Finite 64) = Finite 1 \<and>
   \<not> lt64 (activate64 SIGMOID (Finite 64)) (Finite 1) \<and>
   activate64 TANH (Finite 32) = Finite 1 \<and>
   \<not> lt64 (activate64 TANH (Finite 32)) (Finite 1) \<and>
   activate64 RELU NaN = NaN \<and>
   \<not> le64 (Finite 0) (activate64 RELU NaN)"
  by (simp add: activate64_def SIGMOID_def RELU_def TANH_def sigmoid64_64 tanh64_32 relu64_def)

text \<open>
  C9, amended: for every pre-activation other than NaN, the output of a Sigmoid neuron
  lies in the closed interval \<open>[0, 1]\<close>, that of a Tanh neuron in \<open>[-1, 1]\<close>, and that of a
  ReLU neuron is \<open>\<ge> 0\<close>.
\<close>

theorem C9_activation_ranges:
  assumes "z \<noteq> NaN"
  shows "le64 (Finite 0) (activate64 SIGMOID z) \<and> le64 (activate64 SIGMOID z) (Finite 1) \<and>
         le64 (Finite (- 1)) (activate64 TANH z) \<and> le64 (activate64 TANH z) (Finite 1) \<and>
         le64 (Finite 0) (activate64 RELU z)"
proof -
  obtain s where s: "sigmoid64 z = Finite s" "0 \<le> s" "s \<le> 1"
    using sigmoid64_range [OF assms] by blast
  obtain t where t: "tanh64 z = Finite t" "- 1 \<le> t" "t \<le> 1"
    using tanh64_range [OF assms] by blast
  show ?thesis
    using s t relu64_range [OF assms]
    by (simp add: activate64_def SIGMOID_def RELU_def TANH_def)
qed

theorem C9_activation_ranges_witness:
  "Finite 64 \<noteq> NaN \<and>
   le64 (Finite 0) (activate64 SIGMOID (Finite 64)) \<and> le64 (activate64 SIGMOID (Finite 64)) (Finite 1) \<and>
   le64 (Finite (- 1)) (activate64 TANH (Finite 64)) \<and> le64 (activate64 TANH (Finite 64)) (Finite 1) \<and>
   le64 (Finite 0) (activate64 RELU (Finite 64)) \<and> activate64 RELU (Finite 64) = Finite 64"
  using C9_activation_ranges [of "Finite 64"]
  by (simp add: activate64_def SIGMOID_def RELU_def TANH_def relu64_def)

section \<open>The dataset generator and selectors outside the enums: claims C7 and C8\<close>

text \<open>
  C7, as stated, fails: the generator never reads \<open>count\<close>. Asked for 3 points, each task
  returns 8.
\<close>

theorem C7_count_ignored_counterexample:
  "length (generateData DS_XOR (Some 3) (\<lambda>n. 0)) \<noteq> 3 \<and>
   length (generateData DS_QUADRANTS (Some 3) (\<lambda>n. 0)) \<noteq> 3 \<and>
   length (generateData DS_CIRCLE (Some 3) (\<lambda>n. 0)) \<noteq> 3"
  by (simp add: generateData_def DS_XOR_def DS_QUADRANTS_def DS_CIRCLE_def)

text \<open>
  C7, amended: for the count 8, given or omitted, every task kind returns exactly 8
  DataPoints; and the XOR task returns its 8 points whatever count is requested.
\<close>

theorem C7_eight_points:
  "length (generateData type None rnd) = 8 \<and>
   length (generateData type (Some 8) rnd) = 8 \<and>
   length (generateData DS_XOR count rnd) = 8"
  by (simp add: generateData_def)

lemma wf_params_softmaxNet: "wf_params softmaxNet"
  by (simp add: wf_params_def weightShape_def biasShape_def softmaxNet_def eval_nat_numeral upt_Suc_rec)

lemma forward_softmaxNet:
  "forward softmaxNet [1, 2] =
     Inr (softmaxNet\<lparr>activations := [[1, 2], [0]], preActivations := [[1, 2], [7/4]]\<rparr>, [0])"
proof -
  have "length [1, 2 :: real] = neurons (layers softmaxNet ! 0)"
    by (simp add: softmaxNet_def)
  from forward_ok [OF wf_params_softmaxNet this] show ?thesis
    by (simp add: softmaxNet_def eval_nat_numeral upt_Suc_rec preActivationOf_def activate_def
        SIGMOID_def RELU_def TANH_def)
qed

text \<open>
  C8, as stated, fails: a task selector outside the enum gets the Circle dataset, and a layer
  whose activation kind is outside the enum gets the activation 0; neither call fails.
\<close>

theorem C8_unknown_selector_counterexample:
  "generateData ''HEXAGON'' (Some 8) (\<lambda>n. 0) = generateData DS_CIRCLE (Some 8) (\<lambda>n. 0) \<and>
   forward softmaxNet [1, 2] =
     Inr (softmaxNet\<lparr>activations := [[1, 2], [0]], preActivations := [[1, 2], [7/4]]\<rparr>, [0])"
  using forward_softmaxNet
  by (simp add: generateData_def DS_XOR_def DS_QUADRANTS_def DS_CIRCLE_def)

text \<open>
  C8, amended: no selector is rejected. Every task selector other than XOR and QUADRANTS
  gets the Circle dataset. An activation kind other than the three of the enum gives the
  activation 0 in \<^verbatim>\<open>forward\<close> and the derivative 0 in \<^verbatim>\<open>train\<close>: on a well-formed engine
  \<^verbatim>\<open>forward\<close> returns, with the activation 0 for every neuron of such a layer.
\<close>

theorem C8_unknown_selectors_coerced:
  "(type \<noteq> DS_XOR \<and> type \<noteq> DS_QUADRANTS \<longrightarrow>
      generateData type count rnd = map circlePoint [0..<8]) \<and>
   (kind \<noteq> SIGMOID \<and> kind \<noteq> RELU \<and> kind \<noteq> TANH \<longrightarrow>
      activate kind z = 0 \<and> activationPrime kind a z' = Inr 0) \<and>
   (wf_params net \<and> length xs = neurons (layers net ! 0) \<longrightarrow>
      (\<exists>net' out. forward net xs = Inr (net', out) \<and>
         (\<forall>i<length (weights net).
            activation (layers net ! Suc i) \<noteq> SIGMOID \<and> activation (layers net ! Suc i) \<noteq> RELU \<and>
            activation (layers net ! Suc i) \<noteq> TANH \<longrightarrow>
            activations net' ! Suc i = replicate (neurons (layers net ! Suc i)) 0)))"
proof (intro conjI impI)
  assume "type \<noteq> DS_XOR \<and> type \<noteq> DS_QUADRANTS"
  then show "generateData type count rnd = map circlePoint [0..<8]"
    by (simp add: generateData_def)
next
  assume "kind \<noteq> SIGMOID \<and> kind \<noteq> RELU \<and> kind \<noteq> TANH"
  then show "activate kind z = 0" "activationPrime kind a z' = Inr 0"
    by (simp_all add: activate_def activationPrime_def)
next
  assume a: "wf_params net \<and> length xs = neurons (layers net ! 0)"
  let ?net' = "net\<lparr>activations := map (layerActivation net xs) [0..<length (layers net)],
              preActivations := map (layerPreActivation net xs) [0..<length (layers net)]\<rparr>"
  have wl: "length (weights net) = length (layers net) - 1"
    using a weightShape_nth(1) by (auto simp: wf_params_def)
  have "activations ?net' ! Suc i = replicate (neurons (layers net ! Suc i)) 0"
    if "i < length (weights net)" "activation (layers net ! Suc i) \<noteq> SIGMOID \<and>
        activation (layers net ! Suc i) \<noteq> RELU \<and> activation (layers net ! Suc i) \<noteq> TANH" for i
  proof -
    have "activate (activation (layers net ! Suc i)) = (\<lambda>z. 0)"
      using that(2) by (intro ext) (simp add: activate_def)
    then show ?thesis
      using that(1) wl by (simp add: map_replicate_const)
  qed
  then show "\<exists>net' out. forward net xs = Inr (net', out) \<and>
         (\<forall>i<length (weights net).
            activation (layers net ! Suc i) \<noteq> SIGMOID \<and> activation (layers net ! Suc i) \<noteq> RELU \<and>
            activation (layers net ! Suc i) \<noteq> TANH \<longrightarrow>
            activations net' ! Suc i = replicate (neurons (layers net ! Suc i)) 0)"
    using forward_ok [of net xs] a by blast
qed

theorem C8_unknown_selectors_witness:
  "''HEXAGON'' \<noteq> DS_XOR \<and> ''HEXAGON'' \<noteq> DS_QUADRANTS \<and>
   generateData ''HEXAGON'' None (\<lambda>n. 0) = map circlePoint [0..<8] \<and>
   ''SOFTMAX'' \<noteq> SIGMOID \<and> ''SOFTMAX'' \<noteq> RELU \<and> ''SOFTMAX'' \<noteq> TANH \<and>
   activate ''SOFTMAX'' 1 = 0 \<and> activationPrime ''SOFTMAX'' (Some 1) (Some 1) = Inr 0 \<and>
   wf_params softmaxNet \<and> length [1, 2 :: real] = neurons (layers softmaxNet ! 0) \<and>
   (\<exists>net' out. forward softmaxNet [1, 2] = Inr (net', out) \<and> activations net' ! Suc 0 = replicate 1 0)"
proof -
  have t: "''HEXAGON'' \<noteq> DS_XOR \<and> ''HEXAGON'' \<noteq> DS_QUADRANTS"
    by (simp add: DS_XOR_def DS_QUADRANTS_def)
  have k: "''SOFTMAX'' \<noteq> SIGMOID \<and> ''SOFTMAX'' \<noteq> RELU \<and> ''SOFTMAX'' \<noteq> TANH"
    by (simp add: SIGMOID_def RELU_def TANH_def)
  have n: "wf_params softmaxNet \<and> length [1, 2 :: real] = neurons (layers softmaxNet ! 0)"
    using wf_params_softmaxNet by (simp add: softmaxNet_def)
  have l: "0 < length (weights softmaxNet)" "activation (layers softmaxNet ! Suc 0) = ''SOFTMAX''"
    "neurons (layers softmaxNet ! Suc 0) = 1"
    by (simp_all add: softmaxNet_def)
  note inst = C8_unknown_selectors_coerced [of "''HEXAGON''" None "\<lambda>n. 0" "''SOFTMAX''" 1 "Some 1" "Some 1" softmaxNet "[1, 2]"]
  have 1: "generateData ''HEXAGON'' None (\<lambda>n. 0) = map circlePoint [0..<8]"
    using inst t by blast
  have 2: "activate ''SOFTMAX'' 1 = 0 \<and> activationPrime ''SOFTMAX'' (Some 1) (Some 1) = Inr 0"
    using inst k by blast
  have 3: "\<exists>net' out. forward softmaxNet [1, 2] = Inr (net', out) \<and> activations net' ! Suc 0 = replicate 1 0"
    using inst n k l by (metis (no_types, lifting))
  show ?thesis
    using t k n 1 2 3 by blast
qed

section \<open>The batch counter: claim C5\<close>

lemma construct_exampleNet:
  "construct exampleLayers (Some (1/10)) (Some b) (\<lambda>n. 3/4) = Inr (exampleNet b)"
  by (simp add: construct_def exampleLayers_def exampleNet_def resetAccumulators_def
      eval_nat_numeral upt_Suc_rec)

lemma wf_engine_exampleNet: "wf_engine (exampleNet b)"
  by (simp add: wf_engine_def wf_params_def weightShape_def biasShape_def exampleNet_def
      exampleLayers_def eval_nat_numeral upt_Suc_rec)

lemma wf_engine_exampleNetMid: "wf_engine (exampleNetMid b)"
  by (simp add: wf_engine_def wf_params_def weightShape_def biasShape_def exampleNet_def
      exampleNetMid_def exampleLayers_def eval_nat_numeral upt_Suc_rec)

lemmas example_eval = exampleNet_def exampleNetMid_def exampleNetUpdated_def exampleLayers_def
  eval_nat_numeral upt_Suc_rec
  forwardState_def backprop_def updated_def resetAccumulators_def layerDelta_def outputDelta_def
  weightGradientOf_def preActivationOf_def activate_def activationPrimeOf_def relu_def
  reluDerivative_def RELU_def SIGMOID_def TANH_def Let_def

lemma train_exampleNet:
  assumes "1 < b"
  shows "train (exampleNet b) [1, 1] [0] = Inr (exampleNetMid b, [5/4])"
proof -
  have "length [1, 1 :: real] = neurons (layers (exampleNet b) ! 0)"
    "neurons (last (layers (exampleNet b))) \<le> length [0 :: real]"
    by (simp_all add: exampleNet_def exampleLayers_def)
  from train_accumulates [OF wf_engine_exampleNet this] assms show ?thesis
    by (simp add: example_eval)
qed

lemma train_exampleNetMid:
  "train (exampleNetMid 2) [1, 1] [0] = Inr (exampleNetUpdated, [5/4])"
proof -
  have "length [1, 1 :: real] = neurons (layers (exampleNetMid 2) ! 0)"
    "neurons (last (layers (exampleNetMid 2))) \<le> length [0 :: real]"
    by (simp_all add: exampleNet_def exampleNetMid_def exampleLayers_def)
  from train_updates [OF wf_engine_exampleNetMid this] show ?thesis
    by (simp add: example_eval)
qed

text \<open>
  With batch size 0 the update step runs after every call. On an engine with weights it
  scales an accumulated gradient by \<open>1 / 0\<close>, and the model stops; on an engine without
  weights it has nothing to scale, and the call completes.
\<close>

lemma train_exampleNet_zero_batch: "train (exampleNet 0) [1, 1] [0] = Inl NonNumber"
proof -
  have "length [1, 1 :: real] = neurons (layers (exampleNet 0) ! 0)"
    "neurons (last (layers (exampleNet 0))) \<le> length [0 :: real]"
    by (simp_all add: exampleNet_def exampleLayers_def)
  from train_ok [OF wf_engine_exampleNet this] show ?thesis
    by (simp add: applyUpdate_def times_scaler_def example_eval)
qed

lemma wf_engine_bareNet: "wf_engine bareNet"
  by (simp add: wf_engine_def wf_params_def weightShape_def biasShape_def bareNet_def)

lemma train_bareNet: "train bareNet [1, - 1] [0, 0] = Inr (bareNetTrained, [1, - 1])"
proof -
  have "length [1, - 1 :: real] = neurons (layers bareNet ! 0)"
    "neurons (last (layers bareNet)) \<le> length [0, 0 :: real]"
    by (simp_all add: bareNet_def)
  from train_ok [OF wf_engine_bareNet this] show ?thesis
    by (simp add: bareNet_def bareNetTrained_def applyUpdate_def example_eval)
qed

lemma forward_frame:
  assumes "forward net xs = Inr (net', out)"
  shows "\<exists>a p. net' = net\<lparr>activations := a, preActivations := p\<rparr>"
  using assms by (auto simp: forward_def and_then_def split: sum.splits prod.splits)

lemma train_counter:
  assumes "train net xs targets = Inr (net', out)"
  shows "batchSize net' = batchSize net \<and>
     (currentBatchCount net' = 0 \<and> batchSize net \<le> real (currentBatchCount net) + 1 \<or>
      currentBatchCount net' = currentBatchCount net + 1 \<and> real (currentBatchCount net') < batchSize net)"
proof -
  obtain net1 outputs where fw: "forward net xs = Inr (net1, outputs)"
    using assms by (cases "forward net xs") (auto simp: train_def)
  obtain a p where n1: "net1 = net\<lparr>activations := a, preActivations := p\<rparr>"
    using forward_frame [OF fw] by blast
  show ?thesis
    using assms unfolding train_def fw and_then_Inr prod.case Let_def
    by (auto simp: n1 and_then_def resetAccumulators_def split: sum.splits prod.splits if_splits)
qed

lemma construct_counter:
  assumes "construct ls lr bs rnd = Inr net"
  shows "currentBatchCount net = 0" and "batchSize net = (case bs of None \<Rightarrow> 1 | Some b \<Rightarrow> b)"
    and "layers net = ls"
  using assms
  by (auto simp: construct_def and_then_def resetAccumulators_def split: sum.splits prod.splits)

lemma callEngine_counter:
  assumes "callEngine net c = Inr net'" and "positiveBatch c"
    and "real (currentBatchCount net) < batchSize net"
  shows "real (currentBatchCount net') < batchSize net'"
proof (cases c)
  case (Forward xs)
  then obtain out where "forward net xs = Inr (net', out)"
    using assms(1) by (auto simp: callEngine_def and_then_def split: sum.splits)
  from forward_frame [OF this] assms(3) show ?thesis by auto
next
  case (Train xs targets)
  then obtain out where "train net xs targets = Inr (net', out)"
    using assms(1) by (auto simp: callEngine_def and_then_def split: sum.splits)
  from train_counter [OF this] assms(3) show ?thesis by auto
next
  case (UpdateConfig lr bs)
  then show ?thesis
    using assms by (auto simp: callEngine_def positiveBatch_def updateConfig_def resetAccumulators_def Let_def)
next
  case GetVisualizationData
  then show ?thesis
    using assms by (auto simp: callEngine_def and_then_def split: sum.splits)
qed

lemma calls_counter:
  assumes "calls net cs = Inr net'" and "list_all positiveBatch cs"
    and "real (currentBatchCount net) < batchSize net"
  shows "real (currentBatchCount net') < batchSize net'"
  using assms
proof (induction cs arbitrary: net)
  case Nil
  then show ?case by simp
next
  case (Cons c cs)
  then obtain net1 where c: "callEngine net c = Inr net1" and cs: "calls net1 cs = Inr net'"
    by (cases "callEngine net c") auto
  from callEngine_counter [OF c] Cons.prems have "real (currentBatchCount net1) < batchSize net1"
    by simp
  with Cons.IH [OF cs] Cons.prems show ?case by simp
qed

text \<open>
  C5, as stated, fails: \<^verbatim>\<open>updateConfig\<close> takes any batch size. On an engine constructed with
  batch size 1, \<^verbatim>\<open>updateConfig(0.1, 0)\<close> completes and leaves the counter 0 with batch size 0.
\<close>

theorem C5_zero_batch_size_counterexample:
  "construct exampleLayers (Some (1/10)) (Some 1) (\<lambda>n. 3/4) = Inr (exampleNet 1) \<and>
   calls (exampleNet 1) [UpdateConfig (1/10) 0] = Inr (exampleNet 0) \<and>
   \<not> real (currentBatchCount (exampleNet 0)) < batchSize (exampleNet 0)"
  using construct_exampleNet [of 1]
  by (simp add: callEngine_def updateConfig_def resetAccumulators_def exampleNet_def)

text \<open>
  C5, amended: for every engine constructed with a positive batch size, and as long as every
  \<^verbatim>\<open>updateConfig\<close> call passes a positive batch size, \<open>0 \<le> batchCounter < batchSize\<close> holds after
  construction and after every completed \<^verbatim>\<open>forward\<close>, \<^verbatim>\<open>train\<close>, \<^verbatim>\<open>updateConfig\<close> and
  \<^verbatim>\<open>getVisualizationData\<close> call.
\<close>

theorem C5_batch_counter_invariant:
  assumes "construct ls lr bs rnd = Inr net0"
    and "case bs of None \<Rightarrow> True | Some b \<Rightarrow> 0 < b"
    and "list_all positiveBatch cs"
    and "calls net0 cs = Inr net"
  shows "0 \<le> currentBatchCount net \<and> real (currentBatchCount net) < batchSize net"
proof -
  have "real (currentBatchCount net0) < batchSize net0"
    using construct_counter(1,2) [OF assms(1)] assms(2) by (cases bs) simp_all
  from calls_counter [OF assms(4,3) this] show ?thesis by simp
qed

theorem C5_batch_counter_witness:
  "construct exampleLayers (Some (1/10)) (Some 2) (\<lambda>n. 3/4) = Inr (exampleNet 2) \<and>
   (case Some (2 :: real) of None \<Rightarrow> True | Some b \<Rightarrow> 0 < b) \<and>
   list_all positiveBatch [Train [1, 1] [0], Forward [1, 1], UpdateConfig (1/10) 2, Train [1, 1] [0]] \<and>
   calls (exampleNet 2) [Train [1, 1] [0], Forward [1, 1], UpdateConfig (1/10) 2, Train [1, 1] [0]]
     = Inr exampleNetUpdated \<and>
   0 \<le> currentBatchCount exampleNetUpdated \<and>
   real (currentBatchCount exampleNetUpdated) < batchSize exampleNetUpdated"
proof -
  have c: "construct exampleLayers (Some (1/10)) (Some 2) (\<lambda>n. 3/4) = Inr (exampleNet 2)"
    by (rule construct_exampleNet)
  have b: "case Some (2 :: real) of None \<Rightarrow> True | Some b \<Rightarrow> 0 < b"
    by simp
  have p: "list_all positiveBatch [Train [1, 1] [0], Forward [1, 1], UpdateConfig (1/10) 2, Train [1, 1] [0]]"
    by (simp add: positiveBatch_def)
  have f: "forward (exampleNetMid 2) [1, 1] = Inr (exampleNetMid 2, [5/4])"
  proof -
    have "wf_params (exampleNetMid 2)"
      using wf_engine_exampleNetMid by (simp add: wf_engine_def)
    moreover have "length [1, 1 :: real] = neurons (layers (exampleNetMid 2) ! 0)"
      by (simp add: exampleNet_def exampleNetMid_def exampleLayers_def)
    ultimately show ?thesis
      using forward_ok [of "exampleNetMid 2" "[1, 1]"] by (simp add: example_eval)
  qed
  have u: "updateConfig (exampleNetMid 2) (1/10) 2 = exampleNetMid 2"
    by (simp add: updateConfig_def exampleNetMid_def exampleNet_def)
  have r: "calls (exampleNet 2) [Train [1, 1] [0], Forward [1, 1], UpdateConfig (1/10) 2, Train [1, 1] [0]]
     = Inr exampleNetUpdated"
    using train_exampleNet [of 2] train_exampleNetMid f u by (simp add: callEngine_def)
  from C5_batch_counter_invariant [OF c b p r] c b p r show ?thesis
    by simp
qed

section \<open>The error terms of a training step: claim C2\<close>

lemma backprop_forwardState_fields [simp]:
  "layers (backprop (forwardState net xs) targets) = layers net"
  "weights (backprop (forwardState net xs) targets) = weights net"
  "biases (backprop (forwardState net xs) targets) = biases net"
  "learningRate (backprop (forwardState net xs) targets) = learningRate net"
  "batchSize (backprop (forwardState net xs) targets) = batchSize net"
  "currentBatchCount (backprop (forwardState net xs) targets) = currentBatchCount net + 1"
  "activations (backprop (forwardState net xs) targets) = activations (forwardState net xs)"
  "preActivations (backprop (forwardState net xs) targets) = preActivations (forwardState net xs)"
  by (simp_all add: backprop_def forwardState_def)

lemma backprop_accumulators:
  assumes "i < length (layers net) - 1"
  shows "j < neurons (layers net ! i) \<Longrightarrow> k < neurons (layers net ! Suc i) \<Longrightarrow>
      accWeightGradients (backprop net targets) ! i ! j ! k =
        accWeightGradients net ! i ! j ! k + weightGradients (backprop net targets) ! i ! j ! k"
    and "k < neurons (layers net ! Suc i) \<Longrightarrow>
      accBiasGradients (backprop net targets) ! i ! k =
        accBiasGradients net ! i ! k + neuronGradients (backprop net targets) ! Suc i ! k"
  using assms by (simp_all add: backprop_def)

lemma reset_updated_fields [simp]:
  "layers (resetAccumulators (updated net)) = layers net"
  "learningRate (resetAccumulators (updated net)) = learningRate net"
  "batchSize (resetAccumulators (updated net)) = batchSize net"
  "currentBatchCount (resetAccumulators (updated net)) = 0"
  "activations (resetAccumulators (updated net)) = activations net"
  "preActivations (resetAccumulators (updated net)) = preActivations net"
  "neuronGradients (resetAccumulators (updated net)) = neuronGradients net"
  "weightGradients (resetAccumulators (updated net)) = weightGradients net"
  "weights (resetAccumulators (updated net)) = weights (updated net)"
  "biases (resetAccumulators (updated net)) = biases (updated net)"
  by (simp_all add: resetAccumulators_def updated_def)

lemma sampleGradients_backprop:
  assumes wf: "wf_engine net" and lx: "length (inputs d) = neurons (layers net ! 0)"
  shows "sampleGradients net d (backprop (forwardState net (inputs d)) (target d))"
proof -
  let ?ls = "layers net"
  let ?L = "length ?ls - Suc 0"
  let ?xs = "inputs d"
  let ?n1 = "forwardState net ?xs"
  let ?n3 = "backprop ?n1 (target d)"
  have ne: "?ls \<noteq> []" using wf by (simp add: wf_engine_def wf_params_def)
  then have L: "?L < length ?ls" by simp
  have l1: "layers ?n1 = ?ls" "weights ?n1 = weights net"
    by (simp_all add: forwardState_def)
  have ac: "activations ?n3 = activations ?n1" and pr: "preActivations ?n3 = preActivations ?n1"
    by simp_all
  have cells: "preActivations ?n1 ! Suc i ! j =
          biases net ! i ! j + (\<Sum>k<neurons (?ls ! i). activations ?n1 ! i ! k * weights net ! i ! k ! j) \<and>
        activations ?n1 ! Suc i ! j = activate (activation (?ls ! Suc i)) (preActivations ?n1 ! Suc i ! j)"
    if "i < ?L" "j < neurons (?ls ! Suc i)" for i j
  proof -
    have i: "Suc i < length ?ls" "i < length ?ls" using that by simp_all
    have "length (layerActivation net ?xs i) = neurons (?ls ! i)"
      using lx by (rule length_layerActivation)
    then show ?thesis
      using i that(2) by (simp add: forwardState_def preActivationOf_def)
  qed
  have ngr: "neuronGradients ?n3 ! r = layerDelta ?n1 (target d) r" if "r < length ?ls" for r
    using that by (simp add: backprop_def l1)
  have ngL: "neuronGradients ?n3 ! ?L = outputDelta ?n1 (target d)"
    using ngr [OF L] layerDelta_output [of ?n1 "target d"] ne by (simp add: l1)
  have outd: "neuronGradients ?n3 ! ?L ! i =
      (activations ?n1 ! ?L ! i - target d ! i) *
      activationPrimeOf (activation (?ls ! ?L)) (activations ?n1 ! ?L ! i) (preActivations ?n1 ! ?L ! i)"
    if "i < neurons (?ls ! ?L)" for i
    using that by (simp add: ngL outputDelta_def Let_def l1)
  have hid: "neuronGradients ?n3 ! l ! j =
      (\<Sum>k<neurons (?ls ! Suc l). neuronGradients ?n3 ! Suc l ! k * weights net ! l ! j ! k) *
      activationPrimeOf (activation (?ls ! l)) (activations ?n1 ! l ! j) (preActivations ?n1 ! l ! j)"
    if "0 < l" "l < ?L" "j < neurons (?ls ! l)" for l j
  proof -
    have sl: "Suc l < length ?ls" "l < length ?ls" using that by simp_all
    show ?thesis
      using layerDelta_hidden [of l ?n1 "target d"] that sl
      by (simp add: ngr l1)
  qed
  have wg: "weightGradients ?n3 ! i ! j ! k = neuronGradients ?n3 ! Suc i ! k * activations ?n1 ! i ! j"
    if "i < ?L" "j < neurons (?ls ! i)" "k < neurons (?ls ! Suc i)" for i j k
  proof -
    have sl: "Suc i < length ?ls" using that by simp
    show ?thesis
      using that by (simp add: ngr [OF sl]) (simp add: backprop_def weightGradientOf_def l1)
  qed
  show ?thesis
    unfolding sampleGradients_def Let_def One_nat_def ac pr
    apply (intro conjI allI impI)
    subgoal by (simp add: forwardState_def)
    subgoal by (simp add: forwardState_def)
    subgoal using ne by (simp add: forwardState_def)
    subgoal using ne by (simp add: forwardState_def)
    subgoal for i j using cells [of i j] by blast
    subgoal for i j using cells [of i j] by blast
    subgoal for i using outd [of i] by blast
    subgoal for l j using hid [of l j] by blast
    subgoal for i j k using wg [of i j k] by blast
    done
qed

lemma sampleGradients_cong:
  assumes "layers a = layers b" "weights a = weights b" "biases a = biases b"
    and "activations n = activations m" "preActivations n = preActivations m"
    and "neuronGradients n = neuronGradients m" "weightGradients n = weightGradients m"
  shows "sampleGradients a d n = sampleGradients b d m"
  by (simp only: sampleGradients_def assms)

lemma train_without_weights:
  assumes "wf_engine net" and "length xs = neurons (layers net ! 0)"
    and "neurons (last (layers net)) \<le> length targets"
    and "batchSize net \<le> real (currentBatchCount net) + 1" and "weights net = []"
  shows "train net xs targets =
     Inr (resetAccumulators (backprop (forwardState net xs) targets),
          layerActivation net xs (length (layers net) - 1))"
proof -
  let ?n3 = "backprop (forwardState net xs) targets"
  have "applyUpdate ?n3 = Inr (weights ?n3, biases ?n3)"
    by (simp add: applyUpdate_def assms(5))
  moreover have "n3\<lparr>weights := weights n3, biases := biases n3\<rparr> = n3" for n3 :: MiniNeuralNet
    by simp
  ultimately have "and_then (applyUpdate ?n3) (\<lambda>(ws, bs).
      Inr (resetAccumulators (?n3\<lparr>weights := ws, biases := bs\<rparr>),
           layerActivation net xs (length (layers net) - 1))) =
    Inr (resetAccumulators ?n3, layerActivation net xs (length (layers net) - 1))"
    by (simp only: and_then_Inr prod.case)
  then show ?thesis
    using train_ok [OF assms(1-3)] assms(4) by (simp add: Let_def)
qed

text \<open>
  C2: on a well-formed engine, and for an input and a target as wide as the input and output
  layers, \<^verbatim>\<open>train\<close> returns the prediction \<^verbatim>\<open>forward\<close> returns for the input, and leaves in
  the engine the forward state of that input (\<open>z\<close> and \<open>a\<close> of every layer, computed from the
  input with the weights and biases the call started with) and these error terms: for
  output neuron \<open>i\<close>, \<open>(prediction\<^sub>i - target\<^sub>i)\<close> times the derivative; for neuron \<open>j\<close> of a
  hidden layer \<open>l\<close>, the sum over the next layer's neurons \<open>k\<close> of \<open>\<delta>\<^sub>k * weight\<^sub>j\<^sub>k\<close> (the
  weights the call started with) times the derivative. The derivative is \<open>a * (1 - a)\<close> for
  Sigmoid and \<open>1 - a * a\<close> for Tanh, on the neuron's activation, and 1 or 0 for ReLU, on its
  pre-activation \<open>z > 0\<close>. The batch size is not 0, or the engine has no weights: with batch
  size 0 the same call goes on to scale the gradients of the weights by \<open>1 / 0\<close>.
\<close>

theorem C2_error_terms:
  assumes "wf_engine net" and "length xs = neurons (layers net ! 0)"
    and "length targets = neurons (last (layers net))"
    and "weights net = [] \<or> batchSize net \<noteq> 0"
  shows "\<exists>net' out net1. train net xs targets = Inr (net', out) \<and>
     forward net xs = Inr (net1, out) \<and>
     activations net' = activations net1 \<and> preActivations net' = preActivations net1 \<and>
     (let L = length (layers net) - 1;
          derivative = (\<lambda>kind a z.
             if kind = SIGMOID then a * (1 - a)
             else if kind = RELU then (if z > 0 then 1 else 0)
             else if kind = TANH then 1 - a * a
             else 0)
      in out = activations net' ! L \<and>
         activations net' ! 0 = xs \<and> preActivations net' ! 0 = xs \<and>
         (\<forall>i<L. \<forall>j<neurons (layers net ! Suc i).
            preActivations net' ! Suc i ! j =
              biases net ! i ! j +
              (\<Sum>k<neurons (layers net ! i). activations net' ! i ! k * weights net ! i ! k ! j) \<and>
            activations net' ! Suc i ! j =
              (let z = preActivations net' ! Suc i ! j; kind = activation (layers net ! Suc i) in
               if kind = SIGMOID then 1 / (1 + exp (- z))
               else if kind = RELU then max 0 z
               else if kind = TANH then tanh z
               else 0)) \<and>
         (\<forall>i<neurons (layers net ! L).
            neuronGradients net' ! L ! i =
              (out ! i - targets ! i) *
              derivative (activation (layers net ! L)) (activations net' ! L ! i) (preActivations net' ! L ! i)) \<and>
         (\<forall>l j. 0 < l \<and> l < L \<and> j < neurons (layers net ! l) \<longrightarrow>
            neuronGradients net' ! l ! j =
              (\<Sum>k<neurons (layers net ! Suc l). neuronGradients net' ! Suc l ! k * weights net ! l ! j ! k) *
              derivative (activation (layers net ! l)) (activations net' ! l ! j) (preActivations net' ! l ! j)))"
proof -
  let ?ls = "layers net"
  let ?L = "length ?ls - Suc 0"
  let ?d = "\<lparr>inputs = xs, target = targets\<rparr>"
  let ?n1 = "forwardState net xs"
  let ?n3 = "backprop ?n1 targets"
  let ?out = "layerActivation net xs ?L"
  let ?D = "\<lambda>kind (a :: real) (z :: real).
             if kind = SIGMOID then a * (1 - a)
             else if kind = RELU then (if z > 0 then 1 else 0)
             else if kind = TANH then 1 - a * a
             else (0 :: real)"
  have D: "activationPrimeOf kind a z = ?D kind a z" for kind a z
    by (simp add: activationPrimeOf_def sigmoidDerivative_def reluDerivative_def tanhDerivative_def)
  have A: "activate kind z =
      (if kind = SIGMOID then 1 / (1 + exp (- z))
       else if kind = RELU then max 0 z
       else if kind = TANH then tanh z
       else 0)" for kind z
    by (simp add: activate_def sigmoid_def relu_def tanh_fn_def)
  have ne: "?ls \<noteq> []" using assms(1) by (simp add: wf_engine_def wf_params_def)
  then have L: "?L < length ?ls" by simp
  obtain net' where tr: "train net xs targets = Inr (net', ?out)"
    and ng: "neuronGradients net' = neuronGradients ?n3"
    and wg: "weightGradients net' = weightGradients ?n3"
    and ac: "activations net' = activations ?n1" and pr: "preActivations net' = preActivations ?n1"
  proof (cases "batchSize net \<le> real (currentBatchCount net) + 1")
    case True
    show ?thesis
    proof (cases "batchSize net = 0")
      case False
      from train_updates [OF assms(1,2) _ True False] assms(3) that show ?thesis
        by simp
    next
      case z: True
      with assms(4) have "weights net = []" by simp
      from train_without_weights [OF assms(1,2) _ True this] assms(3) that show ?thesis
        by (simp add: resetAccumulators_def)
    qed
  next
    case False
    with train_accumulates [OF assms(1,2)] assms(3) that show ?thesis
      by simp
  qed
  have fw: "forward net xs = Inr (?n1, ?out)"
    using assms(1,2) forward_forwardState [of net xs] by simp
  have out: "?out = activations net' ! ?L"
    using L by (simp add: ac forwardState_def)
  have "sampleGradients net ?d ?n3"
    using sampleGradients_backprop [of net ?d] assms(1,2) by simp
  then have sg: "sampleGradients net ?d net'"
    using sampleGradients_cong [of net net net' ?n3 ?d] ng wg ac pr by simp
  note s = sg [unfolded sampleGradients_def Let_def One_nat_def, simplified]
  have cells: "preActivations net' ! Suc i ! j =
          biases net ! i ! j + (\<Sum>k<neurons (?ls ! i). activations net' ! i ! k * weights net ! i ! k ! j) \<and>
        activations net' ! Suc i ! j = activate (activation (?ls ! Suc i)) (preActivations net' ! Suc i ! j)"
    if "i < ?L" "j < neurons (?ls ! Suc i)" for i j
    using s that by blast
  have outd: "neuronGradients net' ! ?L ! i =
      (?out ! i - targets ! i) *
      activationPrimeOf (activation (?ls ! ?L)) (activations net' ! ?L ! i) (preActivations net' ! ?L ! i)"
    if "i < neurons (?ls ! ?L)" for i
    using s that unfolding out by blast
  have hid: "neuronGradients net' ! l ! j =
      (\<Sum>k<neurons (?ls ! Suc l). neuronGradients net' ! Suc l ! k * weights net ! l ! j ! k) *
      activationPrimeOf (activation (?ls ! l)) (activations net' ! l ! j) (preActivations net' ! l ! j)"
    if "0 < l" "l < ?L" "j < neurons (?ls ! l)" for l j
    using s that by blast
  have zero: "activations net' ! 0 = xs" "preActivations net' ! 0 = xs"
    using s by simp_all
  show ?thesis
    apply (rule exI [of _ net'], rule exI [of _ ?out], rule exI [of _ ?n1])
    unfolding Let_def One_nat_def
    apply (intro conjI allI impI)
    subgoal by (rule tr)
    subgoal by (rule fw)
    subgoal by (rule ac)
    subgoal by (rule pr)
    subgoal by (rule out)
    subgoal by (rule zero)
    subgoal by (rule zero)
    subgoal for i j using cells [of i j] by blast
    subgoal for i j using cells [of i j] unfolding A by blast
    subgoal for i using outd [of i] unfolding D by blast
    subgoal for l j using hid [of l j] unfolding D by blast
    done
qed

lemma wf_engine_deepNet: "wf_engine deepNet"
  by (simp add: wf_engine_def wf_params_def weightShape_def biasShape_def deepNet_def
      deepLayers_def eval_nat_numeral upt_Suc_rec)

lemma train_deepNet: "train deepNet [1, 1] [1] = Inr (deepNetTrained, [3/2])"
proof -
  have "length [1, 1 :: real] = neurons (layers deepNet ! 0)"
    "neurons (last (layers deepNet)) \<le> length [1 :: real]"
    "batchSize deepNet \<le> real (currentBatchCount deepNet) + 1" "batchSize deepNet \<noteq> 0"
    by (simp_all add: deepNet_def deepLayers_def)
  from train_updates [OF wf_engine_deepNet this] show ?thesis
    by (simp add: deepNet_def deepNetTrained_def deepLayers_def example_eval)
qed

theorem C2_error_terms_witness:
  "wf_engine deepNet \<and> length [1, 1 :: real] = neurons (layers deepNet ! 0) \<and>
   length [1 :: real] = neurons (last (layers deepNet)) \<and> batchSize deepNet \<noteq> 0 \<and>
   train deepNet [1, 1] [1] = Inr (deepNetTrained, [3/2]) \<and>
   (\<exists>net1. forward deepNet [1, 1] = Inr (net1, [3/2]) \<and>
      activations deepNetTrained = activations net1 \<and>
      preActivations deepNetTrained = preActivations net1) \<and>
   activations deepNetTrained = [[1, 1], [5/4, 5/4], [3/2]] \<and>
   preActivations deepNetTrained = [[1, 1], [5/4, 5/4], [3/2]] \<and>
   neuronGradients deepNetTrained = [[0, 0], [1/4, 1/4], [1/2]] \<and>
   neuronGradients deepNetTrained ! 2 ! 0 = ([3/2] ! 0 - [1] ! 0) * 1 \<and>
   neuronGradients deepNetTrained ! 1 ! 0 =
     (\<Sum>k<1. neuronGradients deepNetTrained ! 2 ! k * weights deepNet ! 1 ! 0 ! k) * 1 \<and>
   wf_engine bareNet \<and> length [1, - 1 :: real] = neurons (layers bareNet ! 0) \<and>
   length [0, 0 :: real] = neurons (last (layers bareNet)) \<and> weights bareNet = [] \<and>
   train bareNet [1, - 1] [0, 0] = Inr (bareNetTrained, [1, - 1]) \<and>
   neuronGradients bareNetTrained = [[1, 0]] \<and>
   neuronGradients bareNetTrained ! 0 ! 0 = ([1, - 1] ! 0 - [0, 0] ! 0) * 1 \<and>
   neuronGradients bareNetTrained ! 0 ! 1 = ([1, - 1] ! 1 - [0, 0] ! 1) * 0"
proof -
  have h: "length [1, 1 :: real] = neurons (layers deepNet ! 0)"
    "length [1 :: real] = neurons (last (layers deepNet))" "batchSize deepNet \<noteq> 0"
    by (simp_all add: deepNet_def deepLayers_def)
  have h': "weights deepNet = [] \<or> batchSize deepNet \<noteq> 0"
    using h(3) by simp
  obtain net' out net1 where t: "train deepNet [1, 1] [1] = Inr (net', out)"
    and f: "forward deepNet [1, 1] = Inr (net1, out)"
      "activations net' = activations net1" "preActivations net' = preActivations net1"
    and body: "(let L = length (layers deepNet) - 1;
          derivative = (\<lambda>kind a z.
             if kind = SIGMOID then a * (1 - a)
             else if kind = RELU then (if z > 0 then 1 else 0)
             else if kind = TANH then 1 - a * a
             else 0)
      in out = activations net' ! L \<and>
         activations net' ! 0 = [1, 1] \<and> preActivations net' ! 0 = [1, 1] \<and>
         (\<forall>i<L. \<forall>j<neurons (layers deepNet ! Suc i).
            preActivations net' ! Suc i ! j =
              biases deepNet ! i ! j +
              (\<Sum>k<neurons (layers deepNet ! i). activations net' ! i ! k * weights deepNet ! i ! k ! j) \<and>
            activations net' ! Suc i ! j =
              (let z = preActivations net' ! Suc i ! j; kind = activation (layers deepNet ! Suc i) in
               if kind = SIGMOID then 1 / (1 + exp (- z))
               else if kind = RELU then max 0 z
               else if kind = TANH then tanh z
               else 0)) \<and>
         (\<forall>i<neurons (layers deepNet ! L).
            neuronGradients net' ! L ! i =
              (out ! i - [1] ! i) *
              derivative (activation (layers deepNet ! L)) (activations net' ! L ! i) (preActivations net' ! L ! i)) \<and>
         (\<forall>l j. 0 < l \<and> l < L \<and> j < neurons (layers deepNet ! l) \<longrightarrow>
            neuronGradients net' ! l ! j =
              (\<Sum>k<neurons (layers deepNet ! Suc l). neuronGradients net' ! Suc l ! k * weights deepNet ! l ! j ! k) *
              derivative (activation (layers deepNet ! l)) (activations net' ! l ! j) (preActivations net' ! l ! j)))"
    using C2_error_terms [OF wf_engine_deepNet h(1,2) h'] by blast
  have n: "net' = deepNetTrained" "out = [3/2]"
    using t train_deepNet by simp_all
  note ev = deepNet_def deepNetTrained_def deepLayers_def SIGMOID_def TANH_def RELU_def eval_nat_numeral
  note b = body [unfolded Let_def n]
  have o: "neuronGradients deepNetTrained ! 2 ! 0 = ([3/2] ! 0 - [1] ! 0) * 1"
    using b [THEN conjunct2, THEN conjunct2, THEN conjunct2, THEN conjunct2, THEN conjunct1, rule_format, of 0]
    by (simp add: ev)
  have hd: "neuronGradients deepNetTrained ! 1 ! 0 =
     (\<Sum>k<1. neuronGradients deepNetTrained ! 2 ! k * weights deepNet ! 1 ! 0 ! k) * 1"
    using b [THEN conjunct2, THEN conjunct2, THEN conjunct2, THEN conjunct2, THEN conjunct2, rule_format, of 1 0]
    by (simp add: ev)
  have v: "activations deepNetTrained = [[1, 1], [5/4, 5/4], [3/2]]"
    "preActivations deepNetTrained = [[1, 1], [5/4, 5/4], [3/2]]"
    "neuronGradients deepNetTrained = [[0, 0], [1/4, 1/4], [1/2]]"
    by (simp_all add: deepNetTrained_def deepNet_def)
  from f [unfolded n] have "\<exists>net1. forward deepNet [1, 1] = Inr (net1, [3/2]) \<and>
      activations deepNetTrained = activations net1 \<and>
      preActivations deepNetTrained = preActivations net1"
    by blast
  with t [unfolded n] o hd v wf_engine_deepNet h
  have deep: "wf_engine deepNet \<and> length [1, 1 :: real] = neurons (layers deepNet ! 0) \<and>
   length [1 :: real] = neurons (last (layers deepNet)) \<and> batchSize deepNet \<noteq> 0 \<and>
   train deepNet [1, 1] [1] = Inr (deepNetTrained, [3/2]) \<and>
   (\<exists>net1. forward deepNet [1, 1] = Inr (net1, [3/2]) \<and>
      activations deepNetTrained = activations net1 \<and>
      preActivations deepNetTrained = preActivations net1) \<and>
   activations deepNetTrained = [[1, 1], [5/4, 5/4], [3/2]] \<and>
   preActivations deepNetTrained = [[1, 1], [5/4, 5/4], [3/2]] \<and>
   neuronGradients deepNetTrained = [[0, 0], [1/4, 1/4], [1/2]] \<and>
   neuronGradients deepNetTrained ! 2 ! 0 = ([3/2] ! 0 - [1] ! 0) * 1 \<and>
   neuronGradients deepNetTrained ! 1 ! 0 =
     (\<Sum>k<1. neuronGradients deepNetTrained ! 2 ! k * weights deepNet ! 1 ! 0 ! k) * 1"
    by blast
  have g: "length [1, - 1 :: real] = neurons (layers bareNet ! 0)"
    "length [0, 0 :: real] = neurons (last (layers bareNet))" "weights bareNet = []"
    by (simp_all add: bareNet_def)
  have g': "weights bareNet = [] \<or> batchSize bareNet \<noteq> 0"
    using g(3) by simp
  obtain net'' out'' where t': "train bareNet [1, - 1] [0, 0] = Inr (net'', out'')"
    and body': "\<forall>i<neurons (layers bareNet ! (length (layers bareNet) - 1)).
            neuronGradients net'' ! (length (layers bareNet) - 1) ! i =
              (out'' ! i - [0, 0] ! i) *
              (\<lambda>kind a z.
                 if kind = SIGMOID then a * (1 - a)
                 else if kind = RELU then (if z > 0 then 1 else 0)
                 else if kind = TANH then 1 - a * a
                 else 0)
               (activation (layers bareNet ! (length (layers bareNet) - 1)))
               (activations net'' ! (length (layers bareNet) - 1) ! i)
               (preActivations net'' ! (length (layers bareNet) - 1) ! i)"
    using C2_error_terms [OF wf_engine_bareNet g(1,2) g'] unfolding Let_def by blast
  have n': "net'' = bareNetTrained" "out'' = [1, - 1]"
    using t' train_bareNet by simp_all
  note ev' = bareNet_def bareNetTrained_def RELU_def SIGMOID_def TANH_def
  have b0: "neuronGradients bareNetTrained ! 0 ! 0 = ([1, - 1] ! 0 - [0, 0] ! 0) * 1"
    using body' [unfolded n', rule_format, of 0] by (simp add: ev')
  have b1: "neuronGradients bareNetTrained ! 0 ! 1 = ([1, - 1] ! 1 - [0, 0] ! 1) * 0"
    using body' [unfolded n', rule_format, of 1] by (simp add: ev')
  have v': "neuronGradients bareNetTrained = [[1, 0]]"
    by (simp add: bareNetTrained_def)
  from deep wf_engine_bareNet g t' [unfolded n'] v' b0 b1 show ?thesis
    by blast
qed

section \<open>Sequences of training steps: claims C3 and C4\<close>

lemma accumulated_Nil: "wf_engine net \<Longrightarrow> accumulated net [] net"
  by (simp add: accumulated_def)

lemma accumulated_Cons:
  assumes wf: "wf_engine net" and n1: "n1 = backprop (forwardState net xs) targets"
    and rest: "accumulated n1 nets F"
  shows "accumulated net (n1 # nets) F"
proof -
  have f: "layers n1 = layers net" "weights n1 = weights net" "biases n1 = biases net"
    "learningRate n1 = learningRate net" "batchSize n1 = batchSize net"
    "currentBatchCount n1 = currentBatchCount net + 1"
    by (simp_all add: n1)
  have l1: "layers (forwardState net xs) = layers net"
    by (simp add: forwardState_def)
  have a1: "accWeightGradients (forwardState net xs) = accWeightGradients net"
    "accBiasGradients (forwardState net xs) = accBiasGradients net"
    by (simp_all add: forwardState_def)
  have w: "accWeightGradients F ! i ! j ! k =
          accWeightGradients net ! i ! j ! k + (\<Sum>s<length (n1 # nets). weightGradients ((n1 # nets) ! s) ! i ! j ! k)"
    if "i < length (layers net) - 1" "j < neurons (layers net ! i)" "k < neurons (layers net ! Suc i)"
    for i j k
  proof -
    have "accWeightGradients F ! i ! j ! k =
        accWeightGradients n1 ! i ! j ! k + (\<Sum>s<length nets. weightGradients (nets ! s) ! i ! j ! k)"
      using rest that by (simp add: accumulated_def f)
    moreover have "accWeightGradients n1 ! i ! j ! k =
        accWeightGradients net ! i ! j ! k + weightGradients n1 ! i ! j ! k"
      using backprop_accumulators(1) [of i "forwardState net xs" j k targets] that
      by (simp add: n1 l1 a1)
    ultimately show ?thesis
      by (simp add: sum.lessThan_Suc_shift del: sum.lessThan_Suc)
  qed
  have b: "accBiasGradients F ! i ! k =
          accBiasGradients net ! i ! k + (\<Sum>s<length (n1 # nets). neuronGradients ((n1 # nets) ! s) ! Suc i ! k)"
    if "i < length (layers net) - 1" "k < neurons (layers net ! Suc i)" for i k
  proof -
    have "accBiasGradients F ! i ! k =
        accBiasGradients n1 ! i ! k + (\<Sum>s<length nets. neuronGradients (nets ! s) ! Suc i ! k)"
      using rest that by (simp add: accumulated_def f)
    moreover have "accBiasGradients n1 ! i ! k =
        accBiasGradients net ! i ! k + neuronGradients n1 ! Suc i ! k"
      using backprop_accumulators(2) [of i "forwardState net xs" k targets] that
      by (simp add: n1 l1 a1)
    ultimately show ?thesis
      by (simp add: sum.lessThan_Suc_shift del: sum.lessThan_Suc)
  qed
  show ?thesis
    unfolding accumulated_def
    apply (intro conjI allI impI)
    subgoal using rest by (simp add: accumulated_def)
    subgoal using rest by (simp add: accumulated_def f)
    subgoal using rest by (simp add: accumulated_def f)
    subgoal using rest by (simp add: accumulated_def f)
    subgoal using rest by (simp add: accumulated_def f)
    subgoal using rest by (simp add: accumulated_def f)
    subgoal using rest by (simp add: accumulated_def f)
    subgoal for i j k by (rule w)
    subgoal for i k by (rule b)
    done
qed

lemma fits_layers: "layers n1 = layers net \<Longrightarrow> fits n1 = fits net"
  by (simp add: fits_def fun_eq_iff)

lemma trainEach_accumulates:
  assumes "wf_engine net" and "list_all (fits net) ds"
    and "real (currentBatchCount net) + real (length ds) < batchSize net"
  shows "\<exists>nets. trainEach net ds = Inr nets \<and> length nets = length ds \<and>
     (\<forall>s<length ds. weights (nets ! s) = weights net \<and> biases (nets ! s) = biases net) \<and>
     accumulated net nets (last (net # nets))"
  using assms
proof (induction ds arbitrary: net)
  case Nil
  then show ?case by (simp add: accumulated_Nil)
next
  case (Cons d ds)
  let ?n1 = "backprop (forwardState net (inputs d)) (target d)"
  have d: "length (inputs d) = neurons (layers net ! 0)" "neurons (last (layers net)) \<le> length (target d)"
    using Cons.prems(2) by (simp_all add: fits_def)
  have c: "real (currentBatchCount net) + 1 < batchSize net"
    using Cons.prems(3) by simp
  have tr: "train net (inputs d) (target d) =
      Inr (?n1, layerActivation net (inputs d) (length (layers net) - 1))"
    using Cons.prems(1) d c by (rule train_accumulates)
  have wf1: "wf_engine ?n1"
    using Cons.prems(1) by (simp add: wf_engine_backprop)
  have fit1: "list_all (fits ?n1) ds"
    using Cons.prems(2) fits_layers [of ?n1 net] by simp
  have c1: "real (currentBatchCount ?n1) + real (length ds) < batchSize ?n1"
    using Cons.prems(3) by simp
  from Cons.IH [OF wf1 fit1 c1] obtain nets where nets: "trainEach ?n1 ds = Inr nets"
    "length nets = length ds"
    "\<forall>s<length ds. weights (nets ! s) = weights ?n1 \<and> biases (nets ! s) = biases ?n1"
    "accumulated ?n1 nets (last (?n1 # nets))"
    by blast
  have "trainEach net (d # ds) = Inr (?n1 # nets)"
    using tr nets(1) by simp
  moreover have "\<forall>s<length (d # ds). weights ((?n1 # nets) ! s) = weights net \<and>
      biases ((?n1 # nets) ! s) = biases net"
    using nets(3) by (auto simp: nth_Cons split: nat.splits)
  moreover have "accumulated net (?n1 # nets) (last (net # ?n1 # nets))"
    using accumulated_Cons [OF Cons.prems(1) refl nets(4)] by simp
  ultimately show ?case
    using nets(2) by auto
qed

lemma trainEach_samples:
  assumes "wf_engine net" and "list_all (fits net) ds"
    and "real (currentBatchCount net) + real (length ds) < batchSize net"
    and "trainEach net ds = Inr nets"
  shows "\<forall>s<length ds. sampleGradients net (ds ! s) (nets ! s)"
  using assms
proof (induction ds arbitrary: net nets)
  case Nil
  then show ?case by simp
next
  case (Cons d ds)
  let ?n1 = "backprop (forwardState net (inputs d)) (target d)"
  have d: "length (inputs d) = neurons (layers net ! 0)" "neurons (last (layers net)) \<le> length (target d)"
    using Cons.prems(2) by (simp_all add: fits_def)
  have c: "real (currentBatchCount net) + 1 < batchSize net"
    using Cons.prems(3) by simp
  have tr: "train net (inputs d) (target d) =
      Inr (?n1, layerActivation net (inputs d) (length (layers net) - 1))"
    using Cons.prems(1) d c by (rule train_accumulates)
  obtain nets' where nets': "trainEach ?n1 ds = Inr nets'" "nets = ?n1 # nets'"
    using Cons.prems(4) tr by (cases "trainEach ?n1 ds") auto
  have wf1: "wf_engine ?n1"
    using Cons.prems(1) by (simp add: wf_engine_backprop)
  have fit1: "list_all (fits ?n1) ds"
    using Cons.prems(2) fits_layers [of ?n1 net] by simp
  have c1: "real (currentBatchCount ?n1) + real (length ds) < batchSize ?n1"
    using Cons.prems(3) by simp
  have rest: "sampleGradients net (ds ! s) (nets' ! s)" if "s < length ds" for s
  proof -
    from Cons.IH [OF wf1 fit1 c1 nets'(1)] that have "sampleGradients ?n1 (ds ! s) (nets' ! s)"
      by blast
    then show ?thesis
      using sampleGradients_cong [of ?n1 net "nets' ! s" "nets' ! s" "ds ! s"] by simp
  qed
  have first: "sampleGradients net d ?n1"
    using Cons.prems(1) d(1) by (rule sampleGradients_backprop)
  show ?case
  proof (intro allI impI)
    fix s assume "s < length (d # ds)"
    then show "sampleGradients net ((d # ds) ! s) (nets ! s)"
      using first rest by (cases s) (simp_all add: nets'(2))
  qed
qed

lemma trainEach_append:
  "trainEach net (ds @ es) =
     and_then (trainEach net ds) (\<lambda>nets.
     and_then (trainEach (last (net # nets)) es) (\<lambda>ms. Inr (nets @ ms)))"
proof (induction ds arbitrary: net)
  case Nil
  then show ?case
    by (cases "trainEach net es") simp_all
next
  case (Cons d ds)
  show ?case
  proof (cases "train net (inputs d) (target d)")
    case (Inl e)
    then show ?thesis by simp
  next
    case (Inr r)
    obtain n1 out where r: "r = (n1, out)" by (cases r)
    show ?thesis
      using Inr r Cons.IH [of n1]
      by (cases "trainEach n1 ds"; cases "trainEach (last (n1 # projr (trainEach n1 ds))) es") simp_all
  qed
qed

text \<open>
  C4, as stated, fails for an engine that is part-way through a batch: the engine below has
  batch size 2 and one sample accumulated (it is the constructed example after one
  \<^verbatim>\<open>train\<close>); one more \<^verbatim>\<open>train\<close> call (\<open>k = 1 < 2\<close>) completes the batch, so after
  \<^verbatim>\<open>updateConfig(0.1, 3)\<close> the weights are \<open>3/8\<close>, no longer \<open>1/2\<close>.
\<close>

theorem C4_mid_batch_counterexample:
  "construct exampleLayers (Some (1/10)) (Some 2) (\<lambda>n. 3/4) = Inr (exampleNet 2) \<and>
   train (exampleNet 2) [1, 1] [0] = Inr (exampleNetMid 2, [5/4]) \<and>
   batchSize (exampleNetMid 2) = 2 \<and>
   real (length [\<lparr>inputs = [1, 1], target = [0]\<rparr>]) < batchSize (exampleNetMid 2) \<and>
   trainEach (exampleNetMid 2) [\<lparr>inputs = [1, 1], target = [0]\<rparr>] = Inr [exampleNetUpdated] \<and>
   3 \<noteq> batchSize exampleNetUpdated \<and>
   weights (exampleNetMid 2) = [[[1/2], [1/2]]] \<and>
   weights (updateConfig exampleNetUpdated (1/10) 3) = [[[3/8], [3/8]]]"
  using construct_exampleNet [of 2] train_exampleNet [of 2] train_exampleNetMid
  by (simp add: exampleNetMid_def exampleNet_def exampleNetUpdated_def updateConfig_def
      resetAccumulators_def)

text \<open>
  C4, amended: for every well-formed engine with batch size \<open>B\<close> whose batch counter is 0,
  \<open>k < B\<close> train calls on fitting rows complete and change no weight and no bias, and a
  following \<^verbatim>\<open>updateConfig(lr, B')\<close> with \<open>B'\<close> other than \<open>B\<close> leaves the weights and
  biases as they were, the batch size \<open>B'\<close>, the counter 0 and every accumulator 0; and
  \<^verbatim>\<open>updateConfig\<close> replaces the learning rate whatever the batch size.
\<close>

theorem C4_updateConfig_discards_partial_batch:
  assumes "wf_engine net" and "currentBatchCount net = 0"
    and "real (length ds) < batchSize net" and "list_all (fits net) ds"
    and "bs \<noteq> batchSize net"
  shows "\<exists>nets. trainEach net ds = Inr nets \<and> length nets = length ds \<and>
     (\<forall>s<length ds. weights (nets ! s) = weights net \<and> biases (nets ! s) = biases net) \<and>
     (let net' = updateConfig (last (net # nets)) lr bs in
        weights net' = weights net \<and> biases net' = biases net \<and>
        batchSize net' = bs \<and> learningRate net' = lr \<and> currentBatchCount net' = 0 \<and>
        accWeightGradients net' = map (\<lambda>l. map (\<lambda>n. replicate (length n) 0) l) (weights net) \<and>
        accBiasGradients net' = map (\<lambda>l. replicate (length l) 0) (biases net)) \<and>
     (\<forall>n b. learningRate (updateConfig n lr b) = lr)"
proof -
  have "real (currentBatchCount net) + real (length ds) < batchSize net"
    using assms(2,3) by simp
  from trainEach_accumulates [OF assms(1,4) this] obtain nets where nets:
    "trainEach net ds = Inr nets" "length nets = length ds"
    "\<forall>s<length ds. weights (nets ! s) = weights net \<and> biases (nets ! s) = biases net"
    "accumulated net nets (last (net # nets))"
    by blast
  let ?F = "last (net # nets)"
  have F: "weights ?F = weights net" "biases ?F = biases net" "batchSize ?F = batchSize net"
    using nets(4) by (simp_all add: accumulated_def)
  have "weights (updateConfig ?F lr bs) = weights net \<and> biases (updateConfig ?F lr bs) = biases net \<and>
        batchSize (updateConfig ?F lr bs) = bs \<and> learningRate (updateConfig ?F lr bs) = lr \<and>
        currentBatchCount (updateConfig ?F lr bs) = 0 \<and>
        accWeightGradients (updateConfig ?F lr bs) = map (\<lambda>l. map (\<lambda>n. replicate (length n) 0) l) (weights net) \<and>
        accBiasGradients (updateConfig ?F lr bs) = map (\<lambda>l. replicate (length l) 0) (biases net)"
    using assms(5) F by (simp add: updateConfig_def resetAccumulators_def Let_def)
  moreover have "\<forall>n b. learningRate (updateConfig n lr b) = lr"
    by (simp add: updateConfig_def resetAccumulators_def Let_def)
  ultimately show ?thesis
    using nets(1-3) unfolding Let_def by blast
qed

lemma fits_exampleNet: "fits (exampleNet b) \<lparr>inputs = [1, 1], target = [0]\<rparr>"
  by (simp add: fits_def exampleNet_def exampleLayers_def)

theorem C4_updateConfig_witness:
  "wf_engine (exampleNet 2) \<and> currentBatchCount (exampleNet 2) = 0 \<and>
   real (length [\<lparr>inputs = [1, 1], target = [0]\<rparr>]) < batchSize (exampleNet 2) \<and>
   list_all (fits (exampleNet 2)) [\<lparr>inputs = [1, 1], target = [0]\<rparr>] \<and>
   3 \<noteq> batchSize (exampleNet 2) \<and>
   (\<exists>nets. trainEach (exampleNet 2) [\<lparr>inputs = [1, 1], target = [0]\<rparr>] = Inr nets \<and>
      weights (updateConfig (last (exampleNet 2 # nets)) (1/5) 3) = weights (exampleNet 2) \<and>
      batchSize (updateConfig (last (exampleNet 2 # nets)) (1/5) 3) = 3 \<and>
      currentBatchCount (updateConfig (last (exampleNet 2 # nets)) (1/5) 3) = 0)"
proof -
  have h: "currentBatchCount (exampleNet 2) = 0"
    "real (length [\<lparr>inputs = [1, 1], target = [0]\<rparr>]) < batchSize (exampleNet 2)"
    "list_all (fits (exampleNet 2)) [\<lparr>inputs = [1, 1], target = [0]\<rparr>]"
    "3 \<noteq> batchSize (exampleNet 2)"
    using fits_exampleNet [of 2] by (simp_all add: exampleNet_def)
  from C4_updateConfig_discards_partial_batch [OF wf_engine_exampleNet h, of "1/5"]
    wf_engine_exampleNet [of 2] h
  show ?thesis
    unfolding Let_def by blast
qed

lemma weights_updated_nth:
  "i < length (layers net) - 1 \<Longrightarrow> j < neurons (layers net ! i) \<Longrightarrow> k < neurons (layers net ! Suc i) \<Longrightarrow>
   weights (updated net) ! i ! j ! k =
     weights net ! i ! j ! k - learningRate net * (accWeightGradients net ! i ! j ! k * (1 / batchSize net))"
  by (simp add: updated_def)

lemma biases_updated_nth:
  "i < length (layers net) - 1 \<Longrightarrow> k < neurons (layers net ! Suc i) \<Longrightarrow>
   biases (updated net) ! i ! k =
     biases net ! i ! k - learningRate net * (accBiasGradients net ! i ! k * (1 / batchSize net))"
  by (simp add: updated_def)

lemma updated_shapes:
  "map (map length) (weights (updated net)) = weightShape (layers net)"
  "map length (biases (updated net)) = biasShape (layers net)"
  by (simp_all add: updated_def weightShape_def biasShape_def comp_def map_replicate_const)

text \<open>
  C3: take a well-formed engine with batch size \<open>B\<close>, a positive whole number, whose batch
  counter and accumulators are 0, and \<open>B\<close> fitting rows. The \<open>B\<close> train calls complete. The
  first \<open>B - 1\<close> leave every weight and bias as it was. Each call leaves in its engine the
  per-sample gradients of its row (\<open>sampleGradients\<close>: forward state, error terms and weight
  gradients \<open>\<delta> * a\<close> of the row, computed with the weights and biases the sequence started
  with). After the last call, every weight is its old value minus \<open>learningRate * (the sum
  over the B calls of these weight gradients) / B\<close>, every bias likewise with the error term
  of its neuron, and the accumulators and the counter are 0 again.
\<close>

theorem C3_batch_update:
  assumes wf: "wf_engine net" and B: "batchSize net = real B" "0 < B" "length ds = B"
    and fit: "list_all (fits net) ds"
    and zero: "currentBatchCount net = 0"
      "accWeightGradients net = map (\<lambda>l. map (\<lambda>n. replicate (length n) 0) l) (weights net)"
      "accBiasGradients net = map (\<lambda>l. replicate (length l) 0) (biases net)"
  shows "\<exists>nets. trainEach net ds = Inr nets \<and> length nets = B \<and>
     (\<forall>s<B - 1. weights (nets ! s) = weights net \<and> biases (nets ! s) = biases net) \<and>
     (\<forall>s<B. sampleGradients net (ds ! s) (nets ! s)) \<and>
     (\<forall>i j k. i < length (weights net) \<and> j < length (weights net ! i) \<and> k < length (weights net ! i ! j) \<longrightarrow>
        weights (last nets) ! i ! j ! k =
          weights net ! i ! j ! k -
          learningRate net * ((\<Sum>s<B. weightGradients (nets ! s) ! i ! j ! k) / real B)) \<and>
     (\<forall>i k. i < length (biases net) \<and> k < length (biases net ! i) \<longrightarrow>
        biases (last nets) ! i ! k =
          biases net ! i ! k -
          learningRate net * ((\<Sum>s<B. neuronGradients (nets ! s) ! Suc i ! k) / real B)) \<and>
     map (map length) (weights (last nets)) = map (map length) (weights net) \<and>
     map length (biases (last nets)) = map length (biases net) \<and>
     accWeightGradients (last nets) = map (\<lambda>l. map (\<lambda>n. replicate (length n) 0) l) (weights (last nets)) \<and>
     accBiasGradients (last nets) = map (\<lambda>l. replicate (length l) 0) (biases (last nets)) \<and>
     currentBatchCount (last nets) = 0"
proof -
  let ?ls = "layers net"
  note sh = wf_engine_shapes [OF wf]
  obtain ds' d where ds: "ds = ds' @ [d]"
    using B(2,3) by (cases ds rule: rev_cases) auto
  have m: "length ds' = B - 1" "Suc (length ds') = B"
    using B(3) ds by simp_all
  have fit': "list_all (fits net) ds'" and fd: "fits net d"
    using fit ds by simp_all
  have "real (currentBatchCount net) + real (length ds') < batchSize net"
    using zero(1) B(1) m by simp
  from trainEach_accumulates [OF wf fit' this] obtain nets' where nets':
    "trainEach net ds' = Inr nets'" "length nets' = length ds'"
    "\<forall>s<length ds'. weights (nets' ! s) = weights net \<and> biases (nets' ! s) = biases net"
    "accumulated net nets' (last (net # nets'))"
    by blast
  have samp': "\<forall>s<length ds'. sampleGradients net (ds' ! s) (nets' ! s)"
    using wf fit' \<open>real (currentBatchCount net) + real (length ds') < batchSize net\<close> nets'(1)
    by (rule trainEach_samples)
  define Fin where "Fin = last (net # nets')"
  note acc' = nets'(4) [folded Fin_def]
  have F: "wf_engine Fin" "layers Fin = ?ls" "weights Fin = weights net" "biases Fin = biases net"
    "learningRate Fin = learningRate net" "batchSize Fin = real B"
    "currentBatchCount Fin = length ds'"
    using acc' nets'(2) zero(1) B(1) by (simp_all add: accumulated_def)
  have FW: "accWeightGradients Fin ! i ! j ! k = (\<Sum>s<length ds'. weightGradients (nets' ! s) ! i ! j ! k)"
    if "i < length ?ls - 1" "j < neurons (?ls ! i)" "k < neurons (?ls ! Suc i)" for i j k
  proof -
    have "accWeightGradients net ! i ! j ! k = 0"
      using that sh(2) sh(6,7) [of i] by (simp add: zero(2))
    then show ?thesis
      using acc' nets'(2) that by (simp add: accumulated_def)
  qed
  have FB: "accBiasGradients Fin ! i ! k = (\<Sum>s<length ds'. neuronGradients (nets' ! s) ! Suc i ! k)"
    if "i < length ?ls - 1" "k < neurons (?ls ! Suc i)" for i k
  proof -
    have "accBiasGradients net ! i ! k = 0"
      using that sh(3) sh(8) [of i] by (simp add: zero(3))
    then show ?thesis
      using acc' nets'(2) that by (simp add: accumulated_def)
  qed
  let ?n3 = "backprop (forwardState Fin (inputs d)) (target d)"
  let ?nB = "resetAccumulators (updated ?n3)"
  have d: "length (inputs d) = neurons (layers Fin ! 0)" "neurons (last (layers Fin)) \<le> length (target d)"
    using fd by (simp_all add: fits_def F(2))
  have "batchSize Fin \<le> real (currentBatchCount Fin) + 1" "batchSize Fin \<noteq> 0"
    using F(6,7) m B(2) by simp_all
  from train_updates [OF F(1) d this]
  have tr: "trainEach Fin [d] = Inr [?nB]"
    by simp
  have all: "trainEach net ds = Inr (nets' @ [?nB])"
    using nets'(1) tr unfolding Fin_def by (simp add: ds trainEach_append)
  let ?nets = "nets' @ [?nB]"
  have last: "last ?nets = ?nB" by simp
  have l3: "layers (forwardState Fin (inputs d)) = ?ls"
    "accWeightGradients (forwardState Fin (inputs d)) = accWeightGradients Fin"
    "accBiasGradients (forwardState Fin (inputs d)) = accBiasGradients Fin"
    by (simp_all add: forwardState_def F(2))
  have u3: "layers ?n3 = ?ls" "weights ?n3 = weights net" "biases ?n3 = biases net"
    "learningRate ?n3 = learningRate net" "batchSize ?n3 = real B"
    by (simp_all add: F)
  have sumW: "(\<Sum>s<B. weightGradients (?nets ! s) ! i ! j ! k) =
      (\<Sum>s<length ds'. weightGradients (nets' ! s) ! i ! j ! k) + weightGradients ?n3 ! i ! j ! k" for i j k
    using nets'(2) by (simp add: nth_append flip: m(2))
  have sumB: "(\<Sum>s<B. neuronGradients (?nets ! s) ! Suc i ! k) =
      (\<Sum>s<length ds'. neuronGradients (nets' ! s) ! Suc i ! k) + neuronGradients ?n3 ! Suc i ! k" for i k
    using nets'(2) by (simp add: nth_append flip: m(2))
  have W: "weights ?nB ! i ! j ! k =
          weights net ! i ! j ! k -
          learningRate net * ((\<Sum>s<B. weightGradients (?nets ! s) ! i ! j ! k) / real B)"
    if "i < length (weights net)" "j < length (weights net ! i)" "k < length (weights net ! i ! j)"
    for i j k
  proof -
    have r: "i < length ?ls - 1" "j < neurons (?ls ! i)" "k < neurons (?ls ! Suc i)"
      using that sh(2) sh(6,7) [of i] by simp_all
    have "weights ?nB ! i ! j ! k =
        weights net ! i ! j ! k - learningRate net * (accWeightGradients ?n3 ! i ! j ! k * (1 / real B))"
      using r weights_updated_nth [of i ?n3 j k] by (simp add: F)
    moreover have "accWeightGradients ?n3 ! i ! j ! k =
        accWeightGradients Fin ! i ! j ! k + weightGradients ?n3 ! i ! j ! k"
      using backprop_accumulators(1) [of i "forwardState Fin (inputs d)" j k "target d"] r
      by (simp add: l3 F)
    ultimately show ?thesis
      using FW [OF r] by (simp add: sumW)
  qed
  have Bi: "biases ?nB ! i ! k =
          biases net ! i ! k -
          learningRate net * ((\<Sum>s<B. neuronGradients (?nets ! s) ! Suc i ! k) / real B)"
    if "i < length (biases net)" "k < length (biases net ! i)" for i k
  proof -
    have r: "i < length ?ls - 1" "k < neurons (?ls ! Suc i)"
      using that sh(3) sh(8) [of i] by simp_all
    have "biases ?nB ! i ! k =
        biases net ! i ! k - learningRate net * (accBiasGradients ?n3 ! i ! k * (1 / real B))"
      using r biases_updated_nth [of i ?n3 k] by (simp add: F)
    moreover have "accBiasGradients ?n3 ! i ! k =
        accBiasGradients Fin ! i ! k + neuronGradients ?n3 ! Suc i ! k"
      using backprop_accumulators(2) [of i "forwardState Fin (inputs d)" k "target d"] r
      by (simp add: l3 F)
    ultimately show ?thesis
      using FB [OF r] by (simp add: sumB)
  qed
  have shW: "map (map length) (weights ?nB) = map (map length) (weights net)"
    using wf updated_shapes(1) [of ?n3] by (simp add: F wf_engine_def wf_params_def)
  have shB: "map length (biases ?nB) = map length (biases net)"
    using wf updated_shapes(2) [of ?n3] by (simp add: F wf_engine_def wf_params_def)
  have acc: "accWeightGradients ?nB = map (\<lambda>l. map (\<lambda>n. replicate (length n) 0) l) (weights ?nB)"
    "accBiasGradients ?nB = map (\<lambda>l. replicate (length l) 0) (biases ?nB)"
    "currentBatchCount ?nB = 0"
    by (simp_all add: resetAccumulators_def)
  have early: "\<forall>s<B - 1. weights (?nets ! s) = weights net \<and> biases (?nets ! s) = biases net"
    using nets'(2,3) m by (simp add: nth_append)
  have len: "length ?nets = B"
    using nets'(2) m by simp
  have "sampleGradients Fin d ?n3"
    using F(1) d(1) by (rule sampleGradients_backprop)
  then have sampB: "sampleGradients net d ?nB"
    using sampleGradients_cong [of Fin net ?n3 ?nB d] by (simp add: F)
  have samples: "sampleGradients net (ds ! s) (?nets ! s)" if "s < B" for s
  proof (cases "s < length ds'")
    case True
    with samp' nets'(2) show ?thesis by (simp add: ds nth_append)
  next
    case False
    with that m have "s = length ds'" by simp
    with sampB nets'(2) show ?thesis by (simp add: ds nth_append)
  qed
  show ?thesis
    apply (rule exI [of _ ?nets])
    unfolding last
    apply (intro conjI allI impI)
    subgoal by (rule all)
    subgoal by (rule len)
    subgoal for s using early by blast
    subgoal for s using early by blast
    subgoal for s using samples by blast
    subgoal for i j k using W [of i j k] by blast
    subgoal for i k using Bi [of i k] by blast
    subgoal by (rule shW)
    subgoal by (rule shB)
    subgoal by (rule acc)
    subgoal by (rule acc)
    subgoal by (rule acc)
    done
qed

theorem C3_batch_update_witness:
  "wf_engine (exampleNet 2) \<and> batchSize (exampleNet 2) = real 2 \<and> (0 :: nat) < 2 \<and>
   length [\<lparr>inputs = [1, 1], target = [0]\<rparr>, \<lparr>inputs = [1, 1], target = [0]\<rparr>] = 2 \<and>
   list_all (fits (exampleNet 2)) [\<lparr>inputs = [1, 1], target = [0]\<rparr>, \<lparr>inputs = [1, 1], target = [0]\<rparr>] \<and>
   currentBatchCount (exampleNet 2) = 0 \<and>
   accWeightGradients (exampleNet 2) = map (\<lambda>l. map (\<lambda>n. replicate (length n) 0) l) (weights (exampleNet 2)) \<and>
   accBiasGradients (exampleNet 2) = map (\<lambda>l. replicate (length l) 0) (biases (exampleNet 2)) \<and>
   trainEach (exampleNet 2) [\<lparr>inputs = [1, 1], target = [0]\<rparr>, \<lparr>inputs = [1, 1], target = [0]\<rparr>]
     = Inr [exampleNetMid 2, exampleNetUpdated] \<and>
   weights (exampleNet 2) = [[[1/2], [1/2]]] \<and> biases (exampleNet 2) = [[1/4]] \<and>
   weights (exampleNetMid 2) = [[[1/2], [1/2]]] \<and> biases (exampleNetMid 2) = [[1/4]] \<and>
   weights exampleNetUpdated = [[[3/8], [3/8]]] \<and> biases exampleNetUpdated = [[1/8]] \<and>
   sampleGradients (exampleNet 2) \<lparr>inputs = [1, 1], target = [0]\<rparr> (exampleNetMid 2) \<and>
   sampleGradients (exampleNet 2) \<lparr>inputs = [1, 1], target = [0]\<rparr> exampleNetUpdated \<and>
   activations (exampleNetMid 2) = [[1, 1], [5/4]] \<and>
   neuronGradients (exampleNetMid 2) = [[0, 0], [5/4]] \<and>
   weightGradients (exampleNetMid 2) = [[[5/4], [5/4]]] \<and>
   weightGradients exampleNetUpdated = [[[5/4], [5/4]]] \<and>
   weights exampleNetUpdated ! 0 ! 0 ! 0 =
     weights (exampleNet 2) ! 0 ! 0 ! 0 -
     learningRate (exampleNet 2) *
       ((\<Sum>s<2. weightGradients ([exampleNetMid 2, exampleNetUpdated] ! s) ! 0 ! 0 ! 0) / real 2) \<and>
   (3/8 :: real) = 1/2 - 1/10 * ((5/4 + 5/4) / 2) \<and>
   accWeightGradients exampleNetUpdated = [[[0], [0]]] \<and> accBiasGradients exampleNetUpdated = [[0]] \<and>
   currentBatchCount exampleNetUpdated = 0"
proof -
  let ?d = "\<lparr>inputs = [1, 1], target = [0]\<rparr> :: DataPoint"
  let ?ds = "[?d, ?d]"
  have h: "batchSize (exampleNet 2) = real 2" "(0 :: nat) < 2" "length ?ds = 2"
    "list_all (fits (exampleNet 2)) ?ds" "currentBatchCount (exampleNet 2) = 0"
    "accWeightGradients (exampleNet 2) = map (\<lambda>l. map (\<lambda>n. replicate (length n) 0) l) (weights (exampleNet 2))"
    "accBiasGradients (exampleNet 2) = map (\<lambda>l. replicate (length l) 0) (biases (exampleNet 2))"
    using fits_exampleNet [of 2] by (simp_all add: exampleNet_def)
  have r: "0 < length (weights (exampleNet 2)) \<and> 0 < length (weights (exampleNet 2) ! 0) \<and>
      0 < length (weights (exampleNet 2) ! 0 ! 0)"
    by (simp add: exampleNet_def)
  have e: "trainEach (exampleNet 2) ?ds = Inr [exampleNetMid 2, exampleNetUpdated]"
    using train_exampleNet [of 2] train_exampleNetMid by simp
  from C3_batch_update [OF wf_engine_exampleNet h] obtain nets where
    n: "trainEach (exampleNet 2) ?ds = Inr nets"
      "\<forall>s<2. sampleGradients (exampleNet 2) (?ds ! s) (nets ! s)"
      "\<forall>i j k. i < length (weights (exampleNet 2)) \<and> j < length (weights (exampleNet 2) ! i) \<and>
          k < length (weights (exampleNet 2) ! i ! j) \<longrightarrow>
        weights (last nets) ! i ! j ! k =
          weights (exampleNet 2) ! i ! j ! k -
          learningRate (exampleNet 2) * ((\<Sum>s<2. weightGradients (nets ! s) ! i ! j ! k) / real 2)"
    by blast
  have nets: "nets = [exampleNetMid 2, exampleNetUpdated]"
    using n(1) e by simp
  have s0: "sampleGradients (exampleNet 2) ?d (exampleNetMid 2)"
    using n(2) [rule_format, of 0] by (simp add: nets)
  have s1: "sampleGradients (exampleNet 2) ?d exampleNetUpdated"
    using n(2) [rule_format, of 1] by (simp add: nets)
  have w: "weights exampleNetUpdated ! 0 ! 0 ! 0 =
     weights (exampleNet 2) ! 0 ! 0 ! 0 -
     learningRate (exampleNet 2) *
       ((\<Sum>s<2. weightGradients ([exampleNetMid 2, exampleNetUpdated] ! s) ! 0 ! 0 ! 0) / real 2)"
    using n(3) [rule_format, of 0 0 0] r by (simp add: nets)
  have v: "weights (exampleNet 2) = [[[1/2], [1/2]]]" "biases (exampleNet 2) = [[1/4]]"
    "weights (exampleNetMid 2) = [[[1/2], [1/2]]]" "biases (exampleNetMid 2) = [[1/4]]"
    "weights exampleNetUpdated = [[[3/8], [3/8]]]" "biases exampleNetUpdated = [[1/8]]"
    "activations (exampleNetMid 2) = [[1, 1], [5/4]]"
    "neuronGradients (exampleNetMid 2) = [[0, 0], [5/4]]"
    "weightGradients (exampleNetMid 2) = [[[5/4], [5/4]]]"
    "weightGradients exampleNetUpdated = [[[5/4], [5/4]]]"
    "accWeightGradients exampleNetUpdated = [[[0], [0]]]" "accBiasGradients exampleNetUpdated = [[0]]"
    "currentBatchCount exampleNetUpdated = 0"
    by (simp_all add: exampleNet_def exampleNetMid_def exampleNetUpdated_def)
  have a: "(3/8 :: real) = 1/2 - 1/10 * ((5/4 + 5/4) / 2)"
    by simp
  show ?thesis
    by (intro conjI wf_engine_exampleNet h e v s0 s1 w a)
qed

section \<open>The snapshot of a fresh engine: claim C10\<close>

lemma weightShape_Cons:
  "weightShape (a # b # ls) = replicate (neurons a) (neurons b) # weightShape (b # ls)"
  by (simp add: weightShape_def upt_conv_Cons map_Suc_upt [symmetric] del: upt_Suc)

lemma biasShape_Cons: "biasShape (a # b # ls) = neurons b # biasShape (b # ls)"
  by (simp add: biasShape_def upt_conv_Cons map_Suc_upt [symmetric] del: upt_Suc)

lemma initLayers_shapes:
  "initLayers rnd n ls = (ws, wgs, bs, ngs) \<Longrightarrow>
     map (map length) ws = weightShape ls \<and>
     wgs = map (\<lambda>l. map (\<lambda>r. replicate (length r) 0) l) ws \<and>
     map length bs = biasShape ls \<and>
     ngs = map (\<lambda>l. replicate (neurons l) 0) (tl ls)"
proof (induction rnd n ls arbitrary: ws wgs bs ngs rule: initLayers.induct)
  case (1 rnd n l0 l1 ls)
  obtain ws' wgs' bs' ngs' where rest:
    "initLayers rnd (n + neurons l0 * neurons l1 + neurons l1) (l1 # ls) = (ws', wgs', bs', ngs')"
    by (metis prod_cases4)
  from "1.IH" [OF refl refl refl refl refl refl refl rest]
  have ih: "map (map length) ws' = weightShape (l1 # ls)"
    "wgs' = map (\<lambda>l. map (\<lambda>r. replicate (length r) 0) l) ws'"
    "map length bs' = biasShape (l1 # ls)"
    "ngs' = map (\<lambda>l. replicate (neurons l) 0) ls"
    by simp_all
  from "1.prems" rest ih show ?case
    by (auto simp: Let_def weightShape_Cons biasShape_Cons comp_def map_replicate_const)
qed (simp_all add: weightShape_def biasShape_def)

lemma construct_fresh:
  assumes "construct ls lr bs rnd = Inr net"
  shows "layers net = ls" and "ls \<noteq> []" and "wf_engine net"
    and "activations net = []" and "preActivations net = []"
    and "neuronGradients net = map (\<lambda>l. replicate (neurons l) 0) ls"
    and "weightGradients net = map (\<lambda>l. map (\<lambda>r. replicate (length r) 0) l) (weights net)"
proof -
  obtain ws wgs bss ngs where il: "initLayers rnd 0 ls = (ws, wgs, bss, ngs)"
    by (metis prod_cases4)
  note sh = initLayers_shapes [OF il]
  show ne: "ls \<noteq> []"
    using assms by (auto simp: construct_def il idx_def)
  then have net: "net = resetAccumulators
          \<lparr>layers = ls, weights = ws, biases = bss,
           activations = [], preActivations = [],
           neuronGradients = replicate (neurons (ls ! 0)) 0 # ngs,
           weightGradients = wgs,
           learningRate = (case lr of None \<Rightarrow> 0.1 | Some r \<Rightarrow> r),
           batchSize = (case bs of None \<Rightarrow> 1 | Some b \<Rightarrow> b),
           currentBatchCount = 0,
           accWeightGradients = [], accBiasGradients = []\<rparr>"
    using assms by (simp add: construct_def il)
  show "layers net = ls" "activations net = []" "preActivations net = []"
    by (simp_all add: net resetAccumulators_def)
  show "weightGradients net = map (\<lambda>l. map (\<lambda>r. replicate (length r) 0) l) (weights net)"
    using sh by (simp add: net resetAccumulators_def)
  show "neuronGradients net = map (\<lambda>l. replicate (neurons l) 0) ls"
    using sh ne by (cases ls) (simp_all add: net resetAccumulators_def)
  show "wf_engine net"
    using sh ne
    by (simp add: net resetAccumulators_def wf_engine_def wf_params_def comp_def)
qed

lemma filter_layer_concat:
  assumes "\<And>i j. g (f i j) = i"
  shows "filter (\<lambda>n. g n = i) (concat (map (\<lambda>i'. map (f i') [0..<m i']) [0..<N])) =
     (if i < N then map (f i) [0..<m i] else [])"
proof (induction N)
  case 0
  then show ?case by simp
next
  case (Suc N)
  have "filter (\<lambda>n. g n = i) (map (f N) [0..<m N]) = (if i = N then map (f N) [0..<m N] else [])"
    by (auto simp: filter_map comp_def assms)
  with Suc show ?case
    by (auto simp: less_Suc_eq)
qed

text \<open>
  C10: on the engine the constructor returns, before any other call,
  \<^verbatim>\<open>getVisualizationData\<close> returns: one neuron record per neuron, layer by layer, each
  with activation 0, pre-activation 0 and gradient 0, and with bias 0 in the input layer;
  and one connection record per pair of a neuron and a neuron of the next layer, each with
  gradient 0.
\<close>

theorem C10_fresh_snapshot:
  assumes "construct ls lr bs rnd = Inr net"
  shows "\<exists>ns cs. getVisualizationData net = Inr (ns, cs) \<and>
     map (\<lambda>n. (nLayerIndex n, nNeuronIndex n)) ns =
       concat (map (\<lambda>i. map (\<lambda>j. (i, j)) [0..<neurons (ls ! i)]) [0..<length ls]) \<and>
     list_all (\<lambda>n. nActivation n = Some 0 \<and> nPreActivation n = Some 0 \<and> nGradient n = Some 0 \<and>
                 (nLayerIndex n = 0 \<longrightarrow> nBias n = Some 0)) ns \<and>
     map (\<lambda>c. (cSourceId c, cTargetId c)) cs =
       concat (map (\<lambda>i. concat (map (\<lambda>j. map (\<lambda>k.
           (''l'' @ showNat i @ ''-n'' @ showNat j, ''l'' @ showNat (Suc i) @ ''-n'' @ showNat k))
           [0..<neurons (ls ! Suc i)]) [0..<neurons (ls ! i)])) [0..<length ls - 1]) \<and>
     list_all (\<lambda>c. cGradient c = Some 0) cs"
proof -
  note fr = construct_fresh [OF assms]
  note sh = wf_engine_shapes [OF fr(3), unfolded fr(1)]
  define nrec where "nrec i j =
     \<lparr>nId = ''l'' @ showNat i @ ''-n'' @ showNat j, nLayerIndex = i, nNeuronIndex = j,
      nActivation = Some 0, nPreActivation = Some 0,
      nBias = (if i > 0 then Some (biases net ! (i - 1) ! j) else Some 0),
      nGradient = Some 0,
      nPosition = ((real i - (real (length ls) - 1) / 2) * 6, (real j - (real (neurons (ls ! i)) - 1) / 2) * 2, 0)\<rparr>"
    for i j
  define crec where "crec i j k =
     \<lparr>cId = ''c-l'' @ showNat i @ ''n'' @ showNat j @ ''-l'' @ showNat (i + 1) @ ''n'' @ showNat k,
      cSourceId = nId (nrec i j), cTargetId = nId (nrec (Suc i) k),
      cWeight = Some (weights net ! i ! j ! k), cGradient = Some 0,
      cSourcePos = nPosition (nrec i j), cTargetPos = nPosition (nrec (Suc i) k)\<rparr>"
    for i j k
  have nr: "neuronRecord net i j = Inr (nrec i j)" if "i < length ls" "j < neurons (ls ! i)" for i j
  proof -
    have "cell (activations net) i j = Some 0" "cell (preActivations net) i j = Some 0"
      by (simp_all add: cell_def opt_def fr)
    moreover have "cell (neuronGradients net) i j = Some 0"
      using that by (simp add: cell_def fr)
    moreover have "i - 1 < length (biases net) \<and> j < length (biases net ! (i - 1))" if "i > 0"
      using that \<open>i < length ls\<close> \<open>j < neurons (ls ! i)\<close> sh(3) sh(8) [of "i - 1"] by simp
    ultimately show ?thesis
      by (simp add: neuronRecord_def nrec_def fr(1) Let_def)
  qed
  let ?ns = "concat (map (\<lambda>i. map (nrec i) [0..<neurons (ls ! i)]) [0..<length ls])"
  have per: "push_loop [0..<length (layers net)] (\<lambda>i.
          push_loop [0..<neurons (layers net ! i)] (neuronRecord net i))
      = Inr (map (\<lambda>i. map (nrec i) [0..<neurons (ls ! i)]) [0..<length ls])"
    unfolding fr(1)
    by (rule push_loop_map, rule push_loop_map) (simp add: nr)
  have src: "filter (\<lambda>n. nLayerIndex n = i) ?ns = (if i < length ls then map (nrec i) [0..<neurons (ls ! i)] else [])"
    for i
    by (rule filter_layer_concat) (simp add: nrec_def)
  have cr: "connectionRecord net (map (nrec i) [0..<neurons (ls ! i)])
        (map (nrec (Suc i)) [0..<neurons (ls ! Suc i)]) i j k = Inr (crec i j k)"
    if "i < length ls - 1" "j < neurons (ls ! i)" "k < neurons (ls ! Suc i)" for i j k
    using that sh(2) sh(6,7) [of i]
    by (simp add: connectionRecord_def crec_def fr(7) Let_def)
  let ?cs = "concat (map (\<lambda>i. concat (map (\<lambda>j. map (crec i j) [0..<neurons (ls ! Suc i)])
      [0..<neurons (ls ! i)])) [0..<length ls - 1])"
  have conn: "push_loop [0..<length (weights net)] (\<lambda>i.
          let sourceNeurons = filter (\<lambda>n. nLayerIndex n = i) ?ns;
              targetNeurons = filter (\<lambda>n. nLayerIndex n = i + 1) ?ns
          in and_then
               (push_loop [0..<length sourceNeurons] (\<lambda>j.
                  push_loop [0..<length targetNeurons] (connectionRecord net sourceNeurons targetNeurons i j)))
               (\<lambda>rows. Inr (concat rows)))
      = Inr (map (\<lambda>i. concat (map (\<lambda>j. map (crec i j) [0..<neurons (ls ! Suc i)])
          [0..<neurons (ls ! i)])) [0..<length ls - 1])"
    unfolding sh(2)
  proof (rule push_loop_map)
    fix i assume "i \<in> set [0..<length ls - 1]"
    then have i: "i < length ls - 1" "i < length ls" "Suc i < length ls" by simp_all
    have rows: "push_loop [0..<neurons (ls ! i)] (\<lambda>j.
        push_loop [0..<neurons (ls ! Suc i)]
          (connectionRecord net (map (nrec i) [0..<neurons (ls ! i)])
             (map (nrec (Suc i)) [0..<neurons (ls ! Suc i)]) i j))
       = Inr (map (\<lambda>j. map (crec i j) [0..<neurons (ls ! Suc i)]) [0..<neurons (ls ! i)])"
      by (rule push_loop_map, rule push_loop_map) (use i in \<open>simp add: cr\<close>)
    show "(let sourceNeurons = filter (\<lambda>n. nLayerIndex n = i) ?ns;
              targetNeurons = filter (\<lambda>n. nLayerIndex n = i + 1) ?ns
          in and_then
               (push_loop [0..<length sourceNeurons] (\<lambda>j.
                  push_loop [0..<length targetNeurons] (connectionRecord net sourceNeurons targetNeurons i j)))
               (\<lambda>rows. Inr (concat rows)))
       = Inr (concat (map (\<lambda>j. map (crec i j) [0..<neurons (ls ! Suc i)]) [0..<neurons (ls ! i)]))"
      unfolding Let_def src using i rows by simp
  qed
  have gv: "getVisualizationData net = Inr (?ns, ?cs)"
    unfolding getVisualizationData_def per and_then_Inr Let_def conn [unfolded Let_def] ..
  have n1: "map (\<lambda>n. (nLayerIndex n, nNeuronIndex n)) ?ns =
       concat (map (\<lambda>i. map (\<lambda>j. (i, j)) [0..<neurons (ls ! i)]) [0..<length ls])"
    by (simp add: map_concat comp_def nrec_def)
  have n2: "list_all (\<lambda>n. nActivation n = Some 0 \<and> nPreActivation n = Some 0 \<and> nGradient n = Some 0 \<and>
                 (nLayerIndex n = 0 \<longrightarrow> nBias n = Some 0)) ?ns"
    by (auto simp: list_all_iff nrec_def)
  have c1: "map (\<lambda>c. (cSourceId c, cTargetId c)) ?cs =
       concat (map (\<lambda>i. concat (map (\<lambda>j. map (\<lambda>k.
           (''l'' @ showNat i @ ''-n'' @ showNat j, ''l'' @ showNat (Suc i) @ ''-n'' @ showNat k))
           [0..<neurons (ls ! Suc i)]) [0..<neurons (ls ! i)])) [0..<length ls - 1])"
    by (simp add: map_concat comp_def crec_def nrec_def)
  have c2: "list_all (\<lambda>c. cGradient c = Some 0) ?cs"
    by (auto simp: list_all_iff crec_def)
  from gv n1 n2 c1 c2 show ?thesis
    by blast
qed

theorem C10_fresh_snapshot_witness:
  "construct initialLayers (Some (1/10)) (Some 1) (\<lambda>n. 3/4) = Inr (initialNet 1) \<and>
   (\<exists>ns cs. getVisualizationData (initialNet 1) = Inr (ns, cs) \<and>
      map (\<lambda>n. (nLayerIndex n, nNeuronIndex n)) ns = [(0, 0), (0, 1), (1, 0), (1, 1), (1, 2), (2, 0)] \<and>
      length cs = 9 \<and>
      list_all (\<lambda>n. nActivation n = Some 0 \<and> nPreActivation n = Some 0 \<and> nGradient n = Some 0 \<and>
                 (nLayerIndex n = 0 \<longrightarrow> nBias n = Some 0)) ns \<and>
      list_all (\<lambda>c. cGradient c = Some 0) cs)"
proof -
  have c: "construct initialLayers (Some (1/10)) (Some 1) (\<lambda>n. 3/4) = Inr (initialNet 1)"
    by (rule construct_initialNet)
  from C10_fresh_snapshot [OF c] obtain ns cs where r:
    "getVisualizationData (initialNet 1) = Inr (ns, cs)"
    "map (\<lambda>n. (nLayerIndex n, nNeuronIndex n)) ns =
       concat (map (\<lambda>i. map (\<lambda>j. (i, j)) [0..<neurons (initialLayers ! i)]) [0..<length initialLayers])"
    "list_all (\<lambda>n. nActivation n = Some 0 \<and> nPreActivation n = Some 0 \<and> nGradient n = Some 0 \<and>
                 (nLayerIndex n = 0 \<longrightarrow> nBias n = Some 0)) ns"
    "map (\<lambda>c. (cSourceId c, cTargetId c)) cs =
       concat (map (\<lambda>i. concat (map (\<lambda>j. map (\<lambda>k.
           (''l'' @ showNat i @ ''-n'' @ showNat j, ''l'' @ showNat (Suc i) @ ''-n'' @ showNat k))
           [0..<neurons (initialLayers ! Suc i)]) [0..<neurons (initialLayers ! i)])) [0..<length initialLayers - 1])"
    "list_all (\<lambda>c. cGradient c = Some 0) cs"
    by blast
  have "map (\<lambda>n. (nLayerIndex n, nNeuronIndex n)) ns = [(0, 0), (0, 1), (1, 0), (1, 1), (1, 2), (2, 0)]"
    using r(2) by (simp add: initialLayers_def eval_nat_numeral upt_Suc_rec)
  moreover have "length cs = 9"
    using arg_cong [OF r(4), of length]
    by (simp add: initialLayers_def eval_nat_numeral upt_Suc_rec)
  ultimately show ?thesis
    using c r(1,3,5) by (intro conjI exI) assumption+
qed

section \<open>Engines reached from the constructor are well-formed\<close>

lemma wf_engine_resetAccumulators:
  assumes "wf_params net"
  shows "wf_engine (resetAccumulators net)"
  using assms by (simp add: wf_engine_def wf_params_def resetAccumulators_def comp_def)

lemma wf_params_updated: "layers net \<noteq> [] \<Longrightarrow> wf_params (updated net)"
  using updated_shapes [of net] by (simp add: wf_params_def updated_def)

lemma forward_wf:
  assumes "wf_engine net" and "forward net xs = Inr (net', out)"
  shows "wf_engine net' \<and> layers net' = layers net"
proof -
  obtain a p where "net' = net\<lparr>activations := a, preActivations := p\<rparr>"
    using forward_frame [OF assms(2)] by blast
  then show ?thesis
    using assms(1) by (simp add: wf_engine_def wf_params_def)
qed

lemma and_then_InrE:
  assumes "and_then m f = Inr y"
  obtains x where "m = Inr x" and "f x = Inr y"
  using assms by (cases m) simp_all

lemma for_loop_unchanged:
  assumes "\<And>i s s'. body i s = Inr s' \<Longrightarrow> s' = s"
  shows "for_loop is body s = Inr s' \<Longrightarrow> s' = s"
proof (induction "is" arbitrary: s)
  case Nil
  then show ?case by simp
next
  case (Cons i "is")
  then obtain s1 where b: "body i s = Inr s1" and r: "for_loop is body s1 = Inr s'"
    by (cases "body i s") auto
  from assms [OF b] Cons.IH [OF r] show ?case by simp
qed

text \<open>
  With batch size 0 the update step completes only when it never forms a product with the
  scaler, and then it changes nothing.
\<close>

lemma applyUpdate_zero:
  assumes "batchSize net = 0" and "applyUpdate net = Inr (ws, bs)"
  shows "ws = weights net \<and> bs = biases net"
proof -
  have "(ws, bs) = (weights net, biases net)"
  proof (rule for_loop_unchanged [OF _ assms(2) [unfolded applyUpdate_def Let_def]])
    fix i and s s' :: "real list list list \<times> real list list"
    assume step: "(case s of (ws0, bs0) \<Rightarrow>
           and_then
             (for_loop [0..<length (weights net ! i)] (\<lambda>j.
                for_loop [0..<length (weights net ! i ! j)] (\<lambda>k ws.
                  and_then (idx (accWeightGradients net) i) (\<lambda>al.
                  and_then (idx al j) (\<lambda>ar.
                  and_then (num ar k) (\<lambda>acc.
                  and_then (times_scaler acc (if batchSize net = 0 then None else Some (1 / batchSize net))) (\<lambda>avgGrad.
                  add3 ws i j k (- (learningRate net * avgGrad))))))))
                ws0)
             (\<lambda>ws'.
           and_then (idx (biases net) i) (\<lambda>b.
           and_then
             (for_loop [0..<length b]
                (\<lambda>k bs.
                   and_then (idx (accBiasGradients net) i) (\<lambda>ar.
                   and_then (num ar k) (\<lambda>acc.
                   and_then (times_scaler acc (if batchSize net = 0 then None else Some (1 / batchSize net))) (\<lambda>avgGrad.
                   add2 bs i k (- (learningRate net * avgGrad))))))
                bs0)
             (\<lambda>bs'. Inr (ws', bs'))))) = Inr s'"
    obtain ws0 bs0 where s: "s = (ws0, bs0)" by (cases s)
    obtain ws1 bs1 where s': "s' = (ws1, bs1)" by (cases s')
    let ?W = "for_loop [0..<length (weights net ! i)] (\<lambda>j.
                for_loop [0..<length (weights net ! i ! j)] (\<lambda>k ws.
                  and_then (idx (accWeightGradients net) i) (\<lambda>al.
                  and_then (idx al j) (\<lambda>ar.
                  and_then (num ar k) (\<lambda>acc.
                  and_then (times_scaler acc (if batchSize net = 0 then None else Some (1 / batchSize net))) (\<lambda>avgGrad.
                  add3 ws i j k (- (learningRate net * avgGrad))))))))
                ws0"
    let ?B = "\<lambda>b. for_loop [0..<length b]
                (\<lambda>k bs.
                   and_then (idx (accBiasGradients net) i) (\<lambda>ar.
                   and_then (num ar k) (\<lambda>acc.
                   and_then (times_scaler acc (if batchSize net = 0 then None else Some (1 / batchSize net))) (\<lambda>avgGrad.
                   add2 bs i k (- (learningRate net * avgGrad))))))
                bs0"
    from step have "and_then ?W (\<lambda>ws'. and_then (idx (biases net) i) (\<lambda>b.
        and_then (?B b) (\<lambda>bs'. Inr (ws', bs')))) = Inr (ws1, bs1)"
      unfolding s s' prod.case .
    then obtain x where x: "?W = Inr x" and r1: "and_then (idx (biases net) i) (\<lambda>b.
        and_then (?B b) (\<lambda>bs'. Inr (x, bs'))) = Inr (ws1, bs1)"
      by (rule and_then_InrE)
    from r1 obtain b where "idx (biases net) i = Inr b" and r2: "and_then (?B b) (\<lambda>bs'. Inr (x, bs')) = Inr (ws1, bs1)"
      by (rule and_then_InrE)
    from r2 obtain y where y: "?B b = Inr y" and r3: "Inr (x, y) = (Inr (ws1, bs1) :: failure + _)"
      by (rule and_then_InrE)
    from x y r3 have w: "?W = Inr ws1" and b: "?B b = Inr bs1"
      by simp_all
    have "ws1 = ws0"
    proof (rule for_loop_unchanged [OF _ w])
      fix j and t t' :: "real list list list"
      assume "for_loop [0..<length (weights net ! i ! j)] (\<lambda>k ws.
                  and_then (idx (accWeightGradients net) i) (\<lambda>al.
                  and_then (idx al j) (\<lambda>ar.
                  and_then (num ar k) (\<lambda>acc.
                  and_then (times_scaler acc (if batchSize net = 0 then None else Some (1 / batchSize net))) (\<lambda>avgGrad.
                  add3 ws i j k (- (learningRate net * avgGrad))))))) t = Inr t'"
      then show "t' = t"
        by (rule for_loop_unchanged [rotated])
          (use assms(1) in \<open>auto simp: and_then_def times_scaler_def split: sum.splits\<close>)
    qed
    moreover have "bs1 = bs0"
      by (rule for_loop_unchanged [OF _ b])
        (use assms(1) in \<open>auto simp: and_then_def times_scaler_def split: sum.splits\<close>)
    ultimately show "s' = s"
      by (simp add: s s')
  qed
  then show ?thesis by simp
qed

lemma train_wf:
  assumes "wf_engine net" and "length xs = neurons (layers net ! 0)"
    and "neurons (last (layers net)) \<le> length targets"
    and tr: "train net xs targets = Inr (net', out)"
  shows "wf_engine net' \<and> layers net' = layers net"
proof -
  let ?n3 = "backprop (forwardState net xs) targets"
  have wf3: "wf_engine ?n3"
    using assms(1) by (simp add: wf_engine_backprop)
  have ne: "layers ?n3 \<noteq> []"
    using assms(1) by (simp add: wf_engine_def wf_params_def)
  have wfu: "wf_engine (resetAccumulators (updated ?n3))"
    by (rule wf_engine_resetAccumulators [OF wf_params_updated [OF ne]])
  have wfr: "wf_engine (resetAccumulators ?n3)"
    using wf3 by (intro wf_engine_resetAccumulators) (simp add: wf_engine_def)
  have "net' = ?n3 \<or> net' = resetAccumulators (updated ?n3) \<or> net' = resetAccumulators ?n3"
  proof (cases "batchSize net \<le> real (currentBatchCount net) + 1")
    case True
    show ?thesis
    proof (cases "batchSize net = 0")
      case False
      from train_updates [OF assms(1-3) True this] tr show ?thesis by simp
    next
      case z: True
      from tr train_ok [OF assms(1-3)] True
      obtain ws bs where u: "applyUpdate ?n3 = Inr (ws, bs)"
        and n: "net' = resetAccumulators (?n3\<lparr>weights := ws, biases := bs\<rparr>)"
        by (auto simp: Let_def add.commute and_then_def split: sum.splits)
      from applyUpdate_zero [OF _ u] z have "ws = weights ?n3" "bs = biases ?n3"
        by simp_all
      moreover have "n3\<lparr>weights := weights n3, biases := biases n3\<rparr> = n3" for n3 :: MiniNeuralNet
        by simp
      ultimately have "net' = resetAccumulators ?n3"
        unfolding n by (simp only:)
      then show ?thesis by blast
    qed
  next
    case False
    then have "real (currentBatchCount net) + 1 < batchSize net" by simp
    from train_accumulates [OF assms(1-3) this] tr show ?thesis by simp
  qed
  moreover have "layers (resetAccumulators ?n3) = layers net"
    by (simp add: resetAccumulators_def)
  ultimately show ?thesis
    using wf3 wfu wfr by (elim disjE) simp_all
qed

lemma updateConfig_wf:
  assumes "wf_engine net"
  shows "wf_engine (updateConfig net lr bs) \<and> layers (updateConfig net lr bs) = layers net"
proof (cases "batchSize net = bs")
  case True
  then show ?thesis
    using assms by (simp add: updateConfig_def Let_def wf_engine_def wf_params_def)
next
  case False
  have "wf_params (net\<lparr>learningRate := lr, batchSize := bs, currentBatchCount := 0\<rparr>)"
    using assms by (simp add: wf_engine_def wf_params_def)
  from wf_engine_resetAccumulators [OF this] False show ?thesis
    by (simp add: updateConfig_def Let_def resetAccumulators_def)
qed

lemma callEngine_wf:
  assumes "wf_engine net" and "fitting net c" and "callEngine net c = Inr net'"
  shows "wf_engine net' \<and> layers net' = layers net"
proof (cases c)
  case (Forward xs)
  then obtain out where "forward net xs = Inr (net', out)"
    using assms(3) by (auto simp: callEngine_def and_then_def split: sum.splits)
  from forward_wf [OF assms(1) this] show ?thesis .
next
  case (Train xs targets)
  then obtain out where tr: "train net xs targets = Inr (net', out)"
    using assms(3) by (auto simp: callEngine_def and_then_def split: sum.splits)
  have f: "length xs = neurons (layers net ! 0)" "neurons (last (layers net)) \<le> length targets"
    using assms(2) Train by (simp_all add: fitting_def fits_def)
  from train_wf [OF assms(1) f tr] show ?thesis .
next
  case (UpdateConfig lr bs)
  then have "net' = updateConfig net lr bs"
    using assms(3) by (simp add: callEngine_def)
  then show ?thesis
    using updateConfig_wf [OF assms(1)] by simp
next
  case GetVisualizationData
  then show ?thesis
    using assms(1,3) by (auto simp: callEngine_def and_then_def split: sum.splits)
qed

lemma fitting_layers: "layers n1 = layers net \<Longrightarrow> fitting n1 = fitting net"
  by (auto simp: fitting_def fits_def fun_eq_iff split: call.splits)

lemma fittingCalls_layers: "layers n1 = layers net \<Longrightarrow> fittingCalls n1 cs = fittingCalls net cs"
  by (induction cs) (simp_all add: fitting_layers [of n1 net])

text \<open>
  Every engine reached from the constructor by completed calls whose vectors have the
  engine's widths is well-formed: the hypothesis of the theorems on \<^verbatim>\<open>forward\<close> and
  \<^verbatim>\<open>train\<close> holds for each of them.
\<close>

lemma calls_wf:
  assumes "wf_engine net" and "fittingCalls net cs" and "calls net cs = Inr net'"
  shows "wf_engine net'"
  using assms
proof (induction cs arbitrary: net)
  case Nil
  then show ?case by simp
next
  case (Cons c cs)
  then obtain n1 where c: "callEngine net c = Inr n1" and cs: "calls n1 cs = Inr net'"
    by (cases "callEngine net c") auto
  from callEngine_wf [OF Cons.prems(1) _ c] Cons.prems(2)
  have n1: "wf_engine n1" "layers n1 = layers net" by simp_all
  from Cons.IH [OF n1(1) _ cs] Cons.prems(2) fittingCalls_layers [OF n1(2)] show ?case
    by simp
qed

lemma reachable_wf:
  assumes "construct ls lr bs rnd = Inr net0" and "fittingCalls net0 cs" and "calls net0 cs = Inr net"
  shows "wf_engine net"
  using calls_wf [OF construct_fresh(3) [OF assms(1)] assms(2,3)] .


end
